(* ===== verification/Prelude.thy ===== *)
theory Prelude
  imports Main "HOL-Library.Word"
begin

text \<open>
  Shared vocabulary of the development: the Python exceptions the handler can meet, the
  exception-and-state combinators that model a Python statement sequence inside a
  \<open>try\<close> block, and generic lemmas on them. A computation of type
  \<open>('s, 'a) pyst\<close> takes the world, returns either a raised exception (\<open>Inl\<close>)
  or a value (\<open>Inr\<close>), and the world after the effects that happened before the raise.
\<close>

named_theorems pyst_simps "evaluation rules of the exception-state combinators"

type_synonym byte = "8 word"

text \<open>The exceptions raised by the code, the libraries it calls and the AWS SDK.\<close>

datatype exc =
    KeyError string
  | TypeError string
  | AttributeError string
  | ZeroDivisionError
  | UnidentifiedImageError
  | OSError string
  | ValueError string
  | ParamValidationError string
  | ClientError string string \<comment> \<open>error code, operation name\<close>

text \<open>\<open>type(e).__name__\<close>: boto3 raises a modelled exception class for \<open>NoSuchKey\<close>.\<close>

fun exc_name :: "exc \<Rightarrow> string" where
  "exc_name (KeyError _) = ''KeyError''"
| "exc_name (TypeError _) = ''TypeError''"
| "exc_name (AttributeError _) = ''AttributeError''"
| "exc_name ZeroDivisionError = ''ZeroDivisionError''"
| "exc_name UnidentifiedImageError = ''UnidentifiedImageError''"
| "exc_name (OSError _) = ''OSError''"
| "exc_name (ValueError _) = ''ValueError''"
| "exc_name (ParamValidationError _) = ''ParamValidationError''"
| "exc_name (ClientError code _) = (if code = ''NoSuchKey'' then ''NoSuchKey'' else ''ClientError'')"

type_synonym ('s, 'a) pyst = "'s \<Rightarrow> (exc + 'a) \<times> 's"

definition ret :: "'a \<Rightarrow> ('s, 'a) pyst" where
  "ret a s = (Inr a, s)"

definition raise :: "exc \<Rightarrow> ('s, 'a) pyst" where
  "raise e s = (Inl e, s)"

definition liftE :: "exc + 'a \<Rightarrow> ('s, 'a) pyst" where
  "liftE r s = (r, s)"

definition bindE :: "('s, 'a) pyst \<Rightarrow> ('a \<Rightarrow> ('s, 'b) pyst) \<Rightarrow> ('s, 'b) pyst" where
  "bindE m f s = (case m s of (Inl e, s') \<Rightarrow> (Inl e, s') | (Inr a, s') \<Rightarrow> f a s')"

text \<open>\<open>try: m except Exception as e: h(e)\<close>\<close>

definition catchE :: "('s, 'a) pyst \<Rightarrow> (exc \<Rightarrow> ('s, 'a) pyst) \<Rightarrow> ('s, 'a) pyst" where
  "catchE m h s = (case m s of (Inl e, s') \<Rightarrow> h e s' | (Inr a, s') \<Rightarrow> (Inr a, s'))"

text \<open>A pure step that may raise, as an \<open>exc + 'a\<close> value.\<close>

definition bindS :: "exc + 'a \<Rightarrow> ('a \<Rightarrow> exc + 'b) \<Rightarrow> exc + 'b" where
  "bindS r f = (case r of Inl e \<Rightarrow> Inl e | Inr a \<Rightarrow> f a)"

lemma ret_apply [simp, pyst_simps]: "ret a s = (Inr a, s)"
  by (simp add: ret_def)

lemma raise_apply [simp, pyst_simps]: "raise e s = (Inl e, s)"
  by (simp add: raise_def)

lemma liftE_apply [simp, pyst_simps]: "liftE r s = (r, s)"
  by (simp add: liftE_def)

lemma bindS_simps [simp, pyst_simps]:
  "bindS (Inl e) f = Inl e"
  "bindS (Inr a) f = f a"
  by (simp_all add: bindS_def)

lemma bindS_Inr_iff: "bindS r f = Inr b \<longleftrightarrow> (\<exists>a. r = Inr a \<and> f a = Inr b)"
  by (cases r) simp_all

lemma bindE_apply [pyst_simps]:
  "bindE m f s = (case m s of (Inl e, s') \<Rightarrow> (Inl e, s') | (Inr a, s') \<Rightarrow> f a s')"
  by (simp add: bindE_def)

lemma bindE_ret [simp, pyst_simps]: "bindE (ret a) f = f a"
  by (simp add: bindE_def fun_eq_iff)

lemma bindE_raise [simp, pyst_simps]: "bindE (raise e) f = raise e"
  by (simp add: bindE_def fun_eq_iff)

lemma bindE_liftE [simp, pyst_simps]:
  "bindE (liftE (Inl e)) f = raise e"
  "bindE (liftE (Inr a)) f = f a"
  by (simp_all add: bindE_def fun_eq_iff)

lemma bindE_Inl [simp]: "m s = (Inl e, s') \<Longrightarrow> bindE m f s = (Inl e, s')"
  by (simp add: bindE_def)

lemma bindE_Inr [simp]: "m s = (Inr a, s') \<Longrightarrow> bindE m f s = f a s'"
  by (simp add: bindE_def)

lemma bindE_assoc [simp]: "bindE (bindE m f) g = bindE m (\<lambda>a. bindE (f a) g)"
  by (auto simp: bindE_def fun_eq_iff split: prod.splits sum.splits)

lemma catchE_Inl [simp]: "m s = (Inl e, s') \<Longrightarrow> catchE m h s = h e s'"
  by (simp add: catchE_def)

lemma catchE_Inr [simp]: "m s = (Inr a, s') \<Longrightarrow> catchE m h s = (Inr a, s')"
  by (simp add: catchE_def)

lemma catchE_apply [pyst_simps]:
  "catchE m h s = (case m s of (Inl e, s') \<Rightarrow> h e s' | (Inr a, s') \<Rightarrow> (Inr a, s'))"
  by (simp add: catchE_def)

lemma not_isl_iff: "\<not> isl r \<longleftrightarrow> (\<exists>v. r = Inr v)"
  by (cases r) simp_all

text \<open>A computation that never raises: the property the isolation theorems establish.\<close>

definition no_raise :: "('s, 'a) pyst \<Rightarrow> 's \<Rightarrow> bool" where
  "no_raise m s \<longleftrightarrow> (\<forall>e s'. m s \<noteq> (Inl e, s'))"

lemma no_raise_catchE:
  "(\<And>e s'. no_raise (h e) s') \<Longrightarrow> no_raise (catchE m h) s"
  by (auto simp: no_raise_def catchE_def split: prod.splits sum.splits)

end
