(* ===== verification/Event.thy ===== *)
theory Event
  imports Prelude
begin

text \<open>
  The Lambda event as the handler sees it: the runtime parses the JSON payload with
  \<open>json.loads\<close>, so the event is a JSON value (numbers are integers here; the S3 event
  schema carries none the code reads). A JSON object is a list of key/value pairs in
  document order; as for \<open>json.loads\<close>, a repeated key keeps its last value and its
  first position. The Python operations (their messages without Python's quotes) the handlers apply to it raise as Python does:
  \<open>x[k]\<close> (\<open>py_getitem\<close>), \<open>x.get(k, default)\<close> (\<open>py_get\<close>), \<open>for r in x\<close>
  (\<open>py_iter\<close>) and \<open>len(x)\<close> (\<open>py_len\<close>).
\<close>

datatype json =
    JNull
  | JBool bool
  | JNum int
  | JStr string
  | JList "json list"
  | JObj "(string \<times> json) list"

text \<open>\<open>type(x).__name__\<close>, used in Python's error messages.\<close>

fun py_type_name :: "json \<Rightarrow> string" where
  "py_type_name JNull = ''NoneType''"
| "py_type_name (JBool _) = ''bool''"
| "py_type_name (JNum _) = ''int''"
| "py_type_name (JStr _) = ''str''"
| "py_type_name (JList _) = ''list''"
| "py_type_name (JObj _) = ''dict''"

text \<open>The keys of a dict in insertion order (first occurrence of each).\<close>

definition dict_keys :: "(string \<times> json) list \<Rightarrow> string list" where
  "dict_keys kvs = rev (remdups (rev (map fst kvs)))"

definition dict_lookup :: "(string \<times> json) list \<Rightarrow> string \<Rightarrow> json option" where
  "dict_lookup kvs k = map_of (rev kvs) k"

fun py_getitem :: "json \<Rightarrow> string \<Rightarrow> exc + json" where
  "py_getitem (JObj kvs) k = (case dict_lookup kvs k of None \<Rightarrow> Inl (KeyError k) | Some v \<Rightarrow> Inr v)"
| "py_getitem (JStr _) k = Inl (TypeError ''string indices must be integers'')"
| "py_getitem (JList _) k = Inl (TypeError ''list indices must be integers or slices, not str'')"
| "py_getitem v k = Inl (TypeError (py_type_name v @ '' object is not subscriptable''))"

fun py_get :: "json \<Rightarrow> string \<Rightarrow> json \<Rightarrow> exc + json" where
  "py_get (JObj kvs) k d = (case dict_lookup kvs k of None \<Rightarrow> Inr d | Some v \<Rightarrow> Inr v)"
| "py_get v k d = Inl (AttributeError (py_type_name v @ '' object has no attribute get''))"

fun py_iter :: "json \<Rightarrow> exc + json list" where
  "py_iter (JList xs) = Inr xs"
| "py_iter (JObj kvs) = Inr (map JStr (dict_keys kvs))"
| "py_iter (JStr s) = Inr (map (\<lambda>c. JStr [c]) s)"
| "py_iter v = Inl (TypeError (py_type_name v @ '' object is not iterable''))"

fun py_len :: "json \<Rightarrow> exc + nat" where
  "py_len (JList xs) = Inr (length xs)"
| "py_len (JObj kvs) = Inr (length (dict_keys kvs))"
| "py_len (JStr s) = Inr (length s)"
| "py_len v = Inl (TypeError (''object of type '' @ py_type_name v @ '' has no len()''))"

text \<open>
  \<open>record['s3'][k1][k2]\<close> and \<open>record.get('s3', {}).get(k1, {}).get(k2, 'Unknown')\<close>,
  the two ways the handler reads a record's bucket name and object key.
\<close>

definition s3_field :: "json \<Rightarrow> string \<Rightarrow> string \<Rightarrow> exc + json" where
  "s3_field record k1 k2 =
     bindS (py_getitem record ''s3'') (\<lambda>s3. bindS (py_getitem s3 k1) (\<lambda>v. py_getitem v k2))"

definition s3_field_get :: "json \<Rightarrow> string \<Rightarrow> string \<Rightarrow> exc + json" where
  "s3_field_get record k1 k2 =
     bindS (py_get record ''s3'' (JObj [])) (\<lambda>s3.
     bindS (py_get s3 k1 (JObj [])) (\<lambda>v. py_get v k2 (JStr ''Unknown'')))"

text \<open>The S3 notification record the platform delivers for \<open>bucket\<close> and \<open>key\<close>.\<close>

definition s3_record :: "string \<Rightarrow> string \<Rightarrow> json" where
  "s3_record bucket key =
     JObj [(''eventSource'', JStr ''aws:s3''),
           (''s3'', JObj [(''bucket'', JObj [(''name'', JStr bucket)]),
                          (''object'', JObj [(''key'', JStr key)])])]"

lemma dict_lookup_Cons [simp]:
  "dict_lookup ((k, v) # kvs) k' = (case dict_lookup kvs k' of None \<Rightarrow> if k = k' then Some v else None | Some x \<Rightarrow> Some x)"
  by (auto simp: dict_lookup_def map_add_def split: option.splits)

lemma dict_lookup_Nil [simp]: "dict_lookup [] k = None"
  by (simp add: dict_lookup_def)

lemma s3_field_record [simp]:
  "s3_field (s3_record b k) ''bucket'' ''name'' = Inr (JStr b)"
  "s3_field (s3_record b k) ''object'' ''key'' = Inr (JStr k)"
  by (simp_all add: s3_field_def s3_record_def)

lemma s3_field_get_record [simp]:
  "s3_field_get (s3_record b k) ''bucket'' ''name'' = Inr (JStr b)"
  "s3_field_get (s3_record b k) ''object'' ''key'' = Inr (JStr k)"
  by (simp_all add: s3_field_get_def s3_record_def)

end
