(* ===== verification/Services.thy ===== *)
theory Services
  imports Event
begin

text \<open>
  The collaborators the handlers reach through the global boto3 clients and
  \<open>datetime.now()\<close>: S3 (\<open>get_object\<close>, \<open>put_object\<close>), SNS (\<open>publish\<close>) and the
  clock, as one world record passed through every step. Objects live under
  \<open>(bucket, key)\<close>; the execution role is denied the buckets in \<open>w_denied\<close>; SNS decides
  per topic and subject whether a publish succeeds (\<open>w_sns_reject\<close> gives the error
  code of a refusal: a missing topic, missing permission, an over-long subject); every
  accepted message is appended to \<open>w_published\<close>; \<open>datetime.now()\<close> reads and advances
  \<open>w_clock\<close>, so every timestamp is a distinct tick. boto3 validates parameters before
  sending: a bucket or key that is not a non-empty string raises
  \<open>ParamValidationError\<close>, and so does metadata that is not ASCII; S3 refuses a key
  longer than 1024 bytes with \<open>KeyTooLongError\<close>. Nothing is retried.
\<close>

text \<open>
  The notifications and their subjects (decorations and emoji not modelled):
  \<open>Subj_success\<close> is \<open>Thumbnail Generated: <basename of the key>\<close>,
  \<open>Subj_error\<close> is \<open>Error Processing Image: <key or Unknown>\<close>, \<open>Subj_critical\<close> is
  \<open>CRITICAL: Lambda Function Error\<close>; the two legacy subjects are the fixed ones of
  src/lamcode.py. A note carries the fields its message interpolates, in the message's order.
\<close>

datatype subject =
    Subj_success string
  | Subj_error json
  | Subj_critical
  | Subj_legacy_success
  | Subj_legacy_error

datatype notification =
    Success_note
      (sn_file_name: string) (sn_source_bucket: string) (sn_file_size: nat) (sn_format: "string option")
      (sn_thumbnail_name: string) (sn_destination: "string option") (sn_thumbnail_size: string)
      (sn_dimensions: "nat \<times> nat") (sn_quality: nat) (sn_timestamp: nat)
  | Record_error_note
      (en_type: string) (en_error: exc) (en_timestamp: nat) (en_bucket: json) (en_key: json)
  | Critical_note
      (cn_error: exc) (cn_type: string) (cn_timestamp: nat) (cn_thumbnail_bucket: "string option")
      (cn_topic: "string option") (cn_size: "nat \<times> nat")
  | Legacy_success_note string string string "string option"
  | Legacy_error_note exc

record s3_object =
  obj_body :: "byte list"
  obj_content_type :: "string option"
  obj_metadata :: "(string \<times> string) list"
  obj_generation_time :: "nat option"

record world =
  w_objects :: "string \<times> string \<Rightarrow> s3_object option"
  w_denied :: "string list"
  w_sns_reject :: "string \<Rightarrow> subject \<Rightarrow> string option"
  w_published :: "(string \<times> subject \<times> notification) list"
  w_clock :: nat

text \<open>The environment the handler reads once at start (\<open>os.environ.get\<close>).\<close>

record config =
  THUMBNAIL_BUCKET :: "string option"
  SNS_TOPIC_ARN :: "string option"

definition now :: "(world, nat) pyst" where
  "now w = (Inr (w_clock w), w\<lparr>w_clock := Suc (w_clock w)\<rparr>)"

definition boto_str :: "string \<Rightarrow> json \<Rightarrow> exc + string" where
  "boto_str param v = (case v of JStr s \<Rightarrow> if s = [] then Inl (ParamValidationError param) else Inr s
                                | _ \<Rightarrow> Inl (ParamValidationError param))"

text \<open>\<open>s3_client.get_object(Bucket=bucket, Key=key)['Body'].read()\<close>.\<close>

definition get_object :: "json \<Rightarrow> json \<Rightarrow> (world, string \<times> string \<times> byte list) pyst" where
  "get_object bucket key w =
     (case bindS (boto_str ''Bucket'' bucket) (\<lambda>b. bindS (boto_str ''Key'' key) (\<lambda>k. Inr (b, k))) of
        Inl e \<Rightarrow> (Inl e, w)
      | Inr (b, k) \<Rightarrow>
          if b \<in> set (w_denied w) then (Inl (ClientError ''AccessDenied'' ''GetObject''), w)
          else case w_objects w (b, k) of
                 None \<Rightarrow> (Inl (ClientError ''NoSuchKey'' ''GetObject''), w)
               | Some obj \<Rightarrow> (Inr (b, k, obj_body obj), w))"

text \<open>
  Metadata keys and values must be ASCII: botocore's \<open>validate_ascii_metadata\<close> raises
  \<open>ParamValidationError\<close> before the request is sent. Characters are bytes here, so a
  non-ASCII character of Python is a sequence of bytes of which at least one is not ASCII.
\<close>

definition ascii_str :: "string \<Rightarrow> bool" where
  "ascii_str s \<longleftrightarrow> list_all (\<lambda>ch. of_char ch < (128::nat)) s"

text \<open>
  \<open>s3_client.put_object(Bucket=..., Key=..., Body=..., ContentType=..., Metadata=...)\<close>:
  botocore's parameter checks, then S3's: access to the bucket, and the key's length of
  at most 1024 bytes (\<open>KeyTooLongError\<close>).
\<close>

definition put_object ::
  "string option \<Rightarrow> string \<Rightarrow> byte list \<Rightarrow> string \<Rightarrow> (string \<times> string) list \<Rightarrow> nat option \<Rightarrow> (world, unit) pyst" where
  "put_object bucket key body content_type metadata gen_time w =
     (case bucket of
        None \<Rightarrow> (Inl (ParamValidationError ''Bucket''), w)
      | Some b \<Rightarrow>
          if b = [] \<or> key = [] then (Inl (ParamValidationError ''Bucket''), w)
          else if \<not> list_all (\<lambda>(k, v). ascii_str k \<and> ascii_str v) metadata
          then (Inl (ParamValidationError ''Metadata''), w)
          else if b \<in> set (w_denied w) then (Inl (ClientError ''AccessDenied'' ''PutObject''), w)
          else if 1024 < length key then (Inl (ClientError ''KeyTooLongError'' ''PutObject''), w)
          else (Inr (), w\<lparr>w_objects := (w_objects w)((b, key) \<mapsto>
                  \<lparr>obj_body = body, obj_content_type = Some content_type,
                   obj_metadata = metadata, obj_generation_time = gen_time\<rparr>)\<rparr>))"

text \<open>\<open>sns_client.publish(TopicArn=..., Subject=..., Message=...)\<close>.\<close>

definition publish :: "string option \<Rightarrow> subject \<Rightarrow> notification \<Rightarrow> (world, unit) pyst" where
  "publish topic subj msg w =
     (case topic of
        None \<Rightarrow> (Inl (ParamValidationError ''TopicArn''), w)
      | Some t \<Rightarrow>
          (case w_sns_reject w t subj of
             Some code \<Rightarrow> (Inl (ClientError code ''Publish''), w)
           | None \<Rightarrow> (Inr (), w\<lparr>w_published := w_published w @ [(t, subj, msg)]\<rparr>)))"

subsection \<open>Frame and effect lemmas\<close>

named_theorems world_simps "effects of the collaborators on the world"

lemma now_apply [world_simps]: "now w = (Inr (w_clock w), w\<lparr>w_clock := Suc (w_clock w)\<rparr>)"
  by (simp add: now_def)

lemma get_object_world: "get_object b k w = (r, w') \<Longrightarrow> w' = w"
  by (auto simp: get_object_def split: sum.splits prod.splits if_splits option.splits)

lemma get_object_Inr:
  "get_object bucket key w = (Inr (b, k, body), w') \<Longrightarrow>
   bucket = JStr b \<and> key = JStr k \<and> b \<notin> set (w_denied w) \<and> w' = w \<and>
   (\<exists>obj. w_objects w (b, k) = Some obj \<and> obj_body obj = body)"
  by (auto simp: get_object_def boto_str_def bindS_Inr_iff
      split: sum.splits prod.splits if_splits option.splits json.splits)

lemma get_object_found [world_simps]:
  "b \<noteq> [] \<Longrightarrow> k \<noteq> [] \<Longrightarrow> b \<notin> set (w_denied w) \<Longrightarrow> w_objects w (b, k) = Some obj \<Longrightarrow>
   get_object (JStr b) (JStr k) w = (Inr (b, k, obj_body obj), w)"
  by (simp add: get_object_def boto_str_def)

lemma get_object_missing [world_simps]:
  "b \<noteq> [] \<Longrightarrow> k \<noteq> [] \<Longrightarrow> b \<notin> set (w_denied w) \<Longrightarrow> w_objects w (b, k) = None \<Longrightarrow>
   get_object (JStr b) (JStr k) w = (Inl (ClientError ''NoSuchKey'' ''GetObject''), w)"
  by (simp add: get_object_def boto_str_def)

lemma put_object_Inr:
  "put_object bucket key body ct md gt w = (Inr (), w') \<Longrightarrow>
   \<exists>b. bucket = Some b \<and> b \<notin> set (w_denied w) \<and>
       w' = w\<lparr>w_objects := (w_objects w)((b, key) \<mapsto>
              \<lparr>obj_body = body, obj_content_type = Some ct, obj_metadata = md, obj_generation_time = gt\<rparr>)\<rparr>"
  by (auto simp: put_object_def split: option.splits if_splits)

lemma put_object_Inl: "put_object bucket key body ct md gt w = (Inl e, w') \<Longrightarrow> w' = w"
  by (auto simp: put_object_def split: option.splits if_splits)

lemma put_object_ok [world_simps]:
  "b \<noteq> [] \<Longrightarrow> key \<noteq> [] \<Longrightarrow> list_all (\<lambda>(k, v). ascii_str k \<and> ascii_str v) md \<Longrightarrow>
   b \<notin> set (w_denied w) \<Longrightarrow> length key \<le> 1024 \<Longrightarrow>
   put_object (Some b) key body ct md gt w =
     (Inr (), w\<lparr>w_objects := (w_objects w)((b, key) \<mapsto>
              \<lparr>obj_body = body, obj_content_type = Some ct, obj_metadata = md, obj_generation_time = gt\<rparr>)\<rparr>)"
  by (simp add: put_object_def)

lemma publish_Inr:
  "publish topic subj msg w = (Inr (), w') \<Longrightarrow>
   \<exists>t. topic = Some t \<and> w_sns_reject w t subj = None \<and> w' = w\<lparr>w_published := w_published w @ [(t, subj, msg)]\<rparr>"
  by (auto simp: publish_def split: option.splits)

lemma publish_Inl: "publish topic subj msg w = (Inl e, w') \<Longrightarrow> w' = w"
  by (auto simp: publish_def split: option.splits)

lemma publish_ok [world_simps]:
  "w_sns_reject w t subj = None \<Longrightarrow>
   publish (Some t) subj msg w = (Inr (), w\<lparr>w_published := w_published w @ [(t, subj, msg)]\<rparr>)"
  by (simp add: publish_def)

lemma publish_rejected [world_simps]:
  "w_sns_reject w t subj = Some code \<Longrightarrow>
   publish (Some t) subj msg w = (Inl (ClientError code ''Publish''), w)"
  by (simp add: publish_def)

subsection \<open>Steps that publish nothing\<close>

text \<open>
  A step is quiet when it publishes nothing and leaves the collaborators' configuration
  (denied buckets, SNS behaviour) as it was, whatever it returns.
\<close>

definition quiet :: "(world, 'a) pyst \<Rightarrow> bool" where
  "quiet m \<longleftrightarrow> (\<forall>w r w'. m w = (r, w') \<longrightarrow>
      w_published w' = w_published w \<and> w_sns_reject w' = w_sns_reject w \<and> w_denied w' = w_denied w)"

lemma quietD:
  "quiet m \<Longrightarrow> m w = (r, w') \<Longrightarrow>
   w_published w' = w_published w \<and> w_sns_reject w' = w_sns_reject w \<and> w_denied w' = w_denied w"
  by (simp add: quiet_def)

lemma quiet_ret [intro]: "quiet (ret a)"
  and quiet_liftE [intro]: "quiet (liftE r)"
  and quiet_now [intro]: "quiet now"
  and quiet_get_object [intro]: "quiet (get_object b k)"
  and quiet_put_object [intro]: "quiet (put_object bk key body ct md gt)"
  by (auto simp: quiet_def now_def get_object_def put_object_def
      split: sum.splits prod.splits option.splits if_splits)

lemma quiet_bindE [intro]: "quiet m \<Longrightarrow> (\<And>a. quiet (f a)) \<Longrightarrow> quiet (bindE m f)"
  unfolding quiet_def bindE_def by (fastforce split: prod.splits sum.splits)

lemma quiet_case_prod [intro]: "(\<And>a b. quiet (f a b)) \<Longrightarrow> quiet (case_prod f p)"
  by (cases p) simp

lemma quiet_Let [intro]: "(\<And>x. quiet (f x)) \<Longrightarrow> quiet (Let a f)"
  by simp

subsection \<open>Steps that store only given objects at given locations\<close>

text \<open>
  A step stores only what \<open>P\<close> allows when every object it changes, whatever it
  returns, is at a location \<open>x\<close> and has a new value \<open>v\<close> (\<open>None\<close> for a deletion) with
  \<open>P x v\<close>.
\<close>

definition stores_only :: "(string \<times> string \<Rightarrow> s3_object option \<Rightarrow> bool) \<Rightarrow> (world, 'a) pyst \<Rightarrow> bool" where
  "stores_only P m \<longleftrightarrow>
     (\<forall>w r w' x. m w = (r, w') \<longrightarrow> w_objects w' x \<noteq> w_objects w x \<longrightarrow> P x (w_objects w' x))"

lemma stores_onlyD:
  "stores_only P m \<Longrightarrow> m w = (r, w') \<Longrightarrow> w_objects w' x \<noteq> w_objects w x \<Longrightarrow> P x (w_objects w' x)"
  unfolding stores_only_def by blast

lemma stores_onlyI:
  "(\<And>w r w' x. m w = (r, w') \<Longrightarrow> w_objects w' x \<noteq> w_objects w x \<Longrightarrow> P x (w_objects w' x)) \<Longrightarrow>
   stores_only P m"
  unfolding stores_only_def by blast

lemma stores_only_ret [intro]: "stores_only P (ret a)"
  and stores_only_liftE [intro]: "stores_only P (liftE r)"
  and stores_only_now [intro]: "stores_only P now"
  and stores_only_get_object [intro]: "stores_only P (get_object b k)"
  and stores_only_publish [intro]: "stores_only P (publish t s n)"
  by (auto simp: stores_only_def now_def get_object_def publish_def
      split: sum.splits prod.splits option.splits if_splits)

lemma stores_only_put_object [intro]:
  "(\<And>b. bk = Some b \<Longrightarrow> P (b, key) (Some \<lparr>obj_body = body, obj_content_type = Some ct,
                                          obj_metadata = md, obj_generation_time = gt\<rparr>)) \<Longrightarrow>
   stores_only P (put_object bk key body ct md gt)"
  by (auto simp: stores_only_def put_object_def split: option.splits if_splits)

text \<open>
  Sequencing: an object changed by the composition was changed last either by the
  second step (then that step allows it) or only by the first (then the first allows it).
\<close>

lemma stores_only_seq:
  assumes m: "stores_only P m" and m1: "m w = (r1, w1)"
    and second: "w_objects w' x \<noteq> w_objects w1 x \<Longrightarrow> P x (w_objects w' x)"
    and ch: "w_objects w' x \<noteq> w_objects w x"
  shows "P x (w_objects w' x)"
proof (cases "w_objects w' x = w_objects w1 x")
  case True
  then show ?thesis using stores_onlyD [OF m m1] ch by simp
next
  case False
  then show ?thesis by (rule second)
qed

lemma stores_only_bindE [intro]:
  assumes m: "stores_only P m" and f: "\<And>a. stores_only P (f a)"
  shows "stores_only P (bindE m f)"
proof (rule stores_onlyI)
  fix w r w' x
  assume run: "bindE m f w = (r, w')" and ch: "w_objects w' x \<noteq> w_objects w x"
  obtain r1 w1 where m1: "m w = (r1, w1)" by fastforce
  show "P x (w_objects w' x)"
  proof (rule stores_only_seq [OF m m1 _ ch])
    assume ch1: "w_objects w' x \<noteq> w_objects w1 x"
    show "P x (w_objects w' x)"
    proof (cases r1)
      case (Inr a)
      then have "f a w1 = (r, w')" using run m1 by simp
      then show ?thesis using stores_onlyD [OF f] ch1 by blast
    next
      case (Inl e)
      then show ?thesis using run m1 ch1 by simp
    qed
  qed
qed

lemma stores_only_catchE [intro]:
  assumes m: "stores_only P m" and h: "\<And>e. stores_only P (h e)"
  shows "stores_only P (catchE m h)"
proof (rule stores_onlyI)
  fix w r w' x
  assume run: "catchE m h w = (r, w')" and ch: "w_objects w' x \<noteq> w_objects w x"
  obtain r1 w1 where m1: "m w = (r1, w1)" by fastforce
  show "P x (w_objects w' x)"
  proof (rule stores_only_seq [OF m m1 _ ch])
    assume ch1: "w_objects w' x \<noteq> w_objects w1 x"
    show "P x (w_objects w' x)"
    proof (cases r1)
      case (Inl e)
      then have "h e w1 = (r, w')" using run m1 by simp
      then show ?thesis using stores_onlyD [OF h] ch1 by blast
    next
      case (Inr a)
      then show ?thesis using run m1 ch1 by simp
    qed
  qed
qed

lemma stores_only_case_prod [intro]: "(\<And>a b. stores_only P (f a b)) \<Longrightarrow> stores_only P (case_prod f p)"
  by (cases p) simp

lemma stores_only_Let [intro]: "(\<And>x. stores_only P (f x)) \<Longrightarrow> stores_only P (Let a f)"
  by simp

end
