(* ===== verification/Geometry.thy ===== *)
theory Geometry
  imports Complex_Main Prelude
begin

text \<open>
  The size computation of Pillow's \<open>Image.thumbnail(size)\<close>, called with
  \<open>THUMBNAIL_SIZE = (200, 200)\<close> by both handlers. Pillow computes the new size with
  its local functions \<open>preserve_aspect_ratio\<close> and \<open>round_aspect\<close>: if the image
  already fits the box nothing happens; otherwise the side that constrains keeps the box's
  length and the other side is the floor or the ceiling of the scaled length, whichever
  gives the aspect ratio closer to the original (the floor on a tie), and at least 1.
  Python floats are taken as exact rationals. Division by a zero height raises
  \<open>ZeroDivisionError\<close>, as \<open>self.width / self.height\<close> does.
\<close>

definition THUMBNAIL_SIZE :: "nat \<times> nat" where
  "THUMBNAIL_SIZE = (200, 200)"

text \<open>\<open>max(min(floor(number), ceil(number), key=key), 1)\<close>; \<open>min\<close> keeps the first of equals.\<close>

definition round_aspect :: "rat \<Rightarrow> (int \<Rightarrow> rat) \<Rightarrow> int" where
  "round_aspect number key =
     max (if key \<lceil>number\<rceil> < key \<lfloor>number\<rfloor> then \<lceil>number\<rceil> else \<lfloor>number\<rfloor>) 1"

text \<open>
  \<open>preserve_aspect_ratio\<close>: \<open>Inr None\<close> is Python's \<open>return\<close> without a value
  (the image fits), \<open>Inr (Some (x, y))\<close> the new size. In the second branch
  \<open>x / y < aspect\<close> forces \<open>aspect > 0\<close>, so \<open>x / aspect\<close> never divides by zero.
\<close>

definition preserve_aspect_ratio :: "nat \<times> nat \<Rightarrow> nat \<times> nat \<Rightarrow> exc + (nat \<times> nat) option" where
  "preserve_aspect_ratio provided_size sz =
     (let (x, y) = provided_size; (width, height) = sz in
      if x \<ge> width \<and> y \<ge> height then Inr None
      else if height = 0 \<or> y = 0 then Inl ZeroDivisionError
      else
        let aspect = of_nat width / of_nat height :: rat in
        if of_nat x / of_nat y \<ge> aspect then
          Inr (Some (nat (round_aspect (of_nat y * aspect)
                           (\<lambda>n. \<bar>aspect - of_int n / of_nat y\<bar>)), y))
        else
          Inr (Some (x, nat (round_aspect (of_nat x / aspect)
                              (\<lambda>n. if n = 0 then 0 else \<bar>aspect - of_nat x / of_int n\<bar>)))))"

subsection \<open>round_aspect\<close>

lemma round_aspect_ge1: "1 \<le> round_aspect v k"
  by (simp add: round_aspect_def)

lemma round_aspect_nonneg [simp]: "0 \<le> round_aspect v k"
  by (simp add: round_aspect_def)

lemma round_aspect_le:
  assumes "v \<le> of_int n" and "1 \<le> n"
  shows "round_aspect v k \<le> n"
proof -
  have "\<lceil>v\<rceil> \<le> n" using assms(1) by (simp add: ceiling_le_iff)
  moreover have "\<lfloor>v\<rfloor> \<le> n" using assms(1) by (simp add: floor_le_iff)
  ultimately show ?thesis using assms(2) by (auto simp: round_aspect_def)
qed

lemma round_aspect_close:
  assumes "0 < v"
  shows "\<bar>of_int (round_aspect v k) - v\<bar> < 1"
proof -
  have c1: "1 \<le> \<lceil>v\<rceil>" using assms by (simp add: zero_less_ceiling)
  have fl: "\<bar>of_int (max \<lfloor>v\<rfloor> 1) - v\<bar> < 1"
  proof (cases "1 \<le> \<lfloor>v\<rfloor>")
    case True
    then show ?thesis by (simp add: max_def) linarith
  next
    case False
    then have "v < 1" by (simp add: floor_less_iff)
    with False assms show ?thesis by (simp add: max_def)
  qed
  have ce: "\<bar>of_int (max \<lceil>v\<rceil> 1) - v\<bar> < 1"
    using c1 by (simp add: max_def) linarith
  show ?thesis
    using fl ce by (simp add: round_aspect_def max_def split: if_splits)
qed

subsection \<open>The two branches of preserve_aspect_ratio\<close>

lemma cross_le:
  assumes "0 < h" "0 < y"
  shows "(of_nat w / of_nat h \<le> (of_nat x / of_nat y :: rat)) \<longleftrightarrow> y * w \<le> x * h"
proof -
  have "(of_nat w / of_nat h \<le> (of_nat x / of_nat y :: rat)) \<longleftrightarrow> of_nat w * of_nat y \<le> (of_nat x * of_nat h :: rat)"
    using assms by (simp add: divide_le_eq le_divide_eq mult.commute)
  also have "\<dots> \<longleftrightarrow> w * y \<le> x * h"
    by (metis of_nat_le_iff of_nat_mult)
  finally show ?thesis by (simp add: mult.commute)
qed

lemma preserve_aspect_ratio_Some:
  assumes "preserve_aspect_ratio (x, y) (w, h) = Inr (Some (w', h'))"
  obtains (wide) k where "0 < h" "0 < y" "\<not> (w \<le> x \<and> h \<le> y)" "y * w \<le> x * h" "h' = y"
       "int w' = round_aspect (of_nat (y * w) / of_nat h) k"
  | (tall) k where "0 < h" "0 < y" "\<not> (w \<le> x \<and> h \<le> y)" "x * h < y * w" "w' = x"
       "int h' = round_aspect (of_nat (x * h) / of_nat w) k"
proof -
  have pos: "0 < h" "0 < y" and nf: "\<not> (w \<le> x \<and> h \<le> y)"
    using assms by (auto simp: preserve_aspect_ratio_def Let_def split: if_splits)
  show ?thesis
  proof (cases "y * w \<le> x * h")
    case True
    then have c: "of_nat w / of_nat h \<le> (of_nat x / of_nat y :: rat)"
      using cross_le [OF pos] by simp
    have e: "of_nat y * (of_nat w / of_nat h) = (of_nat (y * w) / of_nat h :: rat)"
      by simp
    from assms c have "h' = y" and "int w' = round_aspect (of_nat (y * w) / of_nat h)
         (\<lambda>n. \<bar>of_nat w / of_nat h - of_int n / of_nat y\<bar>)"
      using pos nf round_aspect_ge1 [of "of_nat (y * w) / of_nat h"]
      by (auto simp: preserve_aspect_ratio_def Let_def e)
    then show ?thesis using wide pos nf True by blast
  next
    case False
    then have c: "\<not> of_nat w / of_nat h \<le> (of_nat x / of_nat y :: rat)"
      using cross_le [OF pos] by simp
    have wpos: "0 < w" using False by (cases w) auto
    have e: "of_nat x / (of_nat w / of_nat h) = (of_nat (x * h) / of_nat w :: rat)"
      by simp
    from assms c have "w' = x" and "int h' = round_aspect (of_nat (x * h) / of_nat w)
         (\<lambda>n. if n = 0 then 0 else \<bar>of_nat w / of_nat h - of_nat x / of_int n\<bar>)"
      using pos nf round_aspect_ge1 [of "of_nat (x * h) / of_nat w"]
      by (auto simp: preserve_aspect_ratio_def Let_def e)
    then show ?thesis using tall pos nf False by (meson not_le)
  qed
qed
lemma scaled_close:
  assumes "0 < d" and "\<bar>of_int r - of_nat a / of_nat d\<bar> < (1::rat)"
  shows "\<bar>r * int d - int a\<bar> < int d"
proof -
  have dpos: "(0::rat) < of_nat d" using assms(1) by simp
  have "of_int r - of_nat a / of_nat d = (of_int (r * int d - int a) / of_nat d :: rat)"
    using assms(1) by (simp add: field_simps)
  also have "\<bar>\<dots>\<bar> = \<bar>of_int (r * int d - int a)\<bar> / of_nat d"
    by (simp only: abs_divide abs_of_nat)
  finally have "\<bar>of_int (r * int d - int a)\<bar> / (of_nat d :: rat) < 1"
    using assms(2) by simp
  then have "\<bar>of_int (r * int d - int a)\<bar> < (of_int (int d) :: rat)"
    using dpos by (simp only: divide_less_eq_1_pos of_int_of_nat_eq)
  then show ?thesis
    by (simp only: of_int_abs [symmetric] of_int_less_iff)
qed

lemma div_le_of_nat:
  assumes "0 < d" and "a \<le> b * d"
  shows "of_nat a / of_nat d \<le> (of_int (int b) :: rat)"
proof -
  have "(of_nat a :: rat) \<le> of_nat b * of_nat d"
    using assms(2) by (metis of_nat_le_iff of_nat_mult)
  then show ?thesis using assms(1) by (simp add: divide_le_eq)
qed

text \<open>The constraining side keeps the box length; the other side stays strictly inside.\<close>

lemma wide_lt_height:
  fixes w h x y :: nat
  assumes "0 < h" "\<not> (w \<le> x \<and> h \<le> y)" "y * w \<le> x * h"
  shows "y < h"
proof (rule ccontr)
  assume "\<not> y < h"
  then have hy: "h \<le> y" by simp
  with assms(2) have "x < w" by simp
  then have a: "x * h < w * h" using assms(1) by (rule mult_less_mono1)
  have b: "h * w \<le> y * w" using hy by (rule mult_le_mono1)
  have "w * h = h * w" by (rule mult.commute)
  with a b assms(3) show False by linarith
qed

lemma tall_lt_width:
  fixes w h x y :: nat
  assumes "\<not> (w \<le> x \<and> h \<le> y)" "x * h < y * w"
  shows "x < w"
proof (rule ccontr)
  assume "\<not> x < w"
  then have wx: "w \<le> x" by simp
  with assms(1) have "y < h" by simp
  then have a: "y * w \<le> h * w" by (intro mult_le_mono1) simp
  have b: "w * h \<le> x * h" using wx by (rule mult_le_mono1)
  have "w * h = h * w" by (rule mult.commute)
  with a b assms(2) show False by linarith
qed

subsection \<open>Properties of the thumbnail size\<close>

text \<open>
  The new size fits the bounding box: neither side exceeds the box, which is the
  spec's requirement that thumbnails never exceed 200 pixels in either axis.
\<close>

lemma thumbnail_fits_box:
  assumes "preserve_aspect_ratio (x, y) (w, h) = Inr (Some (w', h'))" and "0 < x"
  shows "w' \<le> x \<and> h' \<le> y"
  using assms(1)
proof (cases rule: preserve_aspect_ratio_Some)
  case (wide k)
  have "round_aspect (of_nat (y * w) / of_nat h) k \<le> int x"
    using wide assms(2) by (intro round_aspect_le div_le_of_nat) (simp_all add: mult.commute)
  with wide show ?thesis by simp
next
  case (tall k)
  have "0 < w" using tall(4) by (cases w) auto
  then have "round_aspect (of_nat (x * h) / of_nat w) k \<le> int y"
    using tall by (intro round_aspect_le div_le_of_nat) (auto simp: mult.commute)
  with tall show ?thesis by simp
qed


text \<open>Thumbnailing never enlarges a side of an image of positive width.\<close>

lemma thumbnail_no_upscale:
  assumes "preserve_aspect_ratio (x, y) (w, h) = Inr (Some (w', h'))" and "0 < w"
  shows "w' \<le> w \<and> h' \<le> h"
  using assms(1)
proof (cases rule: preserve_aspect_ratio_Some)
  case (wide k)
  then have yh: "y < h" using wide_lt_height by blast
  have "round_aspect (of_nat (y * w) / of_nat h) k \<le> int w"
    using wide yh assms(2) by (intro round_aspect_le div_le_of_nat) (simp_all add: mult.commute)
  with wide yh show ?thesis by simp
next
  case (tall k)
  then have xw: "x < w" using tall_lt_width by blast
  have "round_aspect (of_nat (x * h) / of_nat w) k \<le> int h"
    using tall xw assms(2) by (intro round_aspect_le div_le_of_nat) (simp_all add: mult.commute)
  with tall xw show ?thesis by simp
qed


text \<open>
  The aspect ratio is kept within rounding: the cross products of the old and the
  new size differ by less than the longer old side, that is, the scaled side is less
  than one pixel away from its exact value.
\<close>

lemma thumbnail_aspect_ratio:
  assumes "preserve_aspect_ratio (x, y) (w, h) = Inr (Some (w', h'))" and "0 < w" and "0 < x"
  shows "\<bar>int w' * int h - int h' * int w\<bar> < int (max w h)"
  using assms(1)
proof (cases rule: preserve_aspect_ratio_Some)
  case (wide k)
  have "0 < (of_nat (y * w) / of_nat h :: rat)" using wide assms(2) by simp
  then have "\<bar>of_int (int w') - of_nat (y * w) / of_nat h\<bar> < (1::rat)"
    using wide round_aspect_close by simp
  then have "\<bar>int w' * int h - int (y * w)\<bar> < int h"
    using wide by (intro scaled_close) simp_all
  with wide show ?thesis by (simp add: mult.commute)
next
  case (tall k)
  have "0 < (of_nat (x * h) / of_nat w :: rat)"
    using tall assms(2,3) by simp
  then have "\<bar>of_int (int h') - of_nat (x * h) / of_nat w\<bar> < (1::rat)"
    using tall round_aspect_close by simp
  then have "\<bar>int h' * int w - int (x * h)\<bar> < int w"
    using assms(2) by (intro scaled_close) simp_all
  with tall show ?thesis by (simp add: abs_minus_commute)
qed


text \<open>
  Thumbnailing is idempotent: a thumbnail, shrunk again with the same box, is left as
  it is (Pillow returns without resizing).
\<close>

lemma thumbnail_idempotent:
  assumes "preserve_aspect_ratio (x, y) (w, h) = Inr (Some (w', h'))" and "0 < x"
  shows "preserve_aspect_ratio (x, y) (w', h') = Inr None"
  using thumbnail_fits_box [OF assms] by (simp add: preserve_aspect_ratio_def)


text \<open>
  An image of height zero that is wider than the box makes \<open>thumbnail\<close> raise
  \<open>ZeroDivisionError\<close> (from \<open>self.width / self.height\<close>); one that fits is left alone.
\<close>

lemma thumbnail_zero_height:
  "0 < y \<Longrightarrow> preserve_aspect_ratio (x, y) (w, 0) = (if w \<le> x then Inr None else Inl ZeroDivisionError)"
  by (simp add: preserve_aspect_ratio_def)


text \<open>The new size is never zero, and a positive height never raises.\<close>

lemma thumbnail_positive:
  assumes "preserve_aspect_ratio (x, y) (w, h) = Inr (Some (w', h'))" and "0 < x"
  shows "0 < w' \<and> 0 < h'"
  using assms(1)
proof (cases rule: preserve_aspect_ratio_Some)
  case (wide k)
  have "1 \<le> int w'" using wide(6) round_aspect_ge1 [of _ k] by simp
  with wide show ?thesis by simp
next
  case (tall k)
  have "1 \<le> int h'" using tall(6) round_aspect_ge1 [of _ k] by simp
  with tall assms(2) show ?thesis by simp
qed

lemma preserve_aspect_ratio_no_error:
  "0 < h \<Longrightarrow> 0 < y \<Longrightarrow> \<exists>r. preserve_aspect_ratio (x, y) (w, h) = Inr r"
  by (simp add: preserve_aspect_ratio_def Let_def)

end
