(* ===== verification/Imaging.thy ===== *)
theory Imaging
  imports Geometry
begin

text \<open>
  The image transformation of one record: src/docs/lambda-function.py lines 61-83
  (\<open>Image.open\<close>, the conversion of RGBA, LA and P images onto a white RGB background,
  \<open>thumbnail\<close>, \<open>save\<close> as JPEG) and src/lamcode.py lines 27-31 (the same without the
  conversion and without \<open>optimize\<close>). A Pillow image is a record of its mode (a string,
  as Pillow's), its size, its pixels in row-major order (one byte per band), its palette
  (for mode P: index to RGBA entry) and its \<open>format\<close> attribute. The parts of Pillow the
  code calls are written as Pillow does them where the claims depend on them
  (\<open>Image.new\<close>, \<open>convert('RGBA')\<close> of a palette image, \<open>paste\<close> with and without a
  mask and its \<open>BLEND\<close>/\<open>DIV255\<close> arithmetic, \<open>thumbnail\<close>, the JPEG writer's
  checks); decoding, resampling and JPEG encoding are the codec interface \<open>codec\<close>,
  about which nothing is assumed except where a lemma states it.
\<close>

type_synonym pixel = "byte list"

record image =
  im_mode :: string
  im_size :: "nat \<times> nat"
  im_pixels :: "pixel list"
  im_palette :: "byte \<Rightarrow> pixel"
  im_format :: "string option"

record codec =
  decode :: "byte list \<Rightarrow> exc + image"
  resample :: "image \<Rightarrow> nat \<times> nat \<Rightarrow> pixel list"
  encode :: "image \<Rightarrow> nat \<Rightarrow> bool \<Rightarrow> byte list"

definition THUMBNAIL_QUALITY :: nat where
  "THUMBNAIL_QUALITY = 80"

subsection \<open>Pillow operations\<close>

text \<open>\<open>Image.new(mode, size, color)\<close>: every pixel is the colour; no format.\<close>

definition image_new :: "string \<Rightarrow> nat \<times> nat \<Rightarrow> pixel \<Rightarrow> image" where
  "image_new mode sz color =
     \<lparr>im_mode = mode, im_size = sz, im_pixels = replicate (fst sz * snd sz) color,
      im_palette = (\<lambda>_. []), im_format = None\<rparr>"

text \<open>\<open>convert('RGBA')\<close> of a palette image: each index is replaced by its RGBA entry.\<close>

definition convert_rgba :: "image \<Rightarrow> image" where
  "convert_rgba img =
     img\<lparr>im_mode := ''RGBA'', im_pixels := map (\<lambda>p. im_palette img (hd p)) (im_pixels img),
         im_format := None\<rparr>"

text \<open>\<open>image.split()[-1]\<close>: the last band.\<close>

definition alpha_band :: "image \<Rightarrow> byte list" where
  "alpha_band img = map last (im_pixels img)"

text \<open>
  Pillow's C macros (libImaging/ImagingUtils.h and Paste.c):
  \<open>DIV255(v) = ((v + 128) >> 8 + (v + 128)) >> 8\<close> and
  \<open>BLEND(mask, in1, in2) = DIV255(in1 * (255 - mask) + in2 * mask)\<close>, stored into a
  \<open>UINT8\<close>.
\<close>

definition DIV255 :: "nat \<Rightarrow> nat" where
  "DIV255 v = (let tmp = v + 128 in (tmp div 256 + tmp) div 256)"

definition blend :: "byte \<Rightarrow> byte \<Rightarrow> byte \<Rightarrow> byte" where
  "blend a in1 in2 = of_nat (DIV255 (unat in1 * (255 - unat a) + unat in2 * unat a))"

text \<open>
  \<open>background.paste(image, mask=alpha)\<close> of an RGBA image on an RGB image of the same
  size (\<open>paste_mask_L\<close>): every band blended with the mask byte.
\<close>

definition paste_mask :: "image \<Rightarrow> image \<Rightarrow> byte list \<Rightarrow> image" where
  "paste_mask bg img alpha =
     bg\<lparr>im_pixels := map (\<lambda>((b, p), a). map (\<lambda>(x, y). blend a x y) (zip b p))
                        (zip (zip (im_pixels bg) (im_pixels img)) alpha)\<rparr>"

text \<open>
  \<open>background.paste(image)\<close> of an LA image on an RGB image, with no mask: Pillow does
  not convert LA (\<open>paste\<close> lets RGB receive LA, RGBA, RGBa as they are) and copies the
  stored pixel, which for LA is \<open>(L, L, L, A)\<close>; the RGB image reads \<open>(L, L, L)\<close>.
\<close>

definition paste_copy :: "image \<Rightarrow> image \<Rightarrow> image" where
  "paste_copy bg img = bg\<lparr>im_pixels := map (\<lambda>p. [hd p, hd p, hd p]) (im_pixels img)\<rparr>"

text \<open>Lines 66-73 of docs/lambda-function.py.\<close>

definition convert_for_jpeg :: "image \<Rightarrow> image" where
  "convert_for_jpeg img =
     (if im_mode img \<in> set [''RGBA'', ''LA'', ''P''] then
        let background = image_new ''RGB'' (im_size img) [255, 255, 255];
            img' = (if im_mode img = ''P'' then convert_rgba img else img)
        in if im_mode img' = ''RGBA'' then paste_mask background img' (alpha_band img')
           else paste_copy background img'
      else img)"

text \<open>
  \<open>image.thumbnail(size, LANCZOS)\<close>: resize in place to the size
  \<open>preserve_aspect_ratio\<close> gives, if it differs; mode and format stay.
\<close>

definition thumbnail :: "codec \<Rightarrow> nat \<times> nat \<Rightarrow> image \<Rightarrow> exc + image" where
  "thumbnail c box img =
     (case preserve_aspect_ratio box (im_size img) of
        Inl e \<Rightarrow> Inl e
      | Inr None \<Rightarrow> Inr img
      | Inr (Some final_size) \<Rightarrow>
          Inr (if im_size img \<noteq> final_size
               then img\<lparr>im_size := final_size, im_pixels := resample c img final_size\<rparr>
               else img))"

text \<open>
  \<open>image.save(buffer, format='JPEG', ...)\<close>: Pillow's JPEG writer refuses an empty image
  and a mode outside its \<open>RAWMODE\<close> table; libjpeg refuses a side above 65500.
\<close>

definition JPEG_RAWMODES :: "string list" where
  "JPEG_RAWMODES = [''1'', ''L'', ''RGB'', ''RGBX'', ''CMYK'', ''YCbCr'']"

definition jpeg_save :: "codec \<Rightarrow> image \<Rightarrow> nat \<Rightarrow> bool \<Rightarrow> exc + byte list" where
  "jpeg_save c img quality optimize =
     (if fst (im_size img) = 0 \<or> snd (im_size img) = 0
      then Inl (ValueError ''cannot write empty image as JPEG'')
      else if im_mode img \<notin> set JPEG_RAWMODES
      then Inl (OSError (''cannot write mode '' @ im_mode img @ '' as JPEG''))
      else if 65500 < fst (im_size img) \<or> 65500 < snd (im_size img)
      then Inl (OSError ''encoder error'')
      else Inr (encode c img quality optimize))"

subsection \<open>The handlers' transformations\<close>

text \<open>
  \<open>Image.open(BytesIO(data))\<close>: the decoder's result is accepted only with a positive
  size; \<open>ImageFile.__init__\<close> raises \<open>SyntaxError\<close> otherwise and \<open>Image.open\<close> turns
  that into \<open>UnidentifiedImageError\<close>.
\<close>

definition image_open :: "codec \<Rightarrow> byte list \<Rightarrow> exc + image" where
  "image_open c data =
     bindS (decode c data) (\<lambda>img.
       if fst (im_size img) = 0 \<or> snd (im_size img) = 0 then Inl UnidentifiedImageError else Inr img)"

text \<open>
  docs/lambda-function.py lines 61-83: open, convert, thumbnail, save with quality 80 and
  \<open>optimize=True\<close>. The result keeps the final image (its \<open>format\<close> is read by the
  success message) and the JPEG bytes.
\<close>

definition transform :: "codec \<Rightarrow> byte list \<Rightarrow> exc + image \<times> byte list" where
  "transform c image_data =
     bindS (image_open c image_data) (\<lambda>img.
     bindS (thumbnail c THUMBNAIL_SIZE (convert_for_jpeg img)) (\<lambda>img.
     bindS (jpeg_save c img THUMBNAIL_QUALITY True) (\<lambda>buf. Inr (img, buf))))"

text \<open>src/lamcode.py lines 27-31: no conversion, quality 80, no \<open>optimize\<close>.\<close>

definition legacy_transform :: "codec \<Rightarrow> byte list \<Rightarrow> exc + image \<times> byte list" where
  "legacy_transform c image_data =
     bindS (image_open c image_data) (\<lambda>img.
     bindS (thumbnail c THUMBNAIL_SIZE img) (\<lambda>img.
     bindS (jpeg_save c img 80 False) (\<lambda>buf. Inr (img, buf))))"

subsection \<open>Pillow's blend arithmetic\<close>

lemma unat_byte_le: "unat (x :: byte) \<le> 255"
proof -
  have "unat x < 2 ^ LENGTH(8)" by (rule unsigned_less)
  then show ?thesis by simp
qed

lemma mult_split_255: "(c :: nat) \<le> 255 \<Longrightarrow> m * (255 - c) + m * c = 255 * m"
proof -
  assume "c \<le> 255"
  then have "(255 - c) + c = 255" by simp
  then have "m * ((255 - c) + c) = 255 * m" by simp
  then show ?thesis by (simp only: add_mult_distrib2)
qed

lemma DIV255_mono: "a \<le> b \<Longrightarrow> DIV255 a \<le> DIV255 b"
  by (simp add: DIV255_def Let_def add_mono div_le_mono)

lemma DIV255_exact:
  assumes "k \<le> 255"
  shows "DIV255 (255 * k) = k"
proof (cases "k \<le> 128")
  case True
  then have "(255 * k + 128) div 256 = k" by (intro div_nat_eqI) simp_all
  then show ?thesis by (simp add: DIV255_def Let_def div_nat_eqI)
next
  case False
  then have "(255 * k + 128) div 256 = k - 1" using assms by (intro div_nat_eqI) simp_all
  then show ?thesis using False by (simp add: DIV255_def Let_def div_nat_eqI)
qed

lemma blend_arg_between:
  fixes a x y :: byte
  shows "255 * min (unat x) (unat y) \<le> unat x * (255 - unat a) + unat y * unat a"
    and "unat x * (255 - unat a) + unat y * unat a \<le> 255 * max (unat x) (unat y)"
proof -
  have a: "unat a \<le> 255" by (rule unat_byte_le)
  let ?m = "min (unat x) (unat y)" and ?M = "max (unat x) (unat y)"
  have "?m * (255 - unat a) + ?m * unat a \<le> unat x * (255 - unat a) + unat y * unat a"
    by (intro add_mono mult_le_mono1) simp_all
  moreover have "?m * (255 - unat a) + ?m * unat a = 255 * ?m"
    using a by (rule mult_split_255)
  ultimately show "255 * ?m \<le> unat x * (255 - unat a) + unat y * unat a" by simp
  have "unat x * (255 - unat a) + unat y * unat a \<le> ?M * (255 - unat a) + ?M * unat a"
    by (intro add_mono mult_le_mono1) simp_all
  moreover have "?M * (255 - unat a) + ?M * unat a = 255 * ?M"
    using a by (rule mult_split_255)
  ultimately show "unat x * (255 - unat a) + unat y * unat a \<le> 255 * ?M" by simp
qed

lemma DIV255_blend_between:
  fixes a x y :: byte
  shows "min (unat x) (unat y) \<le> DIV255 (unat x * (255 - unat a) + unat y * unat a)
       \<and> DIV255 (unat x * (255 - unat a) + unat y * unat a) \<le> max (unat x) (unat y)"
proof -
  have mx: "min (unat x) (unat y) \<le> 255" "max (unat x) (unat y) \<le> 255"
    using unat_byte_le [of x] unat_byte_le [of y] by simp_all
  show ?thesis
    using DIV255_mono [OF blend_arg_between(1) [of x y a]] DIV255_mono [OF blend_arg_between(2) [of x a y]]
      DIV255_exact [OF mx(1)] DIV255_exact [OF mx(2)] by simp
qed

lemma unat_blend:
  "unat (blend a x y) = DIV255 (unat x * (255 - unat a) + unat y * unat a)"
proof -
  have "DIV255 (unat x * (255 - unat a) + unat y * unat a) \<le> 255"
    using DIV255_blend_between [of x y a] unat_byte_le [of x] unat_byte_le [of y] by linarith
  then show ?thesis by (simp add: blend_def unat_of_nat)
qed

lemma blend_between: "min (unat x) (unat y) \<le> unat (blend a x y) \<and> unat (blend a x y) \<le> max (unat x) (unat y)"
  using DIV255_blend_between [of x y a] by (simp add: unat_blend)

lemma blend_transparent [simp]: "blend 0 x y = x"
  using DIV255_exact [OF unat_byte_le [of x]] by (simp add: blend_def mult.commute)

lemma blend_opaque [simp]: "blend 255 x y = y"
  using DIV255_exact [OF unat_byte_le [of y]] by (simp add: blend_def mult.commute)


subsection \<open>Conversion onto the white background\<close>

lemma convert_for_jpeg_other:
  "im_mode img \<notin> set [''RGBA'', ''LA'', ''P''] \<Longrightarrow> convert_for_jpeg img = img"
  by (simp add: convert_for_jpeg_def)

lemma convert_for_jpeg_RGBA:
  "im_mode img = ''RGBA'' \<Longrightarrow>
   convert_for_jpeg img = paste_mask (image_new ''RGB'' (im_size img) [255, 255, 255]) img (alpha_band img)"
  by (simp add: convert_for_jpeg_def)

lemma convert_for_jpeg_P:
  "im_mode img = ''P'' \<Longrightarrow>
   convert_for_jpeg img = paste_mask (image_new ''RGB'' (im_size img) [255, 255, 255])
                            (convert_rgba img) (alpha_band (convert_rgba img))"
  by (simp add: convert_for_jpeg_def convert_rgba_def Let_def)

lemma convert_for_jpeg_LA:
  "im_mode img = ''LA'' \<Longrightarrow>
   convert_for_jpeg img = paste_copy (image_new ''RGB'' (im_size img) [255, 255, 255]) img"
  by (simp add: convert_for_jpeg_def)

lemma convert_for_jpeg_size [simp]: "im_size (convert_for_jpeg img) = im_size img"
  by (simp add: convert_for_jpeg_def paste_mask_def paste_copy_def image_new_def Let_def)

lemma convert_for_jpeg_mode:
  "im_mode (convert_for_jpeg img) =
     (if im_mode img \<in> set [''RGBA'', ''LA'', ''P''] then ''RGB'' else im_mode img)"
  by (simp add: convert_for_jpeg_def paste_mask_def paste_copy_def image_new_def convert_rgba_def Let_def)

text \<open>One pixel of an RGBA image pasted with its alpha onto white.\<close>

lemma paste_mask_white_nth:
  assumes "length (im_pixels img) = fst (im_size img) * snd (im_size img)"
    and "i < length (im_pixels img)" and "im_pixels img ! i = [r, g, b, a]"
  shows "im_pixels (paste_mask (image_new ''RGB'' (im_size img) [255, 255, 255]) img (alpha_band img)) ! i
           = [blend a 255 r, blend a 255 g, blend a 255 b]"
  using assms by (simp add: paste_mask_def image_new_def alpha_band_def)

lemma paste_mask_length:
  "length (im_pixels img) = fst (im_size img) * snd (im_size img) \<Longrightarrow>
   length (im_pixels (paste_mask (image_new ''RGB'' (im_size img) [255, 255, 255]) img (alpha_band img)))
     = length (im_pixels img)"
  by (simp add: paste_mask_def image_new_def alpha_band_def)

subsection \<open>Thumbnail and save\<close>

lemma thumbnail_Inr:
  assumes "thumbnail c box img = Inr img'"
  shows "im_mode img' = im_mode img \<and> im_format img' = im_format img \<and>
         (preserve_aspect_ratio box (im_size img) = Inr None \<and> img' = img \<or>
          preserve_aspect_ratio box (im_size img) = Inr (Some (im_size img')))"
  using assms by (auto simp: thumbnail_def split: sum.splits option.splits if_splits)

lemma preserve_None_fits:
  "preserve_aspect_ratio (x, y) (w, h) = Inr None \<Longrightarrow> w \<le> x \<and> h \<le> y"
  by (auto simp: preserve_aspect_ratio_def Let_def split: if_splits)

lemma jpeg_save_Inr:
  assumes "jpeg_save c img q opt = Inr buf"
  shows "0 < fst (im_size img) \<and> 0 < snd (im_size img) \<and> im_mode img \<in> set JPEG_RAWMODES \<and>
         buf = encode c img q opt"
  using assms by (auto simp: jpeg_save_def split: if_splits)

lemma image_open_ok:
  "decode c d = Inr src \<Longrightarrow> 0 < fst (im_size src) \<Longrightarrow> 0 < snd (im_size src) \<Longrightarrow> image_open c d = Inr src"
  by (simp add: image_open_def)

lemma transform_Inr:
  assumes "transform c d = Inr (img, buf)"
  shows "\<exists>src. decode c d = Inr src \<and> 0 < fst (im_size src) \<and> 0 < snd (im_size src) \<and>
               thumbnail c THUMBNAIL_SIZE (convert_for_jpeg src) = Inr img \<and>
               jpeg_save c img THUMBNAIL_QUALITY True = Inr buf"
  using assms by (auto simp: transform_def image_open_def bindS_Inr_iff split: if_splits)

lemma thumbnail_box_Inr:
  assumes "thumbnail c THUMBNAIL_SIZE img = Inr img'"
  shows "fst (im_size img') \<le> 200 \<and> snd (im_size img') \<le> 200 \<and> im_mode img' = im_mode img"
proof -
  obtain w h where sz: "im_size img = (w, h)" by fastforce
  show ?thesis
    using thumbnail_Inr [OF assms] thumbnail_fits_box [of 200 200 w h] preserve_None_fits [of 200 200 w h]
    by (cases "im_size img'") (auto simp: sz THUMBNAIL_SIZE_def)
qed

text \<open>On an image of positive size, \<open>thumbnail\<close> with the handler's box does not raise.\<close>

lemma thumbnail_box_total:
  assumes "0 < fst (im_size img)" and "0 < snd (im_size img)"
  shows "\<exists>img'. thumbnail c THUMBNAIL_SIZE img = Inr img' \<and>
           0 < fst (im_size img') \<and> 0 < snd (im_size img') \<and> im_mode img' = im_mode img"
proof -
  obtain w h where sz: "im_size img = (w, h)" by fastforce
  obtain r where r: "preserve_aspect_ratio (200, 200) (w, h) = Inr r"
    using preserve_aspect_ratio_no_error [of h 200 200 w] assms(2) sz by auto
  obtain img' where th: "thumbnail c THUMBNAIL_SIZE img = Inr img'"
    using r sz by (cases r) (auto simp: thumbnail_def THUMBNAIL_SIZE_def)
  have pos: "0 < fst (im_size img') \<and> 0 < snd (im_size img')"
  proof (cases r)
    case None
    then show ?thesis using thumbnail_Inr [OF th] r sz assms by (auto simp: THUMBNAIL_SIZE_def)
  next
    case (Some sz')
    then show ?thesis
      using thumbnail_Inr [OF th] r sz thumbnail_positive [of 200 200 w h "fst sz'" "snd sz'"]
      by (auto simp: THUMBNAIL_SIZE_def)
  qed
  with th thumbnail_Inr [OF th] show ?thesis by blast
qed

subsection \<open>Properties of the conversion\<close>

text \<open>
  C19: Transparent pixels render as white: a pixel of an RGBA image with alpha 0 becomes
  \<open>(255, 255, 255)\<close> in the converted RGB image.
\<close>

theorem convert_transparent_white:
  assumes "im_mode img = ''RGBA''" and "length (im_pixels img) = fst (im_size img) * snd (im_size img)"
    and "i < length (im_pixels img)" and "im_pixels img ! i = [r, g, b, 0]"
  shows "im_pixels (convert_for_jpeg img) ! i = [255, 255, 255]"
  using paste_mask_white_nth [OF assms(2-4)] by (simp add: convert_for_jpeg_RGBA [OF assms(1)])

theorem convert_transparent_white_witness:
  "im_mode \<lparr>im_mode = ''RGBA'', im_size = (2, 1), im_pixels = [[10, 20, 30, 0], [1, 2, 3, 255]],
            im_palette = (\<lambda>_. []), im_format = Some ''PNG''\<rparr> = ''RGBA'' \<and>
   length [[10, 20, 30, 0], [1, 2, 3, 255 :: byte]] = 2 * 1 \<and> (0::nat) < 2 \<and>
   im_pixels (convert_for_jpeg \<lparr>im_mode = ''RGBA'', im_size = (2, 1),
      im_pixels = [[10, 20, 30, 0], [1, 2, 3, 255]], im_palette = (\<lambda>_. []), im_format = Some ''PNG''\<rparr>) ! 0
     = [255, 255, 255]"
  using convert_transparent_white [of "\<lparr>im_mode = ''RGBA'', im_size = (2, 1),
      im_pixels = [[10, 20, 30, 0], [1, 2, 3, 255]], im_palette = (\<lambda>_. []), im_format = Some ''PNG''\<rparr>"
      0 10 20 30] by simp

text \<open>
  C20: Compositing onto white never darkens: each band of a converted RGBA pixel lies
  between the source band and 255, and an opaque pixel keeps its colour.
\<close>

theorem convert_lightens:
  assumes "im_mode img = ''RGBA''" and "length (im_pixels img) = fst (im_size img) * snd (im_size img)"
    and "i < length (im_pixels img)" and "im_pixels img ! i = [r, g, b, a]"
  shows "\<exists>r' g' b'. im_pixels (convert_for_jpeg img) ! i = [r', g', b'] \<and>
           unat r \<le> unat r' \<and> unat g \<le> unat g' \<and> unat b \<le> unat b' \<and>
           (a = 255 \<longrightarrow> [r', g', b'] = [r, g, b])"
proof -
  have out: "im_pixels (convert_for_jpeg img) ! i = [blend a 255 r, blend a 255 g, blend a 255 b]"
    using paste_mask_white_nth [OF assms(2-4)] by (simp add: convert_for_jpeg_RGBA [OF assms(1)])
  have "unat x \<le> unat (blend a 255 x)" for x :: byte
    using blend_between [of 255 x a] unat_byte_le [of x] by simp
  with out show ?thesis by auto
qed

theorem convert_lightens_witness:
  "im_mode \<lparr>im_mode = ''RGBA'', im_size = (1, 1), im_pixels = [[10, 20, 30, 128]],
            im_palette = (\<lambda>_. []), im_format = Some ''PNG''\<rparr> = ''RGBA'' \<and>
   length [[10, 20, 30, 128 :: byte]] = 1 * 1 \<and> (0::nat) < 1 \<and>
   (\<exists>r' g' b'. im_pixels (convert_for_jpeg \<lparr>im_mode = ''RGBA'', im_size = (1, 1),
      im_pixels = [[10, 20, 30, 128]], im_palette = (\<lambda>_. []), im_format = Some ''PNG''\<rparr>) ! 0 = [r', g', b'] \<and>
      unat (10::byte) \<le> unat r' \<and> unat (20::byte) \<le> unat g' \<and> unat (30::byte) \<le> unat b' \<and>
      ((128::byte) = 255 \<longrightarrow> [r', g', b'] = [10, 20, 30]))"
  using convert_lightens [of "\<lparr>im_mode = ''RGBA'', im_size = (1, 1),
      im_pixels = [[10, 20, 30, 128]], im_palette = (\<lambda>_. []), im_format = Some ''PNG''\<rparr>"
      0 10 20 30 128] by simp

text \<open>
  C21: A palette image is converted through its RGBA palette: an index whose entry is
  transparent renders as white.
\<close>

theorem convert_palette_transparent:
  assumes "im_mode img = ''P''" and "length (im_pixels img) = fst (im_size img) * snd (im_size img)"
    and "i < length (im_pixels img)" and "im_pixels img ! i = [idx]"
    and "im_palette img idx = [r, g, b, 0]"
  shows "im_pixels (convert_for_jpeg img) ! i = [255, 255, 255]"
proof -
  let ?c = "convert_rgba img"
  have "length (im_pixels ?c) = fst (im_size ?c) * snd (im_size ?c)" "i < length (im_pixels ?c)"
    "im_pixels ?c ! i = [r, g, b, 0]"
    using assms(2-5) by (simp_all add: convert_rgba_def)
  from paste_mask_white_nth [OF this] show ?thesis
    by (simp add: convert_for_jpeg_P [OF assms(1)] convert_rgba_def)
qed

theorem convert_palette_transparent_witness:
  "im_mode \<lparr>im_mode = ''P'', im_size = (1, 1), im_pixels = [[7]],
            im_palette = (\<lambda>_. [0, 0, 0, 0]), im_format = Some ''GIF''\<rparr> = ''P'' \<and>
   length [[7 :: byte]] = 1 * 1 \<and> (0::nat) < 1 \<and> [[7 :: byte]] ! 0 = [7] \<and>
   (\<lambda>_::byte. [0, 0, 0, 0 :: byte]) 7 = [0, 0, 0, 0] \<and>
   im_pixels (convert_for_jpeg \<lparr>im_mode = ''P'', im_size = (1, 1), im_pixels = [[7]],
      im_palette = (\<lambda>_. [0, 0, 0, 0]), im_format = Some ''GIF''\<rparr>) ! 0 = [255, 255, 255]"
  using convert_palette_transparent [of "\<lparr>im_mode = ''P'', im_size = (1, 1), im_pixels = [[7]],
      im_palette = (\<lambda>_. [0, 0, 0, 0]), im_format = Some ''GIF''\<rparr>" 0 7 0 0 0] by simp

text \<open>
  C22: An LA image is pasted without a mask, so its alpha band is dropped: a pixel
  \<open>(l, a)\<close> becomes \<open>(l, l, l)\<close> whatever \<open>a\<close> is, and a fully transparent black
  pixel stays black instead of rendering white.
\<close>

theorem convert_la_drops_alpha:
  assumes "im_mode img = ''LA''" and "i < length (im_pixels img)" and "im_pixels img ! i = [l, a]"
  shows "im_pixels (convert_for_jpeg img) ! i = [l, l, l]"
  using assms by (simp add: convert_for_jpeg_LA paste_copy_def)

theorem convert_la_drops_alpha_witness:
  "im_mode \<lparr>im_mode = ''LA'', im_size = (1, 1), im_pixels = [[0, 0]],
            im_palette = (\<lambda>_. []), im_format = Some ''PNG''\<rparr> = ''LA'' \<and> (0::nat) < 1 \<and>
   [[0, 0 :: byte]] ! 0 = [0, 0] \<and>
   im_pixels (convert_for_jpeg \<lparr>im_mode = ''LA'', im_size = (1, 1), im_pixels = [[0, 0]],
      im_palette = (\<lambda>_. []), im_format = Some ''PNG''\<rparr>) ! 0 = [0, 0, 0] \<and>
   [0, 0, 0 :: byte] \<noteq> [255, 255, 255]"
  using convert_la_drops_alpha [of "\<lparr>im_mode = ''LA'', im_size = (1, 1), im_pixels = [[0, 0]],
      im_palette = (\<lambda>_. []), im_format = Some ''PNG''\<rparr>" 0 0 0] by simp

subsection \<open>Properties of the transformation\<close>

text \<open>Two sizes evaluated once, for the examples below.\<close>

lemma preserve_400_300: "preserve_aspect_ratio (200, 200) (400, 300) = Inr (Some (200, 150))"
  by code_simp

lemma preserve_1000_3: "preserve_aspect_ratio (200, 200) (1000, 3) = Inr (Some (200, 1))"
  by code_simp

text \<open>
  C14: What reaches the JPEG encoder fits the 200 by 200 box, is not empty, has a mode the
  JPEG writer accepts, and is encoded at quality 80 with \<open>optimize\<close>.
\<close>

theorem transform_output:
  assumes "transform c d = Inr (img, buf)"
  shows "0 < fst (im_size img) \<and> fst (im_size img) \<le> 200 \<and>
         0 < snd (im_size img) \<and> snd (im_size img) \<le> 200 \<and>
         im_mode img \<in> set JPEG_RAWMODES \<and> buf = encode c img 80 True"
proof -
  obtain src where th: "thumbnail c THUMBNAIL_SIZE (convert_for_jpeg src) = Inr img"
    and sv: "jpeg_save c img THUMBNAIL_QUALITY True = Inr buf"
    using transform_Inr [OF assms] by blast
  show ?thesis
    using thumbnail_box_Inr [OF th] jpeg_save_Inr [OF sv] by (simp add: THUMBNAIL_QUALITY_def)
qed

theorem transform_output_witness:
  "transform \<lparr>decode = (\<lambda>_. Inr \<lparr>im_mode = ''RGB'', im_size = (400, 300), im_pixels = [],
                                 im_palette = (\<lambda>_. []), im_format = Some ''JPEG''\<rparr>),
              resample = (\<lambda>_ _. []), encode = (\<lambda>_ _ _. [1, 2, 3])\<rparr> [0] =
     Inr (\<lparr>im_mode = ''RGB'', im_size = (200, 150), im_pixels = [],
           im_palette = (\<lambda>_. []), im_format = Some ''JPEG''\<rparr>, [1, 2, 3]) \<and>
   0 < (200::nat) \<and> (200::nat) \<le> 200 \<and> 0 < (150::nat) \<and> (150::nat) \<le> 200 \<and>
   ''RGB'' \<in> set JPEG_RAWMODES"
proof -
  have e: "transform \<lparr>decode = (\<lambda>_. Inr \<lparr>im_mode = ''RGB'', im_size = (400, 300), im_pixels = [],
                                 im_palette = (\<lambda>_. []), im_format = Some ''JPEG''\<rparr>),
              resample = (\<lambda>_ _. []), encode = (\<lambda>_ _ _. [1, 2, 3])\<rparr> [0] =
     Inr (\<lparr>im_mode = ''RGB'', im_size = (200, 150), im_pixels = [],
           im_palette = (\<lambda>_. []), im_format = Some ''JPEG''\<rparr>, [1, 2, 3])"
    by (simp add: transform_def image_open_def convert_for_jpeg_def thumbnail_def THUMBNAIL_SIZE_def
        preserve_400_300 jpeg_save_def JPEG_RAWMODES_def)
  show ?thesis using transform_output [OF e] e by simp
qed

text \<open>
  C15: The thumbnail never enlarges the decoded image and keeps its aspect ratio within
  one pixel: the cross products of the two sizes differ by less than the longer side.
\<close>

theorem transform_shape:
  assumes "transform c d = Inr (img, buf)" and "decode c d = Inr src" and "0 < fst (im_size src)"
  shows "fst (im_size img) \<le> fst (im_size src) \<and> snd (im_size img) \<le> snd (im_size src) \<and>
         \<bar>int (fst (im_size img)) * int (snd (im_size src)) - int (snd (im_size img)) * int (fst (im_size src))\<bar>
           < int (max (fst (im_size src)) (snd (im_size src)))"
proof -
  have th: "thumbnail c THUMBNAIL_SIZE (convert_for_jpeg src) = Inr img"
    using transform_Inr [OF assms(1)] assms(2) by auto
  obtain w h where sz: "im_size src = (w, h)" by fastforce
  obtain w' h' where sz': "im_size img = (w', h')" by fastforce
  have w: "0 < w" using assms(3) sz by simp
  from thumbnail_Inr [OF th] sz sz'
  consider "preserve_aspect_ratio (200, 200) (w, h) = Inr None" "img = convert_for_jpeg src"
    | "preserve_aspect_ratio (200, 200) (w, h) = Inr (Some (w', h'))"
    by (auto simp: THUMBNAIL_SIZE_def)
  then show ?thesis
  proof cases
    case 1
    then have "w' = w" "h' = h" using sz sz' by simp_all
    with w sz sz' show ?thesis by (simp add: mult.commute)
  next
    case 2
    show ?thesis
      using thumbnail_no_upscale [OF 2 w] thumbnail_aspect_ratio [OF 2 w] sz sz' by simp
  qed
qed

theorem transform_shape_witness:
  "transform \<lparr>decode = (\<lambda>_. Inr \<lparr>im_mode = ''RGB'', im_size = (1000, 3), im_pixels = [],
                                 im_palette = (\<lambda>_. []), im_format = Some ''JPEG''\<rparr>),
              resample = (\<lambda>_ _. []), encode = (\<lambda>_ _ _. [])\<rparr> [] =
     Inr (\<lparr>im_mode = ''RGB'', im_size = (200, 1), im_pixels = [],
           im_palette = (\<lambda>_. []), im_format = Some ''JPEG''\<rparr>, []) \<and>
   (200::nat) \<le> 1000 \<and> (1::nat) \<le> 3 \<and> \<bar>200 * 3 - 1 * 1000\<bar> < (1000::int)"
proof -
  let ?c = "\<lparr>decode = (\<lambda>_. Inr \<lparr>im_mode = ''RGB'', im_size = (1000, 3), im_pixels = [],
                                 im_palette = (\<lambda>_. []), im_format = Some ''JPEG''\<rparr>),
              resample = (\<lambda>_ _. []), encode = (\<lambda>_ _ _. [])\<rparr>"
  have e: "transform ?c [] =
     Inr (\<lparr>im_mode = ''RGB'', im_size = (200, 1), im_pixels = [],
           im_palette = (\<lambda>_. []), im_format = Some ''JPEG''\<rparr>, [])"
    by (simp add: transform_def image_open_def convert_for_jpeg_def thumbnail_def THUMBNAIL_SIZE_def
        preserve_1000_3 jpeg_save_def JPEG_RAWMODES_def)
  have d: "decode ?c [] = Inr \<lparr>im_mode = ''RGB'', im_size = (1000, 3), im_pixels = [],
                                 im_palette = (\<lambda>_. []), im_format = Some ''JPEG''\<rparr>" by simp
  show ?thesis using transform_shape [OF e d] e by simp
qed

text \<open>
  C16: Every decodable image of positive size whose mode is RGBA, LA, P or one the JPEG
  writer accepts is transformed without an exception.
\<close>

theorem transform_succeeds:
  assumes "decode c d = Inr src"
    and "im_mode src \<in> set [''RGBA'', ''LA'', ''P''] \<union> set JPEG_RAWMODES"
    and "0 < fst (im_size src)" and "0 < snd (im_size src)"
  shows "\<exists>img buf. transform c d = Inr (img, buf)"
proof -
  have mode: "im_mode (convert_for_jpeg src) \<in> set JPEG_RAWMODES"
    using assms(2) by (auto simp: convert_for_jpeg_mode JPEG_RAWMODES_def)
  obtain img where th: "thumbnail c THUMBNAIL_SIZE (convert_for_jpeg src) = Inr img"
    and pos: "0 < fst (im_size img)" "0 < snd (im_size img)"
    and md: "im_mode img = im_mode (convert_for_jpeg src)"
    using thumbnail_box_total [of "convert_for_jpeg src" c] assms(3,4) by auto
  have "jpeg_save c img THUMBNAIL_QUALITY True = Inr (encode c img THUMBNAIL_QUALITY True)"
    using thumbnail_box_Inr [OF th] mode pos md by (simp add: jpeg_save_def)
  with th image_open_ok [OF assms(1,3,4)] show ?thesis by (auto simp: transform_def)
qed

theorem transform_succeeds_witness:
  "decode \<lparr>decode = (\<lambda>_. Inr \<lparr>im_mode = ''P'', im_size = (640, 480), im_pixels = [],
                                 im_palette = (\<lambda>_. []), im_format = Some ''GIF''\<rparr>),
           resample = (\<lambda>_ _. []), encode = (\<lambda>_ _ _. [])\<rparr> [] =
     Inr \<lparr>im_mode = ''P'', im_size = (640, 480), im_pixels = [],
          im_palette = (\<lambda>_. []), im_format = Some ''GIF''\<rparr> \<and>
   ''P'' \<in> set [''RGBA'', ''LA'', ''P''] \<union> set JPEG_RAWMODES \<and> 0 < (640::nat) \<and> 0 < (480::nat) \<and>
   (\<exists>img buf. transform \<lparr>decode = (\<lambda>_. Inr \<lparr>im_mode = ''P'', im_size = (640, 480), im_pixels = [],
                                 im_palette = (\<lambda>_. []), im_format = Some ''GIF''\<rparr>),
           resample = (\<lambda>_ _. []), encode = (\<lambda>_ _ _. [])\<rparr> [] = Inr (img, buf))"
  using transform_succeeds [of "\<lparr>decode = (\<lambda>_. Inr \<lparr>im_mode = ''P'', im_size = (640, 480), im_pixels = [],
                                 im_palette = (\<lambda>_. []), im_format = Some ''GIF''\<rparr>),
           resample = (\<lambda>_ _. []), encode = (\<lambda>_ _ _. [])\<rparr>" "[]"] by simp

text \<open>
  C17: An image that already fits the box is not resized: the encoder receives the
  decoded image itself when its mode needs no conversion.
\<close>

theorem transform_small_unchanged:
  assumes "decode c d = Inr src" and "im_mode src \<in> set JPEG_RAWMODES"
    and "0 < fst (im_size src)" and "fst (im_size src) \<le> 200"
    and "0 < snd (im_size src)" and "snd (im_size src) \<le> 200"
  shows "transform c d = Inr (src, encode c src 80 True)"
proof -
  have conv: "convert_for_jpeg src = src"
    using assms(2) by (intro convert_for_jpeg_other) (auto simp: JPEG_RAWMODES_def)
  have "thumbnail c THUMBNAIL_SIZE src = Inr src"
    using assms(4,6) by (cases "im_size src") (simp add: thumbnail_def THUMBNAIL_SIZE_def preserve_aspect_ratio_def)
  moreover have "jpeg_save c src THUMBNAIL_QUALITY True = Inr (encode c src 80 True)"
    using assms(2-6) by (simp add: jpeg_save_def THUMBNAIL_QUALITY_def)
  ultimately show ?thesis using image_open_ok [OF assms(1,3,5)] conv by (simp add: transform_def)
qed

theorem transform_small_unchanged_witness:
  "decode \<lparr>decode = (\<lambda>_. Inr \<lparr>im_mode = ''L'', im_size = (64, 200), im_pixels = [],
                                 im_palette = (\<lambda>_. []), im_format = Some ''PNG''\<rparr>),
           resample = (\<lambda>_ _. []), encode = (\<lambda>_ _ _. [9])\<rparr> [] =
     Inr \<lparr>im_mode = ''L'', im_size = (64, 200), im_pixels = [],
          im_palette = (\<lambda>_. []), im_format = Some ''PNG''\<rparr> \<and>
   ''L'' \<in> set JPEG_RAWMODES \<and> 0 < (64::nat) \<and> (64::nat) \<le> 200 \<and> 0 < (200::nat) \<and> (200::nat) \<le> 200 \<and>
   transform \<lparr>decode = (\<lambda>_. Inr \<lparr>im_mode = ''L'', im_size = (64, 200), im_pixels = [],
                                 im_palette = (\<lambda>_. []), im_format = Some ''PNG''\<rparr>),
           resample = (\<lambda>_ _. []), encode = (\<lambda>_ _ _. [9])\<rparr> [] =
     Inr (\<lparr>im_mode = ''L'', im_size = (64, 200), im_pixels = [],
          im_palette = (\<lambda>_. []), im_format = Some ''PNG''\<rparr>, [9])"
  using transform_small_unchanged [of "\<lparr>decode = (\<lambda>_. Inr \<lparr>im_mode = ''L'', im_size = (64, 200), im_pixels = [],
                                 im_palette = (\<lambda>_. []), im_format = Some ''PNG''\<rparr>),
           resample = (\<lambda>_ _. []), encode = (\<lambda>_ _ _. [9])\<rparr>" "[]"]
  by (simp add: JPEG_RAWMODES_def)

text \<open>
  C35: The older handler cannot store a thumbnail of an image with an alpha channel: with
  no conversion, the JPEG writer rejects mode RGBA.
\<close>

theorem legacy_transform_rgba:
  assumes "decode c d = Inr src" and "im_mode src = ''RGBA''"
    and "0 < fst (im_size src)" and "0 < snd (im_size src)"
  shows "legacy_transform c d = Inl (OSError ''cannot write mode RGBA as JPEG'')"
proof -
  obtain img where th: "thumbnail c THUMBNAIL_SIZE src = Inr img"
    and pos: "0 < fst (im_size img)" "0 < snd (im_size img)" and md: "im_mode img = ''RGBA''"
    using thumbnail_box_total [of src c] assms(2-4) by auto
  have "jpeg_save c img 80 False = Inl (OSError ''cannot write mode RGBA as JPEG'')"
    using pos md by (simp add: jpeg_save_def JPEG_RAWMODES_def)
  with th image_open_ok [OF assms(1,3,4)] show ?thesis by (simp add: legacy_transform_def)
qed

theorem legacy_transform_rgba_witness:
  "decode \<lparr>decode = (\<lambda>_. Inr \<lparr>im_mode = ''RGBA'', im_size = (800, 600), im_pixels = [],
                                 im_palette = (\<lambda>_. []), im_format = Some ''PNG''\<rparr>),
           resample = (\<lambda>_ _. []), encode = (\<lambda>_ _ _. [])\<rparr> [] =
     Inr \<lparr>im_mode = ''RGBA'', im_size = (800, 600), im_pixels = [],
          im_palette = (\<lambda>_. []), im_format = Some ''PNG''\<rparr> \<and>
   0 < (800::nat) \<and> 0 < (600::nat) \<and>
   legacy_transform \<lparr>decode = (\<lambda>_. Inr \<lparr>im_mode = ''RGBA'', im_size = (800, 600), im_pixels = [],
                                 im_palette = (\<lambda>_. []), im_format = Some ''PNG''\<rparr>),
           resample = (\<lambda>_ _. []), encode = (\<lambda>_ _ _. [])\<rparr> [] =
     Inl (OSError ''cannot write mode RGBA as JPEG'')"
  using legacy_transform_rgba [of "\<lparr>decode = (\<lambda>_. Inr \<lparr>im_mode = ''RGBA'', im_size = (800, 600), im_pixels = [],
                                 im_palette = (\<lambda>_. []), im_format = Some ''PNG''\<rparr>),
           resample = (\<lambda>_ _. []), encode = (\<lambda>_ _ _. [])\<rparr>" "[]"] by simp

lemma convert_for_jpeg_format:
  "im_format (convert_for_jpeg img) = (if im_mode img \<in> set [''RGBA'', ''LA'', ''P''] then None else im_format img)"
  by (simp add: convert_for_jpeg_def paste_mask_def paste_copy_def image_new_def Let_def)

text \<open>
  C18: The \<open>Format\<close> the success message reports (\<open>image.format\<close> of the final image)
  is the decoded format for opaque images and \<open>None\<close> for RGBA, LA and P images, which
  the conversion replaces by a new image.
\<close>

theorem transform_format:
  assumes "decode c d = Inr src" and "transform c d = Inr (img, buf)"
  shows "im_format img = (if im_mode src \<in> set [''RGBA'', ''LA'', ''P''] then None else im_format src)"
proof -
  obtain src' where "decode c d = Inr src'" and "thumbnail c THUMBNAIL_SIZE (convert_for_jpeg src') = Inr img"
    using transform_Inr [OF assms(2)] by blast
  then show ?thesis
    using assms(1) thumbnail_Inr convert_for_jpeg_format by fastforce
qed

theorem transform_format_witness:
  "decode \<lparr>decode = (\<lambda>_. Inr \<lparr>im_mode = ''RGBA'', im_size = (100, 100), im_pixels = [], im_palette = (\<lambda>_. []), im_format = Some ''PNG''\<rparr>), resample = (\<lambda>_ _. []), encode = (\<lambda>_ _ _. [9])\<rparr> [] = Inr \<lparr>im_mode = ''RGBA'', im_size = (100, 100), im_pixels = [], im_palette = (\<lambda>_. []), im_format = Some ''PNG''\<rparr> \<and>
   transform \<lparr>decode = (\<lambda>_. Inr \<lparr>im_mode = ''RGBA'', im_size = (100, 100), im_pixels = [], im_palette = (\<lambda>_. []), im_format = Some ''PNG''\<rparr>), resample = (\<lambda>_ _. []), encode = (\<lambda>_ _ _. [9])\<rparr> [] = Inr (\<lparr>im_mode = ''RGB'', im_size = (100, 100), im_pixels = [], im_palette = (\<lambda>_. []), im_format = None\<rparr>, [9]) \<and>
   im_format \<lparr>im_mode = ''RGB'', im_size = (100, 100), im_pixels = [], im_palette = (\<lambda>_. []), im_format = None\<rparr> = (if im_mode \<lparr>im_mode = ''RGBA'', im_size = (100, 100), im_pixels = [], im_palette = (\<lambda>_. []), im_format = Some ''PNG''\<rparr> \<in> set [''RGBA'', ''LA'', ''P''] then None else im_format \<lparr>im_mode = ''RGBA'', im_size = (100, 100), im_pixels = [], im_palette = (\<lambda>_. []), im_format = Some ''PNG''\<rparr>)"
proof -
  have tr: "transform \<lparr>decode = (\<lambda>_. Inr \<lparr>im_mode = ''RGBA'', im_size = (100, 100), im_pixels = [], im_palette = (\<lambda>_. []), im_format = Some ''PNG''\<rparr>), resample = (\<lambda>_ _. []), encode = (\<lambda>_ _ _. [9])\<rparr> [] = Inr (\<lparr>im_mode = ''RGB'', im_size = (100, 100), im_pixels = [], im_palette = (\<lambda>_. []), im_format = None\<rparr>, [9])"
    by (simp add: transform_def image_open_def convert_for_jpeg_def thumbnail_def THUMBNAIL_SIZE_def preserve_aspect_ratio_def
        jpeg_save_def JPEG_RAWMODES_def paste_mask_def image_new_def Let_def)
  show ?thesis
    using transform_format [of "\<lparr>decode = (\<lambda>_. Inr \<lparr>im_mode = ''RGBA'', im_size = (100, 100), im_pixels = [], im_palette = (\<lambda>_. []), im_format = Some ''PNG''\<rparr>), resample = (\<lambda>_ _. []), encode = (\<lambda>_ _ _. [9])\<rparr>" "[]" "\<lparr>im_mode = ''RGBA'', im_size = (100, 100), im_pixels = [], im_palette = (\<lambda>_. []), im_format = Some ''PNG''\<rparr>" "\<lparr>im_mode = ''RGB'', im_size = (100, 100), im_pixels = [], im_palette = (\<lambda>_. []), im_format = None\<rparr>" "[9]"] tr by simp
qed

end
