(* ===== verification/PyPath.thy ===== *)
theory PyPath
  imports Prelude
begin

text \<open>
  Destination-key derivation. \<open>os.path.splitext\<close> and \<open>os.path.basename\<close> are
  CPython's \<open>posixpath\<close> functions (\<open>genericpath._splitext\<close> with separator
  \<open>/\<close> and extension separator \<open>.\<close>), written here as the library writes them,
  including the loop that skips leading dots of the file name; \<open>thumbnail_key\<close>
  is the f-string of src/docs/lambda-function.py line 88 and
  \<open>legacy_thumbnail_key\<close> the one of src/lamcode.py line 34.
\<close>

text \<open>\<open>str.rfind\<close> for one character: the highest index, or -1.\<close>

fun rfind_acc :: "char \<Rightarrow> string \<Rightarrow> nat \<Rightarrow> int \<Rightarrow> int" where
  "rfind_acc c [] i r = r"
| "rfind_acc c (x # xs) i r = rfind_acc c xs (Suc i) (if x = c then int i else r)"

definition rfind :: "char \<Rightarrow> string \<Rightarrow> int" where
  "rfind c p = rfind_acc c p 0 (-1)"

text \<open>The loop of \<open>_splitext\<close> that skips all leading dots of the file name.\<close>

function skip_dots :: "string \<Rightarrow> int \<Rightarrow> int \<Rightarrow> string \<times> string" where
  "skip_dots p fi dotIndex =
     (if fi < dotIndex then
        (if p ! nat fi \<noteq> CHR ''.'' then (take (nat dotIndex) p, drop (nat dotIndex) p)
         else skip_dots p (fi + 1) dotIndex)
      else (p, []))"
  by pat_completeness auto
termination
  by (relation "measure (\<lambda>(p, fi, d). nat (d - fi))") auto

declare skip_dots.simps [simp del]

definition splitext :: "string \<Rightarrow> string \<times> string" where
  "splitext p =
     (let sepIndex = rfind CHR ''/'' p;
          dotIndex = rfind CHR ''.'' p
      in if dotIndex > sepIndex then skip_dots p (sepIndex + 1) dotIndex else (p, []))"

definition basename :: "string \<Rightarrow> string" where
  "basename p = drop (nat (rfind CHR ''/'' p + 1)) p"

definition thumbnail_key :: "string \<Rightarrow> string" where
  "thumbnail_key object_key =
     ''thumbnails/'' @ basename (fst (splitext object_key)) @ ''_thumb.jpg''"

definition legacy_thumbnail_key :: "string \<Rightarrow> string" where
  "legacy_thumbnail_key key = ''thumbnails/'' @ fst (splitext key) @ ''_thumb.jpg''"

text \<open>
  Reference reading of \<open>splitext\<close>: split at the last dot when that dot lies in the
  last path component and the part of the component before it is not made of dots only.
\<close>

definition splitext_ref :: "string \<Rightarrow> string \<times> string" where
  "splitext_ref p =
     (let s = rfind CHR ''/'' p; d = rfind CHR ''.'' p
      in if s < d \<and> (\<exists>c \<in> set (drop (nat (s + 1)) (take (nat d) p)). c \<noteq> CHR ''.'')
         then (take (nat d) p, drop (nat d) p) else (p, []))"

subsection \<open>rfind\<close>

lemma rfind_acc_append:
  "rfind_acc c (xs @ ys) i r = rfind_acc c ys (i + length xs) (rfind_acc c xs i r)"
  by (induction xs arbitrary: i r) simp_all

lemma rfind_acc_notin: "c \<notin> set xs \<Longrightarrow> rfind_acc c xs i r = r"
  by (induction xs arbitrary: i r) auto

lemma rfind_split: "c \<notin> set ys \<Longrightarrow> rfind c (xs @ c # ys) = int (length xs)"
  by (simp add: rfind_def rfind_acc_append rfind_acc_notin)

lemma rfind_notin: "c \<notin> set p \<Longrightarrow> rfind c p = -1"
  by (simp add: rfind_def rfind_acc_notin)

lemma split_last_occ:
  "c \<in> set p \<Longrightarrow> \<exists>xs ys. p = xs @ c # ys \<and> c \<notin> set ys"
proof (induction p rule: rev_induct)
  case Nil
  then show ?case by simp
next
  case (snoc x p)
  show ?case
  proof (cases "x = c")
    case True
    then show ?thesis by (intro exI [of _ p] exI [of _ "[]"]) simp
  next
    case False
    with snoc obtain xs ys where "p = xs @ c # ys" "c \<notin> set ys" by auto
    with False show ?thesis by (intro exI [of _ xs] exI [of _ "ys @ [x]"]) simp
  qed
qed

text \<open>What \<open>rfind\<close> returns, in both cases.\<close>

lemma rfind_cases:
  obtains (absent) "c \<notin> set p" "rfind c p = -1"
    | (found) xs ys where "p = xs @ c # ys" "c \<notin> set ys" "rfind c p = int (length xs)"
  using split_last_occ rfind_split rfind_notin by metis

lemma rfind_range: "-1 \<le> rfind c p \<and> rfind c p < int (length p)"
  by (cases rule: rfind_cases [of c p]) auto

subsection \<open>The dot-skipping loop against its reference\<close>

lemma skip_dots_eq:
  "0 \<le> fi \<Longrightarrow> d \<le> int (length p) \<Longrightarrow>
   skip_dots p fi d =
     (if fi < d \<and> (\<exists>c \<in> set (drop (nat fi) (take (nat d) p)). c \<noteq> CHR ''.'')
      then (take (nat d) p, drop (nat d) p) else (p, []))"
proof (induction p fi d rule: skip_dots.induct)
  case (1 p fi d)
  show ?case
  proof (cases "fi < d")
    case False
    then show ?thesis by (simp add: skip_dots.simps [of p fi d])
  next
    case True
    then have nf: "nat fi < nat d" and nd: "nat d \<le> length p"
      using "1.prems" by auto
    then have "nat fi < length (take (nat d) p)" by simp
    then have "drop (nat fi) (take (nat d) p) =
        take (nat d) p ! nat fi # drop (Suc (nat fi)) (take (nat d) p)"
      by (rule Cons_nth_drop_Suc [symmetric])
    then have drop_eq: "drop (nat fi) (take (nat d) p) =
        p ! nat fi # drop (nat (fi + 1)) (take (nat d) p)"
      using nf "1.prems" by (simp add: nat_add_distrib)
    show ?thesis
    proof (cases "p ! nat fi = CHR ''.''")
      case False
      with True show ?thesis by (simp add: skip_dots.simps [of p fi d] drop_eq)
    next
      case dot: True
      have IH: "skip_dots p (fi + 1) d =
         (if fi + 1 < d \<and> (\<exists>c \<in> set (drop (nat (fi + 1)) (take (nat d) p)). c \<noteq> CHR ''.'')
          then (take (nat d) p, drop (nat d) p) else (p, []))"
        using "1.IH" True dot "1.prems" by simp
      have "fi + 1 \<ge> d \<Longrightarrow> drop (nat (fi + 1)) (take (nat d) p) = []"
        using "1.prems" by simp
      with True dot IH show ?thesis
        by (auto simp: skip_dots.simps [of p fi d] drop_eq)
    qed
  qed
qed

theorem splitext_eq_ref: "splitext p = splitext_ref p"
proof -
  have "0 \<le> rfind CHR ''/'' p + 1" and "rfind CHR ''.'' p \<le> int (length p)"
    using rfind_range [of "CHR ''/''" p] rfind_range [of "CHR ''.''" p] by auto
  then show ?thesis
    by (simp add: splitext_def splitext_ref_def Let_def skip_dots_eq)
qed

lemma rfind_append:
  "rfind c (xs @ ys) = (if c \<in> set ys then int (length xs) + rfind c ys else rfind c xs)"
proof (cases rule: rfind_cases [of c ys])
  case absent
  then show ?thesis by (simp add: rfind_def rfind_acc_append rfind_acc_notin)
next
  case (found as bs)
  then have "rfind c (xs @ ys) = int (length (xs @ as))"
    using rfind_split [of c bs "xs @ as"] by simp
  with found show ?thesis by simp
qed

lemma rfind_nonneg_iff: "0 \<le> rfind c p \<longleftrightarrow> c \<in> set p"
  by (cases rule: rfind_cases [of c p]) auto

subsection \<open>Properties of the path functions\<close>

lemma splitext_roundtrip: "fst (splitext p) @ snd (splitext p) = p"
  by (simp add: splitext_eq_ref splitext_ref_def Let_def)

lemma basename_no_slash: "CHR ''/'' \<notin> set (basename p)"
proof (cases rule: rfind_cases [of "CHR ''/''" p])
  case absent
  then show ?thesis by (simp add: basename_def)
next
  case (found xs ys)
  then show ?thesis by (simp add: basename_def nat_add_distrib)
qed

lemma basename_suffix: "\<exists>d. p = d @ basename p \<and> (d = [] \<or> last d = CHR ''/'')"
proof (cases rule: rfind_cases [of "CHR ''/''" p])
  case absent
  then show ?thesis by (simp add: basename_def)
next
  case (found xs ys)
  then show ?thesis
    by (intro exI [of _ "xs @ [CHR ''/'']"]) (simp add: basename_def nat_add_distrib)
qed

lemma basename_dir: "CHR ''/'' \<notin> set name \<Longrightarrow> basename (dir @ CHR ''/'' # name) = name"
  by (simp add: basename_def rfind_split nat_add_distrib)

text \<open>\<open>splitext\<close> acts on the last path component only.\<close>

lemma splitext_dir:
  assumes "CHR ''/'' \<notin> set name"
  shows "splitext (dir @ CHR ''/'' # name) =
           (dir @ CHR ''/'' # fst (splitext name), snd (splitext name))"
proof (cases rule: rfind_cases [of "CHR ''.''" name])
  case absent
  have "rfind CHR ''.'' (dir @ CHR ''/'' # name) = rfind CHR ''.'' dir"
    using absent rfind_append [of "CHR ''.''" dir "CHR ''/'' # name"] by simp
  moreover have "rfind CHR ''.'' dir < int (length dir)"
    using rfind_range by blast
  ultimately show ?thesis
    using absent assms by (simp add: splitext_eq_ref splitext_ref_def Let_def rfind_split)
next
  case (found xs ys)
  let ?P = "dir @ CHR ''/'' # name"
  have s: "rfind CHR ''/'' ?P = int (length dir)" and s': "rfind CHR ''/'' name = -1"
    using assms by (simp_all add: rfind_split rfind_notin)
  have d: "rfind CHR ''.'' ?P = int (length dir) + 1 + int (length xs)"
    using found rfind_split [of "CHR ''.''" ys "dir @ CHR ''/'' # xs"] by simp
  have tk: "take (nat (int (length dir) + 1 + int (length xs))) ?P = dir @ CHR ''/'' # xs"
    and dr: "drop (nat (int (length dir) + 1 + int (length xs))) ?P = CHR ''.'' # ys"
    and sl: "drop (nat (int (length dir) + 1)) (dir @ CHR ''/'' # xs) = xs"
    using found by (simp_all add: nat_add_distrib)
  have tkn: "take (nat (int (length xs))) name = xs"
    and drn: "drop (nat (int (length xs))) name = CHR ''.'' # ys"
    and sln: "drop (nat (-1 + 1)) xs = xs"
    using found by simp_all
  show ?thesis
    unfolding splitext_eq_ref splitext_ref_def Let_def s s' d tk dr sl found(3) tkn drn sln
    using found(1) by auto
qed

lemma splitext_no_dir:
  assumes "CHR ''/'' \<notin> set b" and "CHR ''.'' \<notin> set e" and "CHR ''/'' \<notin> set e"
    and "c \<noteq> CHR ''.''" and "c \<noteq> CHR ''/''"
  shows "splitext (b @ c # CHR ''.'' # e) = (b @ [c], CHR ''.'' # e)"
proof -
  let ?P = "(b @ [c]) @ CHR ''.'' # e"
  have s: "rfind CHR ''/'' ?P = -1"
    using assms by (intro rfind_notin) auto
  have d: "rfind CHR ''.'' ?P = int (length b) + 1"
    using assms rfind_split [of "CHR ''.''" e "b @ [c]"] by simp
  have sl: "drop (nat (-1 + 1)) (take (nat (int (length b) + 1)) ?P) = b @ [c]"
    and tk: "take (nat (int (length b) + 1)) ?P = b @ [c]"
    and dr: "drop (nat (int (length b) + 1)) ?P = CHR ''.'' # e"
    by (simp_all add: nat_add_distrib)
  have "splitext ?P = (b @ [c], CHR ''.'' # e)"
    unfolding splitext_eq_ref splitext_ref_def Let_def s d sl tk dr
    using assms(4) by simp
  then show ?thesis by simp
qed

lemma basename_plain: "CHR ''/'' \<notin> set p \<Longrightarrow> basename p = p"
  by (simp add: basename_def rfind_notin)

lemma set_splitext_root: "set (fst (splitext p)) \<subseteq> set p"
  using splitext_roundtrip [of p] by (metis Un_upper1 set_append)

lemma splitext_thumb:
  assumes "CHR ''/'' \<notin> set b"
  shows "splitext (''thumbnails/'' @ b @ ''_thumb.jpg'') = (''thumbnails/'' @ b @ ''_thumb'', ''.jpg'')"
proof -
  have "splitext (b @ ''_thumb.jpg'') = (b @ ''_thumb'', ''.jpg'')"
    using splitext_no_dir [of "b @ ''_thum''" "''jpg''" "CHR ''b''"] assms by simp
  moreover have "''thumbnails/'' @ b @ ''_thumb.jpg'' = ''thumbnails'' @ CHR ''/'' # (b @ ''_thumb.jpg'')"
    by simp
  ultimately show ?thesis
    using splitext_dir [of "b @ ''_thumb.jpg''" "''thumbnails''"] assms by simp
qed

lemma thumbnail_key_shape:
  "\<exists>b. CHR ''/'' \<notin> set b \<and> thumbnail_key k = ''thumbnails/'' @ b @ ''_thumb.jpg''"
  using basename_no_slash [of "fst (splitext k)"] by (auto simp: thumbnail_key_def)

lemma thumbnail_key_of_thumb:
  assumes "CHR ''/'' \<notin> set b"
  shows "thumbnail_key (''thumbnails/'' @ b @ ''_thumb.jpg'') = ''thumbnails/'' @ b @ ''_thumb_thumb.jpg''"
  using splitext_thumb [OF assms] basename_dir [of "b @ ''_thumb''" "''thumbnails''"] assms
  by (simp add: thumbnail_key_def)

lemma length_thumbnail_key_twice:
  "length (thumbnail_key (thumbnail_key k)) = length (thumbnail_key k) + 6"
  using thumbnail_key_shape [of k] thumbnail_key_of_thumb by auto

lemma thumbnail_key_not_fixed: "thumbnail_key k \<noteq> k"
proof
  assume eq: "thumbnail_key k = k"
  then have "length (thumbnail_key (thumbnail_key k)) = length (thumbnail_key k)" by simp
  then show False using length_thumbnail_key_twice [of k] by simp
qed

subsection \<open>Properties of the destination key\<close>

text \<open>
  C23: The destination key does not depend on the directory of the source key: a key
  \<open>dir/name\<close> maps where \<open>name\<close> maps.
\<close>

theorem thumbnail_key_dir_independent:
  "CHR ''/'' \<notin> set name \<Longrightarrow> thumbnail_key (dir @ CHR ''/'' # name) = thumbnail_key name"
proof -
  assume nm: "CHR ''/'' \<notin> set name"
  then have root: "CHR ''/'' \<notin> set (fst (splitext name))"
    using set_splitext_root by blast
  show ?thesis
    using nm root by (simp add: thumbnail_key_def splitext_dir basename_dir basename_plain)
qed

theorem thumbnail_key_dir_independent_witness:
  "CHR ''/'' \<notin> set ''photo.png'' \<and>
   thumbnail_key (''uploads/2024'' @ CHR ''/'' # ''photo.png'') = thumbnail_key ''photo.png''"
  using thumbnail_key_dir_independent [of "''photo.png''" "''uploads/2024''"] by simp

text \<open>
  Every destination key lies directly under \<open>thumbnails/\<close>: it is
  \<open>thumbnails/\<close>, a name without \<open>/\<close> that ends the extension-free source key,
  and \<open>_thumb.jpg\<close>.
\<close>

theorem thumbnail_key_flat:
  "\<exists>b d. thumbnail_key k = ''thumbnails/'' @ b @ ''_thumb.jpg'' \<and> CHR ''/'' \<notin> set b \<and>
         fst (splitext k) = d @ b"
  using basename_no_slash basename_suffix [of "fst (splitext k)"]
  by (auto simp: thumbnail_key_def)

text \<open>
  C24: A file name made of leading dots and an extension without a dot, such as
  \<open>.png\<close> or \<open>..png\<close>, is not split: \<open>splitext\<close> skips leading dots, so the
  destination key keeps the whole name (\<open>thumbnails/.png_thumb.jpg\<close>) and its base name
  is never empty.
\<close>

theorem thumbnail_key_dotfile:
  assumes "CHR ''.'' \<notin> set e" and "CHR ''/'' \<notin> set e"
  shows "thumbnail_key (replicate (Suc n) CHR ''.'' @ e) =
           ''thumbnails/'' @ replicate (Suc n) CHR ''.'' @ e @ ''_thumb.jpg''"
proof -
  let ?p = "replicate (Suc n) CHR ''.'' @ e"
  have p: "?p = replicate n CHR ''.'' @ CHR ''.'' # e" by (simp add: replicate_app_Cons_same)
  have d: "rfind CHR ''.'' ?p = int n"
    using rfind_split [OF assms(1), of "replicate n CHR ''.''"] p by simp
  have s: "rfind CHR ''/'' ?p = -1"
    using assms(2) by (intro rfind_notin) auto
  have "take n ?p = replicate n CHR ''.''" unfolding p by simp
  then have "splitext ?p = (?p, [])"
    unfolding splitext_eq_ref splitext_ref_def Let_def d s by auto
  moreover have "CHR ''/'' \<notin> set ?p" using assms(2) by auto
  ultimately show ?thesis by (simp add: thumbnail_key_def basename_plain)
qed

theorem thumbnail_key_dotfile_witness:
  "CHR ''.'' \<notin> set ''png'' \<and> CHR ''/'' \<notin> set ''png'' \<and>
   thumbnail_key (replicate (Suc 0) CHR ''.'' @ ''png'') =
     ''thumbnails/'' @ replicate (Suc 0) CHR ''.'' @ ''png'' @ ''_thumb.jpg''"
  using thumbnail_key_dotfile [of "''png''" 0] by simp

text \<open>
  C25: The destination key drops both the directory and the extension, so distinct
  sources with the same stem collide and one thumbnail overwrites the other: every
  \<open>d/b.e\<close> maps to \<open>thumbnails/b_thumb.jpg\<close>, whatever the directory \<open>d\<close> and the
  extension \<open>e\<close>.
\<close>

theorem thumbnail_key_collision:
  assumes "CHR ''/'' \<notin> set b" and "c \<noteq> CHR ''.''" and "c \<noteq> CHR ''/''"
    and "CHR ''.'' \<notin> set e" and "CHR ''/'' \<notin> set e"
  shows "thumbnail_key (d @ CHR ''/'' # b @ c # CHR ''.'' # e) = ''thumbnails/'' @ b @ c # ''_thumb.jpg''"
proof -
  have nm: "CHR ''/'' \<notin> set (b @ c # CHR ''.'' # e)" using assms by auto
  have "splitext (b @ c # CHR ''.'' # e) = (b @ [c], CHR ''.'' # e)"
    using assms by (intro splitext_no_dir) auto
  then have "fst (splitext (d @ CHR ''/'' # b @ c # CHR ''.'' # e)) = d @ CHR ''/'' # b @ [c]"
    using splitext_dir [OF nm, of d] by simp
  moreover have "basename (d @ CHR ''/'' # b @ [c]) = b @ [c]"
    using assms(1,3) by (intro basename_dir) auto
  ultimately show ?thesis by (simp add: thumbnail_key_def)
qed

theorem thumbnail_key_collision_witness:
  "CHR ''/'' \<notin> set ''phot'' \<and> CHR ''o'' \<noteq> CHR ''.'' \<and> CHR ''o'' \<noteq> CHR ''/'' \<and>
   CHR ''.'' \<notin> set ''png'' \<and> CHR ''/'' \<notin> set ''png'' \<and> CHR ''.'' \<notin> set ''jpg'' \<and> CHR ''/'' \<notin> set ''jpg'' \<and>
   thumbnail_key (''a'' @ CHR ''/'' # ''phot'' @ CHR ''o'' # CHR ''.'' # ''png'') = ''thumbnails/'' @ ''phot'' @ CHR ''o'' # ''_thumb.jpg'' \<and>
   thumbnail_key (''b'' @ CHR ''/'' # ''phot'' @ CHR ''o'' # CHR ''.'' # ''jpg'') = ''thumbnails/'' @ ''phot'' @ CHR ''o'' # ''_thumb.jpg''"
  using thumbnail_key_collision [of "''phot''" "CHR ''o''" "''png''" "''a''"]
        thumbnail_key_collision [of "''phot''" "CHR ''o''" "''jpg''" "''b''"]
  by simp

text \<open>
  C26: Deriving a key from a derived key never gives it back: it appends another
  \<open>_thumb\<close>. If the destination bucket were the source bucket, each stored thumbnail
  would trigger a new event with a longer key, without end.
\<close>

theorem thumbnail_key_iterate:
  "thumbnail_key (thumbnail_key k) = ''thumbnails/'' @ basename (fst (splitext k)) @ ''_thumb_thumb.jpg''"
  using thumbnail_key_of_thumb [OF basename_no_slash [of "fst (splitext k)"]]
  by (simp add: thumbnail_key_def [of k])

text \<open>
  C27: Taking the extension off before or after dropping the directory gives the same
  key: the code's \<open>basename(splitext(key)[0])\<close> equals the spec's reading, the stem of
  the last path component.
\<close>

theorem thumbnail_key_basename_first:
  "thumbnail_key k = ''thumbnails/'' @ fst (splitext (basename k)) @ ''_thumb.jpg''"
proof -
  obtain d where k: "k = d @ basename k" and d: "d = [] \<or> last d = CHR ''/''"
    using basename_suffix by blast
  have nb: "CHR ''/'' \<notin> set (basename k)" by (rule basename_no_slash)
  then have nr: "CHR ''/'' \<notin> set (fst (splitext (basename k)))"
    using set_splitext_root by blast
  show ?thesis
  proof (cases "d = []")
    case True
    then have "k = basename k" using k by simp
    then show ?thesis using nr by (simp add: thumbnail_key_def basename_plain)
  next
    case False
    then obtain d' where "d = d' @ [CHR ''/'']" using d by (metis append_butlast_last_id)
    then have "k = d' @ CHR ''/'' # basename k" using k by simp
    then have "fst (splitext k) = d' @ CHR ''/'' # fst (splitext (basename k))"
      using splitext_dir [OF nb, of d'] by simp
    then show ?thesis using basename_dir [OF nr, of d'] by (simp add: thumbnail_key_def)
  qed
qed

text \<open>
  C36: The older handler (src/lamcode.py) keeps the directory of the source key: a key
  \<open>dir/name\<close> is stored as \<open>thumbnails/dir/<stem of name>_thumb.jpg\<close>, not under the
  flat \<open>thumbnails/<stem>_thumb.jpg\<close> of the spec's example.
\<close>

theorem legacy_thumbnail_key_dir:
  assumes "CHR ''/'' \<notin> set name"
  shows "legacy_thumbnail_key (dir @ CHR ''/'' # name) =
           ''thumbnails/'' @ dir @ CHR ''/'' # fst (splitext name) @ ''_thumb.jpg''"
  using splitext_dir [OF assms, of dir] by (simp add: legacy_thumbnail_key_def)

lemma splitext_photo: "splitext ''photo.png'' = (''photo'', ''.png'')"
  by (simp add: splitext_def rfind_def skip_dots.simps)

theorem legacy_thumbnail_key_dir_witness:
  "CHR ''/'' \<notin> set ''photo.png'' \<and>
   legacy_thumbnail_key (''source'' @ CHR ''/'' # ''photo.png'') = ''thumbnails/source/photo_thumb.jpg''"
  using legacy_thumbnail_key_dir [of "''photo.png''" "''source''"] by (simp add: splitext_photo)

text \<open>
  C37: On a key with no directory the two handlers agree: lamcode.py's
  \<open>thumbnails/{splitext(key)[0]}_thumb.jpg\<close> is the documented handler's key.
\<close>

theorem legacy_key_agrees_flat:
  assumes "CHR ''/'' \<notin> set k"
  shows "legacy_thumbnail_key k = thumbnail_key k"
proof -
  have "CHR ''/'' \<notin> set (fst (splitext k))"
    using assms set_splitext_root by blast
  then show ?thesis by (simp add: legacy_thumbnail_key_def thumbnail_key_def basename_plain)
qed

theorem legacy_key_agrees_flat_witness:
  "CHR ''/'' \<notin> set ''photo.png'' \<and> legacy_thumbnail_key ''photo.png'' = thumbnail_key ''photo.png''"
  using legacy_key_agrees_flat [of "''photo.png''"] by simp

end
