(* ===== verification/SizeText.thy ===== *)
theory SizeText
  imports Complex_Main Prelude
begin

text \<open>
  \<open>thumbnail_size_text\<close> (src/docs/lambda-function.py lines 241-249) renders the JPEG
  buffer's length as \<open>n B\<close>, \<open>x.xx KB\<close> or \<open>x.xx MB\<close>. Python formats an \<open>int\<close> in
  decimal and a float with \<open>:.2f\<close> by rounding its exact binary value to two decimals,
  ties to even. \<open>size_bytes / 1024\<close> and \<open>size_bytes / (1024 * 1024)\<close> are exact in
  binary for every size below \<open>2^53\<close>, so the float is the rational number here.
\<close>

definition digit_char :: "nat \<Rightarrow> char" where
  "digit_char d = ''0123456789'' ! d"

fun string_of_nat :: "nat \<Rightarrow> string" where
  "string_of_nat n = (if n < 10 then [digit_char n] else string_of_nat (n div 10) @ [digit_char (n mod 10)])"

declare string_of_nat.simps [simp del]

text \<open>Rounding to the nearest integer, ties to even.\<close>

definition round_half_even :: "rat \<Rightarrow> int" where
  "round_half_even q =
     (let f = \<lfloor>q\<rfloor>; d = q - of_int f
      in if d < 1/2 then f else if 1/2 < d then f + 1 else if even f then f else f + 1)"

text \<open>\<open>f"{x:.2f}"\<close> for a non-negative \<open>x\<close>.\<close>

definition format_2f :: "rat \<Rightarrow> string" where
  "format_2f x =
     (let c = nat (round_half_even (x * 100))
      in string_of_nat (c div 100) @ ''.'' @ [digit_char (c mod 100 div 10), digit_char (c mod 10)])"

definition thumbnail_size_text :: "nat \<Rightarrow> string" where
  "thumbnail_size_text size_bytes =
     (if size_bytes < 1024 then string_of_nat size_bytes @ '' B''
      else if size_bytes < 1024 * 1024 then format_2f (of_nat size_bytes / 1024) @ '' KB''
      else format_2f (of_nat size_bytes / (1024 * 1024)) @ '' MB'')"

text \<open>Reading decimal digits back, for the round-trip lemmas.\<close>

definition digit_val :: "char \<Rightarrow> nat" where
  "digit_val c = of_char c - 48"

definition parse_nat :: "string \<Rightarrow> nat" where
  "parse_nat s = foldl (\<lambda>acc c. 10 * acc + digit_val c) 0 s"

lemma digit_val_char [simp]: "d < 10 \<Longrightarrow> digit_val (digit_char d) = d"
proof -
  assume "d < 10"
  then have "d \<in> set [0, 1, 2, 3, 4, 5, 6, 7, 8, 9]" by (simp add: less_Suc_eq numeral_eq_Suc)
  then show ?thesis by (auto simp: digit_char_def digit_val_def)
qed

lemma digit_char_is_digit: "d < 10 \<Longrightarrow> digit_char d \<in> set ''0123456789''"
proof -
  assume "d < 10"
  then have "d \<in> set [0, 1, 2, 3, 4, 5, 6, 7, 8, 9]" by (simp add: less_Suc_eq numeral_eq_Suc)
  then show ?thesis by (auto simp: digit_char_def nth_Cons')
qed

lemma parse_nat_snoc: "parse_nat (s @ [c]) = 10 * parse_nat s + digit_val c"
  by (simp add: parse_nat_def)

lemma parse_string_of_nat: "parse_nat (string_of_nat n) = n"
proof (induction n rule: string_of_nat.induct)
  case (1 n)
  show ?case
  proof (cases "n < 10")
    case True
    then show ?thesis by (simp add: string_of_nat.simps [of n] parse_nat_def)
  next
    case False
    with "1.IH" show ?thesis by (simp add: string_of_nat.simps [of n] parse_nat_snoc)
  qed
qed

lemma string_of_nat_digits: "set (string_of_nat n) \<subseteq> set ''0123456789''"
proof (induction n rule: string_of_nat.induct)
  case (1 n)
  then show ?case
    using digit_char_is_digit [of n] digit_char_is_digit [of "n mod 10"]
    by (cases "n < 10") (simp_all add: string_of_nat.simps [of n])
qed

lemma round_half_even_close: "\<bar>of_int (round_half_even q) - q\<bar> \<le> 1 / 2"
proof -
  let ?f = "\<lfloor>q\<rfloor>"
  have f: "of_int ?f \<le> q" "q < of_int ?f + 1"
    using floor_correct [of q] by simp_all
  consider "q - of_int ?f < 1/2" | "1/2 < q - of_int ?f" | "q - of_int ?f = 1/2"
    by fastforce
  then show ?thesis
  proof cases
    case 1
    then have "round_half_even q = ?f" by (simp add: round_half_even_def Let_def)
    with 1 f show ?thesis by simp
  next
    case 2
    then have "round_half_even q = ?f + 1" by (simp add: round_half_even_def Let_def)
    with 2 f show ?thesis by simp
  next
    case 3
    then have "round_half_even q = ?f \<or> round_half_even q = ?f + 1"
      by (simp add: round_half_even_def Let_def)
    with 3 show ?thesis by auto
  qed
qed
lemma round_half_even_nonneg: "0 \<le> q \<Longrightarrow> 0 \<le> round_half_even q"
  by (simp add: round_half_even_def Let_def)

lemma format_2f_close:
  assumes "0 \<le> x"
  shows "\<exists>c. format_2f x = string_of_nat (c div 100) @ ''.'' @ [digit_char (c mod 100 div 10), digit_char (c mod 10)]
             \<and> \<bar>of_nat c / 100 - x\<bar> \<le> 1 / 200"
proof -
  let ?r = "round_half_even (x * 100)"
  have nn: "0 \<le> ?r" using assms by (simp add: round_half_even_nonneg)
  have "\<bar>of_int ?r - x * 100\<bar> \<le> 1 / 2" by (rule round_half_even_close)
  then have "\<bar>of_nat (nat ?r) - x * 100\<bar> \<le> 1 / 2" using nn by simp
  then have "\<bar>of_nat (nat ?r) / 100 - x\<bar> \<le> 1 / 200"
    by (simp add: abs_le_iff field_simps)
  then show ?thesis by (auto simp: format_2f_def Let_def)
qed

text \<open>Two roundings evaluated once, for the examples below.\<close>

lemma round_half_even_102400: "round_half_even (26214375 / 256) = 102400"
proof -
  have "\<lfloor>(26214375 / 256 :: rat)\<rfloor> = 102399" by (simp add: floor_eq_iff)
  then show ?thesis by (simp add: round_half_even_def)
qed

lemma round_half_even_195: "round_half_even (3125 / 16) = 195"
proof -
  have "\<lfloor>(3125 / 16 :: rat)\<rfloor> = 195" by (simp add: floor_eq_iff)
  then show ?thesis by (simp add: round_half_even_def)
qed


subsection \<open>Properties of the size text\<close>

text \<open>
  C28: Below 1024 bytes the size is written in decimal followed by \<open> B\<close>, and the
  digits read back give the size.
\<close>

theorem size_text_bytes:
  assumes "n < 1024"
  shows "\<exists>s. thumbnail_size_text n = s @ '' B'' \<and> set s \<subseteq> set ''0123456789'' \<and> parse_nat s = n"
  using assms string_of_nat_digits [of n] parse_string_of_nat [of n]
  by (auto simp: thumbnail_size_text_def)

theorem size_text_bytes_witness:
  "(837::nat) < 1024 \<and> thumbnail_size_text 837 = ''837 B''"
proof -
  obtain s where "thumbnail_size_text 837 = s @ '' B''" "set s \<subseteq> set ''0123456789''" "parse_nat s = 837"
    using size_text_bytes [of 837] by auto
  moreover have "thumbnail_size_text 837 = ''837 B''"
    by (simp add: thumbnail_size_text_def string_of_nat.simps digit_char_def)
  ultimately show ?thesis by simp
qed

text \<open>
  C29: Between 1024 bytes and 1 MiB the size is written in KB with two decimals that are
  within half a hundredth of the exact size in KiB.
\<close>

theorem size_text_kb:
  assumes "1024 \<le> n" and "n < 1024 * 1024"
  shows "\<exists>c. thumbnail_size_text n =
               string_of_nat (c div 100) @ ''.'' @ [digit_char (c mod 100 div 10), digit_char (c mod 10)] @ '' KB''
             \<and> \<bar>of_nat c / 100 - of_nat n / 1024\<bar> \<le> (1 / 200 :: rat)"
proof -
  obtain c where "format_2f (of_nat n / 1024) =
      string_of_nat (c div 100) @ ''.'' @ [digit_char (c mod 100 div 10), digit_char (c mod 10)]"
    and "\<bar>of_nat c / 100 - of_nat n / 1024\<bar> \<le> (1 / 200 :: rat)"
    using format_2f_close [of "of_nat n / 1024"] by auto
  with assms show ?thesis by (auto simp: thumbnail_size_text_def)
qed

theorem size_text_kb_witness:
  "(1024::nat) \<le> 2000 \<and> (2000::nat) < 1024 * 1024 \<and> thumbnail_size_text 2000 = ''1.95 KB'' \<and>
   \<bar>of_nat (195::nat) / 100 - of_nat (2000::nat) / 1024\<bar> \<le> (1 / 200 :: rat)"
proof -
  have "\<exists>c. thumbnail_size_text 2000 =
               string_of_nat (c div 100) @ ''.'' @ [digit_char (c mod 100 div 10), digit_char (c mod 10)] @ '' KB''
             \<and> \<bar>of_nat c / 100 - of_nat (2000::nat) / 1024\<bar> \<le> (1 / 200 :: rat)"
    by (rule size_text_kb) simp_all
  moreover have "thumbnail_size_text 2000 = ''1.95 KB''"
    by (simp add: thumbnail_size_text_def format_2f_def round_half_even_195 string_of_nat.simps
        digit_char_def Let_def)
  moreover have "\<bar>of_nat (195::nat) / 100 - of_nat (2000::nat) / 1024\<bar> \<le> (1 / 200 :: rat)"
    by simp
  ultimately show ?thesis by simp
qed



end
