(* ===== verification/Handler.thy ===== *)
theory Handler
  imports Services Imaging PyPath SizeText
begin

text \<open>
  \<open>lambda_handler\<close> of src/docs/lambda-function.py. One record runs through
  \<open>process_record\<close> (lines 49-142: read bucket and key, fetch, transform, derive the key,
  store with metadata, publish the success notification); an exception there is caught by
  \<open>record_error\<close> (lines 144-179), which publishes the error notification and lets the
  loop continue; the loop over \<open>event.get('Records', [])\<close> is \<open>process_records\<close>; an
  exception that escapes it (from the event's shape, or from the error notification's own
  publish) reaches \<open>critical_error\<close> (lines 194-238), which publishes a critical
  notification inside its own \<open>try\<close> and answers 500. Logging is not modelled; the
  \<open>datetime.now()\<close> calls are (each advances the clock), in the order the code makes
  them. \<open>json.dumps(event)\<close> (line 43) cannot fail on a parsed JSON event.
\<close>

datatype response_body =
    Body_ok string nat nat        \<comment> \<open>message, records_processed, timestamp\<close>
  | Body_error string exc nat     \<comment> \<open>error, message, timestamp\<close>
  | Body_text string              \<comment> \<open>lamcode.py: \<open>json.dumps(<string>)\<close>\<close>
  | Body_error_text exc           \<comment> \<open>lamcode.py: \<open>json.dumps(f'Error: {e}')\<close>\<close>

record response =
  statusCode :: nat
  body :: response_body

text \<open>Lines 98-103 (the fourth entry, \<open>generation-time\<close>, is the clock tick stored beside it).\<close>

definition thumbnail_metadata :: "string \<Rightarrow> string \<Rightarrow> (string \<times> string) list" where
  "thumbnail_metadata object_key bucket_name =
     [(''original-image'', object_key), (''source-bucket'', bucket_name),
      (''generated-by'', ''Lambda-ThumbnailGenerator'')]"

text \<open>Lines 109-133: the fields of the success message.\<close>

definition success_note ::
  "config \<Rightarrow> string \<Rightarrow> string \<Rightarrow> byte list \<Rightarrow> image \<Rightarrow> string \<Rightarrow> byte list \<Rightarrow> nat \<Rightarrow> notification" where
  "success_note cfg object_key bucket_name image_data img thumb_key thumbnail_buffer ts =
     Success_note object_key bucket_name (length image_data) (im_format img) thumb_key
       (THUMBNAIL_BUCKET cfg) (thumbnail_size_text (length thumbnail_buffer))
       THUMBNAIL_SIZE THUMBNAIL_QUALITY ts"

text \<open>Lines 49-106: read the record, download, transform, derive the key, upload.\<close>

definition store_thumbnail ::
  "config \<Rightarrow> codec \<Rightarrow> json \<Rightarrow> (world, string \<times> string \<times> byte list \<times> image \<times> string \<times> byte list) pyst" where
  "store_thumbnail cfg c record =
     bindE (liftE (s3_field record ''bucket'' ''name'')) (\<lambda>bucket_name.
     bindE (liftE (s3_field record ''object'' ''key'')) (\<lambda>object_key.
     bindE (get_object bucket_name object_key) (\<lambda>(b, k, image_data).
     bindE (liftE (transform c image_data)) (\<lambda>(img, thumbnail_buffer).
     let thumb_key = thumbnail_key k in
     bindE now (\<lambda>gen_time.
     bindE (put_object (THUMBNAIL_BUCKET cfg) thumb_key thumbnail_buffer ''image/jpeg''
              (thumbnail_metadata k b) (Some gen_time)) (\<lambda>_.
     ret (b, k, image_data, img, thumb_key, thumbnail_buffer)))))))"

text \<open>Lines 49-142: the body of the per-record \<open>try\<close>; lines 108-142 notify.\<close>

definition process_record :: "config \<Rightarrow> codec \<Rightarrow> json \<Rightarrow> (world, unit) pyst" where
  "process_record cfg c record =
     bindE (store_thumbnail cfg c record) (\<lambda>(b, k, image_data, img, thumb_key, thumbnail_buffer).
     bindE now (\<lambda>ts.
     publish (SNS_TOPIC_ARN cfg) (Subj_success (basename k))
       (success_note cfg k b image_data img thumb_key thumbnail_buffer ts)))"

text \<open>Lines 144-179: the per-record \<open>except\<close>; it can itself raise.\<close>

definition record_error :: "config \<Rightarrow> json \<Rightarrow> exc \<Rightarrow> (world, unit) pyst" where
  "record_error cfg record e =
     bindE now (\<lambda>ts.
     bindE (liftE (s3_field_get record ''bucket'' ''name'')) (\<lambda>bucket_text.
     bindE (liftE (s3_field_get record ''object'' ''key'')) (\<lambda>key_text.
     bindE (liftE (s3_field_get record ''object'' ''key'')) (\<lambda>subject_key.
     publish (SNS_TOPIC_ARN cfg) (Subj_error subject_key)
       (Record_error_note (exc_name e) e ts bucket_text key_text)))))"

definition handle_record :: "config \<Rightarrow> codec \<Rightarrow> json \<Rightarrow> (world, unit) pyst" where
  "handle_record cfg c record = catchE (process_record cfg c record) (record_error cfg record)"

text \<open>Line 46: the loop; an exception escaping one iteration ends it.\<close>

fun process_records :: "config \<Rightarrow> codec \<Rightarrow> json list \<Rightarrow> (world, unit) pyst" where
  "process_records cfg c [] = ret ()"
| "process_records cfg c (r # rs) = bindE (handle_record cfg c r) (\<lambda>_. process_records cfg c rs)"

text \<open>Lines 41-192: the outer \<open>try\<close> body.\<close>

definition handler_main :: "config \<Rightarrow> codec \<Rightarrow> json \<Rightarrow> (world, response) pyst" where
  "handler_main cfg c event =
     bindE now (\<lambda>_.
     bindE (liftE (bindS (py_get event ''Records'' (JList [])) py_iter)) (\<lambda>records.
     bindE (process_records cfg c records) (\<lambda>_.
     bindE (liftE (bindS (py_get event ''Records'' (JList [])) py_len)) (\<lambda>n.
     bindE now (\<lambda>ts.
     ret \<lparr>statusCode = 200,
          body = Body_ok ''Thumbnail generation completed successfully'' n ts\<rparr>)))))"

text \<open>Lines 194-238: the outer \<open>except\<close>; the critical publish's failure is swallowed.\<close>

definition critical_error :: "config \<Rightarrow> exc \<Rightarrow> (world, response) pyst" where
  "critical_error cfg e =
     bindE now (\<lambda>ts.
     bindE (catchE (publish (SNS_TOPIC_ARN cfg) Subj_critical
                      (Critical_note e (exc_name e) ts (THUMBNAIL_BUCKET cfg) (SNS_TOPIC_ARN cfg) THUMBNAIL_SIZE))
                   (\<lambda>_. ret ())) (\<lambda>_.
     bindE now (\<lambda>ts'.
     ret \<lparr>statusCode = 500, body = Body_error ''Lambda execution failed'' e ts'\<rparr>)))"

definition lambda_handler :: "config \<Rightarrow> codec \<Rightarrow> json \<Rightarrow> (world, response) pyst" where
  "lambda_handler cfg c event = catchE (handler_main cfg c event) (critical_error cfg)"

subsection \<open>Observations used by the properties\<close>

text \<open>
  A record whose bucket and key the error handler can read with \<open>.get\<close> (every
  record of a well-formed S3 event is one), the key it reads, and the key a notification
  names.
\<close>

definition gettable :: "json \<Rightarrow> bool" where
  "gettable r \<longleftrightarrow> \<not> isl (s3_field_get r ''bucket'' ''name'') \<and> \<not> isl (s3_field_get r ''object'' ''key'')"

definition record_key :: "json \<Rightarrow> json" where
  "record_key r = projr (s3_field_get r ''object'' ''key'')"

definition record_bucket :: "json \<Rightarrow> json" where
  "record_bucket r = projr (s3_field_get r ''bucket'' ''name'')"

fun note_key :: "notification \<Rightarrow> json" where
  "note_key (Success_note k _ _ _ _ _ _ _ _ _) = JStr k"
| "note_key (Record_error_note _ _ _ _ k) = k"
| "note_key _ = JNull"

subsection \<open>One record\<close>

lemma quiet_store_thumbnail: "quiet (store_thumbnail cfg c r)"
  unfolding store_thumbnail_def by blast

lemma store_thumbnail_Inr:
  assumes "store_thumbnail cfg c r w = (Inr (b, k, d, img, tk, buf), w')"
  shows "s3_field r ''bucket'' ''name'' = Inr (JStr b) \<and> s3_field r ''object'' ''key'' = Inr (JStr k) \<and>
         b \<notin> set (w_denied w) \<and> (\<exists>obj. w_objects w (b, k) = Some obj \<and> obj_body obj = d) \<and>
         transform c d = Inr (img, buf) \<and> tk = thumbnail_key k \<and>
         (\<exists>tb. THUMBNAIL_BUCKET cfg = Some tb \<and> tb \<notin> set (w_denied w) \<and>
            w_objects w' = (w_objects w)((tb, tk) \<mapsto> \<lparr>obj_body = buf, obj_content_type = Some ''image/jpeg'',
                 obj_metadata = thumbnail_metadata k b, obj_generation_time = Some (w_clock w)\<rparr>)) \<and>
         w_clock w' = Suc (w_clock w) \<and> w_published w' = w_published w \<and>
         w_sns_reject w' = w_sns_reject w \<and> w_denied w' = w_denied w"
  using assms
  by (auto simp: store_thumbnail_def bindE_def now_def Let_def
      dest!: get_object_Inr put_object_Inr
      split: prod.splits sum.splits)

lemma process_record_Inl:
  assumes "process_record cfg c r w = (Inl e, w')"
  shows "w_published w' = w_published w \<and> w_sns_reject w' = w_sns_reject w"
  using assms quietD [OF quiet_store_thumbnail]
  by (auto simp: process_record_def bindE_def now_def dest!: publish_Inl split: prod.splits sum.splits)

lemma process_record_Inr:
  assumes "process_record cfg c r w = (Inr (), w')"
  shows "\<exists>t b k d img buf w1. store_thumbnail cfg c r w = (Inr (b, k, d, img, thumbnail_key k, buf), w1) \<and>
           SNS_TOPIC_ARN cfg = Some t \<and> w_objects w' = w_objects w1 \<and> w_sns_reject w' = w_sns_reject w \<and>
           w_published w' = w_published w @
             [(t, Subj_success (basename k), success_note cfg k b d img (thumbnail_key k) buf (w_clock w1))]"
proof -
  obtain res w1 where st: "store_thumbnail cfg c r w = (res, w1)" by fastforce
  then obtain b k d img tk buf where res: "res = Inr (b, k, d, img, tk, buf)"
    using assms by (cases res) (auto simp: process_record_def)
  have tk: "tk = thumbnail_key k" using store_thumbnail_Inr [OF st [unfolded res]] by simp
  have q: "w_published w1 = w_published w \<and> w_sns_reject w1 = w_sns_reject w"
    using quietD [OF quiet_store_thumbnail st] by simp
  have "publish (SNS_TOPIC_ARN cfg) (Subj_success (basename k))
          (success_note cfg k b d img tk buf (w_clock w1)) (w1\<lparr>w_clock := Suc (w_clock w1)\<rparr>) = (Inr (), w')"
    using assms st res by (simp add: process_record_def now_def)
  from publish_Inr [OF this] q st res tk show ?thesis by auto
qed

lemma s3_field_get_of_s3_field:
  "s3_field r a b = Inr v \<Longrightarrow> s3_field_get r a b = Inr v"
  by (auto simp: s3_field_def s3_field_get_def bindS_Inr_iff elim!: py_getitem.elims split: option.splits)

lemma record_error_ok:
  assumes "SNS_TOPIC_ARN cfg = Some t" and "w_sns_reject w t (Subj_error (record_key r)) = None"
    and "gettable r"
  shows "record_error cfg r e w =
           (Inr (), w\<lparr>w_clock := Suc (w_clock w), w_published := w_published w @
              [(t, Subj_error (record_key r),
                Record_error_note (exc_name e) e (w_clock w) (record_bucket r) (record_key r))]\<rparr>)"
proof -
  obtain vb vk where vb: "s3_field_get r ''bucket'' ''name'' = Inr vb"
    and vk: "s3_field_get r ''object'' ''key'' = Inr vk"
    using assms(3) unfolding gettable_def not_isl_iff by blast
  have "record_key r = vk" "record_bucket r = vb"
    using vb vk by (simp_all add: record_key_def record_bucket_def)
  then show ?thesis
    using assms(1,2) vb vk by (simp add: record_error_def now_def publish_def)
qed

lemma handle_record_one:
  assumes "SNS_TOPIC_ARN cfg = Some t" and "\<forall>s. w_sns_reject w t s = None" and "gettable r"
  shows "\<exists>w' s n. handle_record cfg c r w = (Inr (), w') \<and> w_published w' = w_published w @ [(t, s, n)] \<and>
           note_key n = record_key r \<and> w_sns_reject w' = w_sns_reject w"
proof -
  obtain res w1 where pr: "process_record cfg c r w = (res, w1)" by fastforce
  show ?thesis
  proof (cases res)
    case (Inl e)
    then have q: "w_published w1 = w_published w \<and> w_sns_reject w1 = w_sns_reject w"
      using process_record_Inl pr by blast
    then have "record_error cfg r e w1 =
           (Inr (), w1\<lparr>w_clock := Suc (w_clock w1), w_published := w_published w1 @
              [(t, Subj_error (record_key r),
                Record_error_note (exc_name e) e (w_clock w1) (record_bucket r) (record_key r))]\<rparr>)"
      using assms by (intro record_error_ok) simp_all
    with pr Inl q show ?thesis by (simp add: handle_record_def)
  next
    case (Inr u)
    then have pr': "process_record cfg c r w = (Inr (), w1)" using pr by simp
    then obtain t' b k d img buf w2 where
      st: "store_thumbnail cfg c r w = (Inr (b, k, d, img, thumbnail_key k, buf), w2)"
      and t': "SNS_TOPIC_ARN cfg = Some t'" and rj: "w_sns_reject w1 = w_sns_reject w"
      and pub: "w_published w1 = w_published w @
             [(t', Subj_success (basename k), success_note cfg k b d img (thumbnail_key k) buf (w_clock w2))]"
      using process_record_Inr by blast
    have "s3_field r ''object'' ''key'' = Inr (JStr k)"
      using store_thumbnail_Inr [OF st] by simp
    then have "record_key r = JStr k"
      by (simp add: record_key_def s3_field_get_of_s3_field)
    with pr' t' assms(1) rj pub show ?thesis
      by (simp add: handle_record_def success_note_def)
  qed
qed

lemma process_records_one_each:
  assumes "SNS_TOPIC_ARN cfg = Some t" and "\<forall>s. w_sns_reject w t s = None" and "\<forall>r \<in> set rs. gettable r"
  shows "\<exists>w' new. process_records cfg c rs w = (Inr (), w') \<and> w_published w' = w_published w @ new \<and>
           map (\<lambda>(_, _, n). note_key n) new = map record_key rs \<and> (\<forall>x \<in> set new. fst x = t) \<and>
           w_sns_reject w' = w_sns_reject w"
  using assms(2,3)
proof (induction rs arbitrary: w)
  case Nil
  then show ?case by simp
next
  case (Cons r rs)
  have "\<forall>s. w_sns_reject w t s = None" "gettable r" using Cons.prems by auto
  then obtain w1 s n where h: "handle_record cfg c r w = (Inr (), w1)"
    and p1: "w_published w1 = w_published w @ [(t, s, n)]" and k: "note_key n = record_key r"
    and rj: "w_sns_reject w1 = w_sns_reject w"
    using handle_record_one [OF assms(1)] by blast
  obtain w' new where "process_records cfg c rs w1 = (Inr (), w')" "w_published w' = w_published w1 @ new"
    "map (\<lambda>(_, _, n). note_key n) new = map record_key rs" "\<forall>x \<in> set new. fst x = t"
    "w_sns_reject w' = w_sns_reject w1"
    using Cons.IH [of w1] Cons.prems rj by auto
  with h p1 k rj show ?case
    by (intro exI [of _ w'] exI [of _ "(t, s, n) # new"]) simp
qed

subsection \<open>Properties of the handler\<close>

text \<open>
  C1: Per-record failure isolation: when SNS accepts the notifications and the event has
  a \<open>Records\<close> list of S3 records, the handler answers 200 with
  \<open>records_processed\<close> equal to the number of records, and publishes exactly one
  notification per record, in the records' order, each naming its record's key, whether
  the record succeeded or failed.
\<close>

theorem handler_isolation:
  assumes "SNS_TOPIC_ARN cfg = Some t" and "\<forall>s. w_sns_reject w t s = None"
    and "py_get event ''Records'' (JList []) = Inr (JList records)" and "\<forall>r \<in> set records. gettable r"
  shows "\<exists>w' ts new. lambda_handler cfg c event w =
           (Inr \<lparr>statusCode = 200, body = Body_ok ''Thumbnail generation completed successfully'' (length records) ts\<rparr>, w')
         \<and> w_published w' = w_published w @ new \<and> map (\<lambda>(_, _, n). note_key n) new = map record_key records
         \<and> (\<forall>x \<in> set new. fst x = t)"
proof -
  let ?w0 = "w\<lparr>w_clock := Suc (w_clock w)\<rparr>"
  obtain w' new where pr: "process_records cfg c records ?w0 = (Inr (), w')"
    and rest: "w_published w' = w_published w @ new" "map (\<lambda>(_, _, n). note_key n) new = map record_key records"
      "\<forall>x \<in> set new. fst x = t"
    using process_records_one_each [OF assms(1), of ?w0 records c] assms(2,4) by auto
  have "handler_main cfg c event w =
          (Inr \<lparr>statusCode = 200, body = Body_ok ''Thumbnail generation completed successfully''
                   (length records) (w_clock w')\<rparr>, w'\<lparr>w_clock := Suc (w_clock w')\<rparr>)"
    using assms(3) pr by (simp add: handler_main_def now_def)
  then show ?thesis
    using rest by (auto simp: lambda_handler_def)
qed

theorem handler_isolation_witness:
  "SNS_TOPIC_ARN \<lparr>THUMBNAIL_BUCKET = Some ''thumbs'', SNS_TOPIC_ARN = Some ''topic''\<rparr> = Some ''topic'' \<and>
   (\<forall>s. w_sns_reject \<lparr>w_objects = Map.empty, w_denied = [], w_sns_reject = (\<lambda>_ _. None),
                        w_published = [], w_clock = 0\<rparr> ''topic'' s = None) \<and>
   py_get (JObj [(''Records'', JList [s3_record ''in'' ''a.png'', s3_record ''in'' ''b.png''])]) ''Records'' (JList [])
     = Inr (JList [s3_record ''in'' ''a.png'', s3_record ''in'' ''b.png'']) \<and>
   gettable (s3_record ''in'' ''a.png'') \<and> gettable (s3_record ''in'' ''b.png'') \<and>
   (\<exists>w' ts new. lambda_handler \<lparr>THUMBNAIL_BUCKET = Some ''thumbs'', SNS_TOPIC_ARN = Some ''topic''\<rparr>
       \<lparr>decode = (\<lambda>_. Inl UnidentifiedImageError), resample = (\<lambda>_ _. []), encode = (\<lambda>_ _ _. [])\<rparr>
       (JObj [(''Records'', JList [s3_record ''in'' ''a.png'', s3_record ''in'' ''b.png''])])
       \<lparr>w_objects = Map.empty, w_denied = [], w_sns_reject = (\<lambda>_ _. None), w_published = [], w_clock = 0\<rparr> =
     (Inr \<lparr>statusCode = 200, body = Body_ok ''Thumbnail generation completed successfully''
            (length [s3_record ''in'' ''a.png'', s3_record ''in'' ''b.png'']) ts\<rparr>, w') \<and>
     w_published w' = [] @ new \<and>
     map (\<lambda>(_, _, n). note_key n) new = map record_key [s3_record ''in'' ''a.png'', s3_record ''in'' ''b.png''] \<and>
     (\<forall>x \<in> set new. fst x = ''topic''))"
proof -
  have g: "\<forall>r \<in> set [s3_record ''in'' ''a.png'', s3_record ''in'' ''b.png'']. gettable r"
    by (simp add: gettable_def)
  show ?thesis
    using handler_isolation [of "\<lparr>THUMBNAIL_BUCKET = Some ''thumbs'', SNS_TOPIC_ARN = Some ''topic''\<rparr>"
        "''topic''" "\<lparr>w_objects = Map.empty, w_denied = [], w_sns_reject = (\<lambda>_ _. None), w_published = [], w_clock = 0\<rparr>"
        "JObj [(''Records'', JList [s3_record ''in'' ''a.png'', s3_record ''in'' ''b.png''])]"
        "[s3_record ''in'' ''a.png'', s3_record ''in'' ''b.png'']"
        "\<lparr>decode = (\<lambda>_. Inl UnidentifiedImageError), resample = (\<lambda>_ _. []), encode = (\<lambda>_ _ _. [])\<rparr>"] g
    by simp
qed

lemma critical_error_result:
  "critical_error cfg e w =
     (Inr \<lparr>statusCode = 500, body = Body_error ''Lambda execution failed'' e (Suc (w_clock w))\<rparr>,
      w\<lparr>w_clock := Suc (Suc (w_clock w)), w_published := w_published w @
        (case SNS_TOPIC_ARN cfg of None \<Rightarrow> []
         | Some t \<Rightarrow> if w_sns_reject w t Subj_critical = None
                     then [(t, Subj_critical, Critical_note e (exc_name e) (w_clock w) (THUMBNAIL_BUCKET cfg)
                                                (SNS_TOPIC_ARN cfg) THUMBNAIL_SIZE)] else [])\<rparr>)"
  by (auto simp: critical_error_def now_def publish_def catchE_def split: option.splits)

lemma handler_main_Inr:
  "handler_main cfg c event w = (Inr resp, w') \<Longrightarrow> statusCode resp = 200"
  by (auto simp: handler_main_def bindE_def now_def split: prod.splits sum.splits)

text \<open>
  C3: The invoker always receives a response: whatever the event, the configuration and
  the collaborators do, the handler returns (never raises) and answers 200 or 500.
\<close>

theorem handler_always_responds:
  "\<exists>resp w'. lambda_handler cfg c event w = (Inr resp, w') \<and>
     (statusCode resp = 200 \<or> statusCode resp = 500)"
proof -
  obtain r w1 where m: "handler_main cfg c event w = (r, w1)" by fastforce
  show ?thesis
  proof (cases r)
    case (Inl e)
    then show ?thesis using m by (simp add: lambda_handler_def critical_error_result)
  next
    case (Inr resp)
    then show ?thesis using m handler_main_Inr by (auto simp: lambda_handler_def)
  qed
qed

lemma handler_no_records:
  assumes "py_get event ''Records'' (JList []) = Inr (JList [])"
  shows "lambda_handler cfg c event w =
           (Inr \<lparr>statusCode = 200, body = Body_ok ''Thumbnail generation completed successfully'' 0
                                             (Suc (w_clock w))\<rparr>,
            w\<lparr>w_clock := Suc (Suc (w_clock w))\<rparr>)"
  using assms by (simp add: lambda_handler_def handler_main_def now_def)

text \<open>An event with no records: status 200, zero records processed, nothing published or stored.\<close>

theorem handler_empty_event:
  "lambda_handler cfg c (JObj [(''Records'', JList [])]) w =
     (Inr \<lparr>statusCode = 200, body = Body_ok ''Thumbnail generation completed successfully'' 0 (Suc (w_clock w))\<rparr>,
      w\<lparr>w_clock := Suc (Suc (w_clock w))\<rparr>)"
  by (rule handler_no_records) simp

text \<open>
  C12: An event without a \<open>Records\<close> field is not rejected: \<open>event.get('Records', [])\<close>
  makes it an empty batch, answered with status 200 and zero records, not 500.
\<close>

theorem handler_missing_records:
  assumes "dict_lookup kvs ''Records'' = None"
  shows "lambda_handler cfg c (JObj kvs) w =
     (Inr \<lparr>statusCode = 200, body = Body_ok ''Thumbnail generation completed successfully'' 0 (Suc (w_clock w))\<rparr>,
      w\<lparr>w_clock := Suc (Suc (w_clock w))\<rparr>)"
  using assms by (intro handler_no_records) simp

theorem handler_missing_records_witness:
  "dict_lookup [(''detail'', JStr ''x'')] ''Records'' = None \<and>
   lambda_handler (\<lparr>THUMBNAIL_BUCKET = Some ''thumbs'', SNS_TOPIC_ARN = Some ''topic''\<rparr>) (\<lparr>decode = (\<lambda>_. Inl UnidentifiedImageError), resample = (\<lambda>_ _. []), encode = (\<lambda>_ _ _. [])\<rparr>) (JObj [(''detail'', JStr ''x'')]) (\<lparr>w_objects = Map.empty, w_denied = [], w_sns_reject = (\<lambda>_ _. None), w_published = [], w_clock = 0\<rparr>) =
     (Inr \<lparr>statusCode = 200, body = Body_ok ''Thumbnail generation completed successfully'' 0 (Suc (w_clock (\<lparr>w_objects = Map.empty, w_denied = [], w_sns_reject = (\<lambda>_ _. None), w_published = [], w_clock = 0\<rparr>)))\<rparr>,
      (\<lparr>w_objects = Map.empty, w_denied = [], w_sns_reject = (\<lambda>_ _. None), w_published = [], w_clock = 0\<rparr>)\<lparr>w_clock := Suc (Suc (w_clock (\<lparr>w_objects = Map.empty, w_denied = [], w_sns_reject = (\<lambda>_ _. None), w_published = [], w_clock = 0\<rparr>)))\<rparr>)"
  using handler_missing_records [of "[(''detail'', JStr ''x'')]" "(\<lparr>THUMBNAIL_BUCKET = Some ''thumbs'', SNS_TOPIC_ARN = Some ''topic''\<rparr>)" "(\<lparr>decode = (\<lambda>_. Inl UnidentifiedImageError), resample = (\<lambda>_ _. []), encode = (\<lambda>_ _ _. [])\<rparr>)" "(\<lparr>w_objects = Map.empty, w_denied = [], w_sns_reject = (\<lambda>_ _. None), w_published = [], w_clock = 0\<rparr>)"] by simp


text \<open>
  C13: A \<open>Records\<close> value that cannot be iterated (such as \<open>null\<close>) is a fatal error:
  the handler answers 500 with the \<open>TypeError\<close>, after attempting the critical notification.
\<close>


theorem handler_records_not_iterable:
  assumes "py_get event ''Records'' (JList []) = Inr v" and "py_iter v = Inl e"
  shows "lambda_handler cfg c event w =
     (Inr \<lparr>statusCode = 500, body = Body_error ''Lambda execution failed'' e (Suc (Suc (w_clock w)))\<rparr>,
      w\<lparr>w_clock := Suc (Suc (Suc (w_clock w))), w_published := w_published w @
        (case SNS_TOPIC_ARN cfg of None \<Rightarrow> []
         | Some t \<Rightarrow> if w_sns_reject w t Subj_critical = None
                     then [(t, Subj_critical, Critical_note e (exc_name e) (Suc (w_clock w)) (THUMBNAIL_BUCKET cfg)
                                                (SNS_TOPIC_ARN cfg) THUMBNAIL_SIZE)] else [])\<rparr>)"
  using assms by (simp add: lambda_handler_def handler_main_def now_def critical_error_result split: option.splits)

theorem handler_records_not_iterable_witness:
  "py_get (JObj [(''Records'', JNull)]) ''Records'' (JList []) = Inr JNull \<and>
   py_iter JNull = Inl (TypeError ''NoneType object is not iterable'') \<and>
   lambda_handler \<lparr>THUMBNAIL_BUCKET = Some ''thumbs'', SNS_TOPIC_ARN = None\<rparr> (\<lparr>decode = (\<lambda>_. Inl UnidentifiedImageError), resample = (\<lambda>_ _. []), encode = (\<lambda>_ _ _. [])\<rparr>) (JObj [(''Records'', JNull)]) (\<lparr>w_objects = Map.empty, w_denied = [], w_sns_reject = (\<lambda>_ _. None), w_published = [], w_clock = 0\<rparr>) =
     (Inr \<lparr>statusCode = 500, body = Body_error ''Lambda execution failed''
             (TypeError ''NoneType object is not iterable'') (Suc (Suc (w_clock (\<lparr>w_objects = Map.empty, w_denied = [], w_sns_reject = (\<lambda>_ _. None), w_published = [], w_clock = 0\<rparr>))))\<rparr>,
      (\<lparr>w_objects = Map.empty, w_denied = [], w_sns_reject = (\<lambda>_ _. None), w_published = [], w_clock = 0\<rparr>)\<lparr>w_clock := Suc (Suc (Suc (w_clock (\<lparr>w_objects = Map.empty, w_denied = [], w_sns_reject = (\<lambda>_ _. None), w_published = [], w_clock = 0\<rparr>)))), w_published := w_published (\<lparr>w_objects = Map.empty, w_denied = [], w_sns_reject = (\<lambda>_ _. None), w_published = [], w_clock = 0\<rparr>) @
        (case SNS_TOPIC_ARN \<lparr>THUMBNAIL_BUCKET = Some ''thumbs'', SNS_TOPIC_ARN = None\<rparr> of None \<Rightarrow> []
         | Some t \<Rightarrow> if w_sns_reject (\<lparr>w_objects = Map.empty, w_denied = [], w_sns_reject = (\<lambda>_ _. None), w_published = [], w_clock = 0\<rparr>) t Subj_critical = None
                     then [(t, Subj_critical, Critical_note (TypeError ''NoneType object is not iterable'')
                                (exc_name (TypeError ''NoneType object is not iterable'')) (Suc (w_clock (\<lparr>w_objects = Map.empty, w_denied = [], w_sns_reject = (\<lambda>_ _. None), w_published = [], w_clock = 0\<rparr>)))
                                (THUMBNAIL_BUCKET \<lparr>THUMBNAIL_BUCKET = Some ''thumbs'', SNS_TOPIC_ARN = None\<rparr>)
                                (SNS_TOPIC_ARN \<lparr>THUMBNAIL_BUCKET = Some ''thumbs'', SNS_TOPIC_ARN = None\<rparr>)
                                THUMBNAIL_SIZE)] else [])\<rparr>)"
  using handler_records_not_iterable [of "JObj [(''Records'', JNull)]" JNull
      "TypeError ''NoneType object is not iterable''" "\<lparr>THUMBNAIL_BUCKET = Some ''thumbs'', SNS_TOPIC_ARN = None\<rparr>" "(\<lparr>decode = (\<lambda>_. Inl UnidentifiedImageError), resample = (\<lambda>_ _. []), encode = (\<lambda>_ _ _. [])\<rparr>)" "(\<lparr>w_objects = Map.empty, w_denied = [], w_sns_reject = (\<lambda>_ _. None), w_published = [], w_clock = 0\<rparr>)"]
  by simp

lemma record_error_rejected:
  assumes "SNS_TOPIC_ARN cfg = Some t" and "w_sns_reject w t (Subj_error (record_key r)) = Some code"
    and "gettable r"
  shows "record_error cfg r e w = (Inl (ClientError code ''Publish''), w\<lparr>w_clock := Suc (w_clock w)\<rparr>)"
proof -
  obtain vb vk where vb: "s3_field_get r ''bucket'' ''name'' = Inr vb"
    and vk: "s3_field_get r ''object'' ''key'' = Inr vk"
    using assms(3) unfolding gettable_def not_isl_iff by blast
  have "record_key r = vk" using vk by (simp add: record_key_def)
  then show ?thesis
    using assms(1,2) vb vk by (simp add: record_error_def now_def publish_def)
qed

text \<open>
  C4: A failure of the error notification is not isolated: when a record fails and SNS then
  refuses its error notification, the exception escapes the loop, the handler answers
  500 with the SNS error, the records after it are never processed (nothing more is
  stored) and the only notification published is the critical alert.
\<close>

theorem error_notification_failure_aborts:
  assumes "py_get event ''Records'' (JList []) = Inr (JList (r # rs))"
    and "process_record cfg c r (w\<lparr>w_clock := Suc (w_clock w)\<rparr>) = (Inl e, w_err)"
    and "SNS_TOPIC_ARN cfg = Some t" and "w_sns_reject w t (Subj_error (record_key r)) = Some code"
    and "gettable r"
  shows "\<exists>ts w' crit. lambda_handler cfg c event w =
           (Inr \<lparr>statusCode = 500, body = Body_error ''Lambda execution failed'' (ClientError code ''Publish'') ts\<rparr>, w')
         \<and> w_objects w' = w_objects w_err \<and> w_published w' = w_published w @ crit
         \<and> (\<forall>x \<in> set crit. fst (snd x) = Subj_critical)"
proof -
  have q: "w_published w_err = w_published w \<and> w_sns_reject w_err = w_sns_reject w"
    using process_record_Inl [OF assms(2)] by simp
  then have "record_error cfg r e w_err = (Inl (ClientError code ''Publish''), w_err\<lparr>w_clock := Suc (w_clock w_err)\<rparr>)"
    using assms(3-5) by (intro record_error_rejected) simp_all
  then have "handler_main cfg c event w = (Inl (ClientError code ''Publish''), w_err\<lparr>w_clock := Suc (w_clock w_err)\<rparr>)"
    using assms(1,2) by (simp add: handler_main_def handle_record_def now_def)
  then show ?thesis
    using q by (simp add: lambda_handler_def critical_error_result split: option.splits)
qed


theorem error_notification_failure_aborts_witness:
  "py_get (JObj [(''Records'', JList [s3_record ''in'' ''a.png'', s3_record ''in'' ''b.png''])]) ''Records'' (JList [])
     = Inr (JList [s3_record ''in'' ''a.png'', s3_record ''in'' ''b.png'']) \<and>
   process_record \<lparr>THUMBNAIL_BUCKET = Some ''thumbs'', SNS_TOPIC_ARN = Some ''topic''\<rparr> (\<lparr>decode = (\<lambda>_. Inl UnidentifiedImageError), resample = (\<lambda>_ _. []), encode = (\<lambda>_ _ _. [])\<rparr>) (s3_record ''in'' ''a.png'')
     (\<lparr>w_objects = Map.empty, w_denied = [], w_sns_reject = (\<lambda>_ s. case s of Subj_error _ \<Rightarrow> Some ''Throttling'' | _ \<Rightarrow> None),
       w_published = [], w_clock = 0\<rparr>\<lparr>w_clock := Suc 0\<rparr>) =
     (Inl (ClientError ''NoSuchKey'' ''GetObject''),
      \<lparr>w_objects = Map.empty, w_denied = [], w_sns_reject = (\<lambda>_ s. case s of Subj_error _ \<Rightarrow> Some ''Throttling'' | _ \<Rightarrow> None),
       w_published = [], w_clock = Suc 0\<rparr>) \<and>
   SNS_TOPIC_ARN \<lparr>THUMBNAIL_BUCKET = Some ''thumbs'', SNS_TOPIC_ARN = Some ''topic''\<rparr> = Some ''topic'' \<and>
   w_sns_reject \<lparr>w_objects = Map.empty, w_denied = [], w_sns_reject = (\<lambda>_ s. case s of Subj_error _ \<Rightarrow> Some ''Throttling'' | _ \<Rightarrow> None),
       w_published = [], w_clock = 0\<rparr> ''topic'' (Subj_error (record_key (s3_record ''in'' ''a.png''))) = Some ''Throttling'' \<and>
   gettable (s3_record ''in'' ''a.png'') \<and>
   (\<exists>ts w' crit. lambda_handler \<lparr>THUMBNAIL_BUCKET = Some ''thumbs'', SNS_TOPIC_ARN = Some ''topic''\<rparr> (\<lparr>decode = (\<lambda>_. Inl UnidentifiedImageError), resample = (\<lambda>_ _. []), encode = (\<lambda>_ _ _. [])\<rparr>)
        (JObj [(''Records'', JList [s3_record ''in'' ''a.png'', s3_record ''in'' ''b.png''])])
        \<lparr>w_objects = Map.empty, w_denied = [], w_sns_reject = (\<lambda>_ s. case s of Subj_error _ \<Rightarrow> Some ''Throttling'' | _ \<Rightarrow> None),
         w_published = [], w_clock = 0\<rparr> =
      (Inr \<lparr>statusCode = 500, body = Body_error ''Lambda execution failed'' (ClientError ''Throttling'' ''Publish'') ts\<rparr>, w')
      \<and> w_objects w' = Map.empty \<and> w_published w' = [] @ crit \<and> (\<forall>x \<in> set crit. fst (snd x) = Subj_critical))"
proof -
  have pr: "process_record \<lparr>THUMBNAIL_BUCKET = Some ''thumbs'', SNS_TOPIC_ARN = Some ''topic''\<rparr> (\<lparr>decode = (\<lambda>_. Inl UnidentifiedImageError), resample = (\<lambda>_ _. []), encode = (\<lambda>_ _ _. [])\<rparr>) (s3_record ''in'' ''a.png'')
     (\<lparr>w_objects = Map.empty, w_denied = [], w_sns_reject = (\<lambda>_ s. case s of Subj_error _ \<Rightarrow> Some ''Throttling'' | _ \<Rightarrow> None),
       w_published = [], w_clock = 0\<rparr>\<lparr>w_clock := Suc 0\<rparr>) =
     (Inl (ClientError ''NoSuchKey'' ''GetObject''),
      \<lparr>w_objects = Map.empty, w_denied = [], w_sns_reject = (\<lambda>_ s. case s of Subj_error _ \<Rightarrow> Some ''Throttling'' | _ \<Rightarrow> None),
       w_published = [], w_clock = Suc 0\<rparr>)"
    by (simp add: process_record_def store_thumbnail_def get_object_def boto_str_def)
  have g: "gettable (s3_record ''in'' ''a.png'')" by (simp add: gettable_def)
  have k: "record_key (s3_record ''in'' ''a.png'') = JStr ''a.png''" by (simp add: record_key_def)
  show ?thesis
    using error_notification_failure_aborts [where event = "JObj [(''Records'', JList [s3_record ''in'' ''a.png'', s3_record ''in'' ''b.png''])]"
        and r = "s3_record ''in'' ''a.png''" and rs = "[s3_record ''in'' ''b.png'']" and t = "''topic''"
        and code = "''Throttling''" and e = "ClientError ''NoSuchKey'' ''GetObject''"
        and cfg = "\<lparr>THUMBNAIL_BUCKET = Some ''thumbs'', SNS_TOPIC_ARN = Some ''topic''\<rparr>" and c = "\<lparr>decode = (\<lambda>_. Inl UnidentifiedImageError), resample = (\<lambda>_ _. []), encode = (\<lambda>_ _ _. [])\<rparr>"
        and w = "\<lparr>w_objects = Map.empty, w_denied = [], w_sns_reject = (\<lambda>_ s. case s of Subj_error _ \<Rightarrow> Some ''Throttling'' | _ \<Rightarrow> None),
       w_published = [], w_clock = 0\<rparr>"
        and w_err = "\<lparr>w_objects = Map.empty, w_denied = [], w_sns_reject = (\<lambda>_ s. case s of Subj_error _ \<Rightarrow> Some ''Throttling'' | _ \<Rightarrow> None),
       w_published = [], w_clock = Suc 0\<rparr>"] pr g k
    by simp
qed

text \<open>
  C10: A record whose object does not exist is reported, not fatal: it ends in one
  \<open>RecordFailure\<close> notification naming the error type \<open>NoSuchKey\<close>, its bucket and its key,
  and nothing is stored.
\<close>

theorem record_missing_object:
  assumes "s3_field r ''bucket'' ''name'' = Inr (JStr b)" and "s3_field r ''object'' ''key'' = Inr (JStr k)"
    and "b \<noteq> []" and "k \<noteq> []" and "b \<notin> set (w_denied w)" and "w_objects w (b, k) = None"
    and "SNS_TOPIC_ARN cfg = Some t" and "w_sns_reject w t (Subj_error (JStr k)) = None"
  shows "handle_record cfg c r w =
           (Inr (), w\<lparr>w_clock := Suc (w_clock w), w_published := w_published w @
              [(t, Subj_error (JStr k), Record_error_note ''NoSuchKey'' (ClientError ''NoSuchKey'' ''GetObject'')
                                          (w_clock w) (JStr b) (JStr k))]\<rparr>)"
proof -
  have pr: "process_record cfg c r w = (Inl (ClientError ''NoSuchKey'' ''GetObject''), w)"
    using assms(1-6) by (simp add: process_record_def store_thumbnail_def get_object_missing)
  have gb: "s3_field_get r ''bucket'' ''name'' = Inr (JStr b)" and gk: "s3_field_get r ''object'' ''key'' = Inr (JStr k)"
    using assms(1,2) by (simp_all add: s3_field_get_of_s3_field)
  then have "gettable r" "record_key r = JStr k" "record_bucket r = JStr b"
    by (simp_all add: gettable_def record_key_def record_bucket_def)
  then show ?thesis
    using record_error_ok [OF assms(7), of w r "ClientError ''NoSuchKey'' ''GetObject''"] assms(8) pr
    by (simp add: handle_record_def)
qed

theorem record_missing_object_witness:
  "s3_field (s3_record ''in'' ''a.png'') ''bucket'' ''name'' = Inr (JStr ''in'') \<and>
   s3_field (s3_record ''in'' ''a.png'') ''object'' ''key'' = Inr (JStr ''a.png'') \<and>
   ''in'' \<noteq> [] \<and> ''a.png'' \<noteq> [] \<and> ''in'' \<notin> set (w_denied \<lparr>w_objects = Map.empty, w_denied = [], w_sns_reject = (\<lambda>_ _. None), w_published = [], w_clock = 7\<rparr>) \<and>
   w_objects \<lparr>w_objects = Map.empty, w_denied = [], w_sns_reject = (\<lambda>_ _. None), w_published = [], w_clock = 7\<rparr> (''in'', ''a.png'') = None \<and>
   SNS_TOPIC_ARN \<lparr>THUMBNAIL_BUCKET = Some ''thumbs'', SNS_TOPIC_ARN = Some ''topic''\<rparr> = Some ''topic'' \<and>
   w_sns_reject \<lparr>w_objects = Map.empty, w_denied = [], w_sns_reject = (\<lambda>_ _. None), w_published = [], w_clock = 7\<rparr> ''topic'' (Subj_error (JStr ''a.png'')) = None \<and>
   handle_record \<lparr>THUMBNAIL_BUCKET = Some ''thumbs'', SNS_TOPIC_ARN = Some ''topic''\<rparr> (\<lparr>decode = (\<lambda>_. Inl UnidentifiedImageError), resample = (\<lambda>_ _. []), encode = (\<lambda>_ _ _. [])\<rparr>) (s3_record ''in'' ''a.png'')
     \<lparr>w_objects = Map.empty, w_denied = [], w_sns_reject = (\<lambda>_ _. None), w_published = [], w_clock = 7\<rparr> =
     (Inr (), \<lparr>w_objects = Map.empty, w_denied = [], w_sns_reject = (\<lambda>_ _. None),
               w_published = [(''topic'', Subj_error (JStr ''a.png''), Record_error_note ''NoSuchKey''
                  (ClientError ''NoSuchKey'' ''GetObject'') 7 (JStr ''in'') (JStr ''a.png''))], w_clock = 8\<rparr>)"
  using record_missing_object [of "s3_record ''in'' ''a.png''" "''in''" "''a.png''"
      "\<lparr>w_objects = Map.empty, w_denied = [], w_sns_reject = (\<lambda>_ _. None), w_published = [], w_clock = 7\<rparr>"
      "\<lparr>THUMBNAIL_BUCKET = Some ''thumbs'', SNS_TOPIC_ARN = Some ''topic''\<rparr>" "''topic''" "(\<lparr>decode = (\<lambda>_. Inl UnidentifiedImageError), resample = (\<lambda>_ _. []), encode = (\<lambda>_ _ _. [])\<rparr>)"]
  by simp

lemma ascii_thumbnail_metadata:
  "ascii_str k \<Longrightarrow> ascii_str b \<Longrightarrow> list_all (\<lambda>(k, v). ascii_str k \<and> ascii_str v) (thumbnail_metadata k b)"
  by (simp add: thumbnail_metadata_def ascii_str_def)

lemma store_thumbnail_ok:
  assumes "s3_field r ''bucket'' ''name'' = Inr (JStr b)" and "s3_field r ''object'' ''key'' = Inr (JStr k)"
    and "b \<noteq> []" and "k \<noteq> []" and "b \<notin> set (w_denied w)" and "w_objects w (b, k) = Some obj"
    and "transform c (obj_body obj) = Inr (img, buf)"
    and "THUMBNAIL_BUCKET cfg = Some tb" and "tb \<noteq> []" and "tb \<notin> set (w_denied w)"
    and "ascii_str k" and "ascii_str b" and "length (thumbnail_key k) \<le> 1024"
  shows "store_thumbnail cfg c r w =
           (Inr (b, k, obj_body obj, img, thumbnail_key k, buf),
            w\<lparr>w_objects := (w_objects w)((tb, thumbnail_key k) \<mapsto>
                 \<lparr>obj_body = buf, obj_content_type = Some ''image/jpeg'', obj_metadata = thumbnail_metadata k b,
                  obj_generation_time = Some (w_clock w)\<rparr>), w_clock := Suc (w_clock w)\<rparr>)"
proof -
  have "thumbnail_key k \<noteq> []" by (simp add: thumbnail_key_def)
  moreover have "list_all (\<lambda>(k, v). ascii_str k \<and> ascii_str v) (thumbnail_metadata k b)"
    using assms(11,12) by (rule ascii_thumbnail_metadata)
  ultimately show ?thesis
    using assms by (simp add: store_thumbnail_def get_object_found put_object_ok now_def Let_def)
qed

text \<open>
  C5: A record whose object exists and transforms is stored and announced: the JPEG goes to
  the thumbnail bucket under the derived key with content type \<open>image/jpeg\<close> and the
  source's metadata, and one success notification is published, which reports the
  configured box (200, 200) and quality 80 whatever the thumbnail's real size.
\<close>

theorem record_success:
  assumes "s3_field r ''bucket'' ''name'' = Inr (JStr b)" and "s3_field r ''object'' ''key'' = Inr (JStr k)"
    and "b \<noteq> []" and "k \<noteq> []" and "b \<notin> set (w_denied w)" and "w_objects w (b, k) = Some obj"
    and "transform c (obj_body obj) = Inr (img, buf)"
    and "THUMBNAIL_BUCKET cfg = Some tb" and "tb \<noteq> []" and "tb \<notin> set (w_denied w)"
    and "SNS_TOPIC_ARN cfg = Some t" and "w_sns_reject w t (Subj_success (basename k)) = None"
    and "ascii_str k" and "ascii_str b" and "length (thumbnail_key k) \<le> 1024"
  shows "handle_record cfg c r w =
           (Inr (), w\<lparr>w_objects := (w_objects w)((tb, thumbnail_key k) \<mapsto>
                 \<lparr>obj_body = buf, obj_content_type = Some ''image/jpeg'', obj_metadata = thumbnail_metadata k b,
                  obj_generation_time = Some (w_clock w)\<rparr>),
              w_clock := Suc (Suc (w_clock w)),
              w_published := w_published w @
                [(t, Subj_success (basename k),
                  Success_note k b (length (obj_body obj)) (im_format img) (thumbnail_key k) (Some tb)
                    (thumbnail_size_text (length buf)) (200, 200) 80 (Suc (w_clock w)))]\<rparr>)"
  using store_thumbnail_ok [OF assms(1-10) assms(13-15)] assms(8,11,12)
  by (simp add: handle_record_def process_record_def now_def publish_ok success_note_def
      THUMBNAIL_SIZE_def THUMBNAIL_QUALITY_def)

text \<open>
  C11: When SNS refuses the success notification after the upload, the record is reported
  as failed although its thumbnail is stored: the stored object stays and the record's
  only notification is a \<open>RecordFailure\<close> carrying the SNS error.
\<close>

theorem success_publish_failure_reports_error:
  assumes "s3_field r ''bucket'' ''name'' = Inr (JStr b)" and "s3_field r ''object'' ''key'' = Inr (JStr k)"
    and "b \<noteq> []" and "k \<noteq> []" and "b \<notin> set (w_denied w)" and "w_objects w (b, k) = Some obj"
    and "transform c (obj_body obj) = Inr (img, buf)"
    and "THUMBNAIL_BUCKET cfg = Some tb" and "tb \<noteq> []" and "tb \<notin> set (w_denied w)"
    and "SNS_TOPIC_ARN cfg = Some t" and "w_sns_reject w t (Subj_success (basename k)) = Some code"
    and "w_sns_reject w t (Subj_error (JStr k)) = None"
    and "ascii_str k" and "ascii_str b" and "length (thumbnail_key k) \<le> 1024"
  shows "handle_record cfg c r w =
           (Inr (), w\<lparr>w_objects := (w_objects w)((tb, thumbnail_key k) \<mapsto>
                 \<lparr>obj_body = buf, obj_content_type = Some ''image/jpeg'', obj_metadata = thumbnail_metadata k b,
                  obj_generation_time = Some (w_clock w)\<rparr>),
              w_clock := Suc (Suc (Suc (w_clock w))),
              w_published := w_published w @
                [(t, Subj_error (JStr k), Record_error_note (exc_name (ClientError code ''Publish'')) (ClientError code ''Publish'')
                                            (Suc (Suc (w_clock w))) (JStr b) (JStr k))]\<rparr>)"
proof -
  have "s3_field_get r ''bucket'' ''name'' = Inr (JStr b)" "s3_field_get r ''object'' ''key'' = Inr (JStr k)"
    using assms(1,2) by (simp_all add: s3_field_get_of_s3_field)
  then show ?thesis
    using store_thumbnail_ok [OF assms(1-10) assms(14-16)] assms(11-13)
    by (simp add: handle_record_def process_record_def now_def publish_rejected record_error_def publish_ok)
qed


theorem record_success_witness:
  "ascii_str ''a.png'' \<and> ascii_str ''in'' \<and> length (thumbnail_key ''a.png'') \<le> 1024 \<and>
   s3_field (s3_record ''in'' ''a.png'') ''bucket'' ''name'' = Inr (JStr ''in'') \<and>
   s3_field (s3_record ''in'' ''a.png'') ''object'' ''key'' = Inr (JStr ''a.png'') \<and>
   ''in'' \<noteq> [] \<and>
   ''a.png'' \<noteq> [] \<and>
   ''in'' \<notin> set (w_denied \<lparr>w_objects = [(''in'', ''a.png'') \<mapsto> \<lparr>obj_body = [0], obj_content_type = Some ''image/png'', obj_metadata = [], obj_generation_time = None\<rparr>], w_denied = [], w_sns_reject = (\<lambda>_ _. None), w_published = [], w_clock = 5\<rparr>) \<and>
   w_objects \<lparr>w_objects = [(''in'', ''a.png'') \<mapsto> \<lparr>obj_body = [0], obj_content_type = Some ''image/png'', obj_metadata = [], obj_generation_time = None\<rparr>], w_denied = [], w_sns_reject = (\<lambda>_ _. None), w_published = [], w_clock = 5\<rparr> (''in'', ''a.png'') = Some \<lparr>obj_body = [0], obj_content_type = Some ''image/png'', obj_metadata = [], obj_generation_time = None\<rparr> \<and>
   transform \<lparr>decode = (\<lambda>_. Inr \<lparr>im_mode = ''RGB'', im_size = (400, 300), im_pixels = [], im_palette = (\<lambda>_. []), im_format = Some ''PNG''\<rparr>), resample = (\<lambda>_ _. []), encode = (\<lambda>_ _ _. [1, 2, 3])\<rparr> (obj_body \<lparr>obj_body = [0], obj_content_type = Some ''image/png'', obj_metadata = [], obj_generation_time = None\<rparr>) = Inr (\<lparr>im_mode = ''RGB'', im_size = (200, 150), im_pixels = [], im_palette = (\<lambda>_. []), im_format = Some ''PNG''\<rparr>, [1, 2, 3]) \<and>
   THUMBNAIL_BUCKET \<lparr>THUMBNAIL_BUCKET = Some ''thumbs'', SNS_TOPIC_ARN = Some ''topic''\<rparr> = Some ''thumbs'' \<and>
   ''thumbs'' \<noteq> [] \<and>
   ''thumbs'' \<notin> set (w_denied \<lparr>w_objects = [(''in'', ''a.png'') \<mapsto> \<lparr>obj_body = [0], obj_content_type = Some ''image/png'', obj_metadata = [], obj_generation_time = None\<rparr>], w_denied = [], w_sns_reject = (\<lambda>_ _. None), w_published = [], w_clock = 5\<rparr>) \<and>
   SNS_TOPIC_ARN \<lparr>THUMBNAIL_BUCKET = Some ''thumbs'', SNS_TOPIC_ARN = Some ''topic''\<rparr> = Some ''topic'' \<and>
   w_sns_reject \<lparr>w_objects = [(''in'', ''a.png'') \<mapsto> \<lparr>obj_body = [0], obj_content_type = Some ''image/png'', obj_metadata = [], obj_generation_time = None\<rparr>], w_denied = [], w_sns_reject = (\<lambda>_ _. None), w_published = [], w_clock = 5\<rparr> ''topic'' (Subj_success (basename ''a.png'')) = None \<and>
   handle_record \<lparr>THUMBNAIL_BUCKET = Some ''thumbs'', SNS_TOPIC_ARN = Some ''topic''\<rparr> \<lparr>decode = (\<lambda>_. Inr \<lparr>im_mode = ''RGB'', im_size = (400, 300), im_pixels = [], im_palette = (\<lambda>_. []), im_format = Some ''PNG''\<rparr>), resample = (\<lambda>_ _. []), encode = (\<lambda>_ _ _. [1, 2, 3])\<rparr> (s3_record ''in'' ''a.png'') \<lparr>w_objects = [(''in'', ''a.png'') \<mapsto> \<lparr>obj_body = [0], obj_content_type = Some ''image/png'', obj_metadata = [], obj_generation_time = None\<rparr>], w_denied = [], w_sns_reject = (\<lambda>_ _. None), w_published = [], w_clock = 5\<rparr> = (Inr (), \<lparr>w_objects = [(''in'', ''a.png'') \<mapsto> \<lparr>obj_body = [0], obj_content_type = Some ''image/png'', obj_metadata = [], obj_generation_time = None\<rparr>], w_denied = [], w_sns_reject = (\<lambda>_ _. None), w_published = [], w_clock = 5\<rparr>\<lparr>w_objects := (w_objects \<lparr>w_objects = [(''in'', ''a.png'') \<mapsto> \<lparr>obj_body = [0], obj_content_type = Some ''image/png'', obj_metadata = [], obj_generation_time = None\<rparr>], w_denied = [], w_sns_reject = (\<lambda>_ _. None), w_published = [], w_clock = 5\<rparr>)((''thumbs'', thumbnail_key ''a.png'') \<mapsto> \<lparr>obj_body = [1, 2, 3], obj_content_type = Some ''image/jpeg'', obj_metadata = thumbnail_metadata ''a.png'' ''in'', obj_generation_time = Some (w_clock \<lparr>w_objects = [(''in'', ''a.png'') \<mapsto> \<lparr>obj_body = [0], obj_content_type = Some ''image/png'', obj_metadata = [], obj_generation_time = None\<rparr>], w_denied = [], w_sns_reject = (\<lambda>_ _. None), w_published = [], w_clock = 5\<rparr>)\<rparr>), w_clock := Suc (Suc (w_clock \<lparr>w_objects = [(''in'', ''a.png'') \<mapsto> \<lparr>obj_body = [0], obj_content_type = Some ''image/png'', obj_metadata = [], obj_generation_time = None\<rparr>], w_denied = [], w_sns_reject = (\<lambda>_ _. None), w_published = [], w_clock = 5\<rparr>)), w_published := w_published \<lparr>w_objects = [(''in'', ''a.png'') \<mapsto> \<lparr>obj_body = [0], obj_content_type = Some ''image/png'', obj_metadata = [], obj_generation_time = None\<rparr>], w_denied = [], w_sns_reject = (\<lambda>_ _. None), w_published = [], w_clock = 5\<rparr> @ [(''topic'', Subj_success (basename ''a.png''), Success_note ''a.png'' ''in'' (length (obj_body \<lparr>obj_body = [0], obj_content_type = Some ''image/png'', obj_metadata = [], obj_generation_time = None\<rparr>)) (im_format \<lparr>im_mode = ''RGB'', im_size = (200, 150), im_pixels = [], im_palette = (\<lambda>_. []), im_format = Some ''PNG''\<rparr>) (thumbnail_key ''a.png'') (Some ''thumbs'') (thumbnail_size_text (length [1::byte, 2, 3])) (200, 200) 80 (Suc (w_clock \<lparr>w_objects = [(''in'', ''a.png'') \<mapsto> \<lparr>obj_body = [0], obj_content_type = Some ''image/png'', obj_metadata = [], obj_generation_time = None\<rparr>], w_denied = [], w_sns_reject = (\<lambda>_ _. None), w_published = [], w_clock = 5\<rparr>)))]\<rparr>)"
proof -
  have tr: "transform \<lparr>decode = (\<lambda>_. Inr \<lparr>im_mode = ''RGB'', im_size = (400, 300), im_pixels = [], im_palette = (\<lambda>_. []), im_format = Some ''PNG''\<rparr>), resample = (\<lambda>_ _. []), encode = (\<lambda>_ _ _. [1, 2, 3])\<rparr> [0] = Inr (\<lparr>im_mode = ''RGB'', im_size = (200, 150), im_pixels = [], im_palette = (\<lambda>_. []), im_format = Some ''PNG''\<rparr>, [1, 2, 3])"
    by (simp add: transform_def image_open_def convert_for_jpeg_def thumbnail_def THUMBNAIL_SIZE_def
        preserve_400_300 jpeg_save_def JPEG_RAWMODES_def)
  have a: "ascii_str ''a.png''" "ascii_str ''in''" by (simp_all add: ascii_str_def)
  have l: "length (thumbnail_key ''a.png'') \<le> 1024"
    by (simp add: thumbnail_key_def splitext_def basename_def rfind_def skip_dots.simps)
  show ?thesis
    using record_success [of "s3_record ''in'' ''a.png''" "''in''" "''a.png''" "\<lparr>w_objects = [(''in'', ''a.png'') \<mapsto> \<lparr>obj_body = [0], obj_content_type = Some ''image/png'', obj_metadata = [], obj_generation_time = None\<rparr>], w_denied = [], w_sns_reject = (\<lambda>_ _. None), w_published = [], w_clock = 5\<rparr>" "\<lparr>obj_body = [0], obj_content_type = Some ''image/png'', obj_metadata = [], obj_generation_time = None\<rparr>" "\<lparr>decode = (\<lambda>_. Inr \<lparr>im_mode = ''RGB'', im_size = (400, 300), im_pixels = [], im_palette = (\<lambda>_. []), im_format = Some ''PNG''\<rparr>), resample = (\<lambda>_ _. []), encode = (\<lambda>_ _ _. [1, 2, 3])\<rparr>" "\<lparr>im_mode = ''RGB'', im_size = (200, 150), im_pixels = [], im_palette = (\<lambda>_. []), im_format = Some ''PNG''\<rparr>" "[1, 2, 3]" "\<lparr>THUMBNAIL_BUCKET = Some ''thumbs'', SNS_TOPIC_ARN = Some ''topic''\<rparr>" "''thumbs''" "''topic''"] tr
    by (simp add: a l)
qed

theorem success_publish_failure_reports_error_witness:
  "ascii_str ''a.png'' \<and> ascii_str ''in'' \<and> length (thumbnail_key ''a.png'') \<le> 1024 \<and>
   s3_field (s3_record ''in'' ''a.png'') ''bucket'' ''name'' = Inr (JStr ''in'') \<and>
   s3_field (s3_record ''in'' ''a.png'') ''object'' ''key'' = Inr (JStr ''a.png'') \<and>
   ''in'' \<noteq> [] \<and>
   ''a.png'' \<noteq> [] \<and>
   ''in'' \<notin> set (w_denied \<lparr>w_objects = [(''in'', ''a.png'') \<mapsto> \<lparr>obj_body = [0], obj_content_type = Some ''image/png'', obj_metadata = [], obj_generation_time = None\<rparr>], w_denied = [], w_sns_reject = (\<lambda>_ s. case s of Subj_success _ \<Rightarrow> Some ''Throttling'' | _ \<Rightarrow> None), w_published = [], w_clock = 5\<rparr>) \<and>
   w_objects \<lparr>w_objects = [(''in'', ''a.png'') \<mapsto> \<lparr>obj_body = [0], obj_content_type = Some ''image/png'', obj_metadata = [], obj_generation_time = None\<rparr>], w_denied = [], w_sns_reject = (\<lambda>_ s. case s of Subj_success _ \<Rightarrow> Some ''Throttling'' | _ \<Rightarrow> None), w_published = [], w_clock = 5\<rparr> (''in'', ''a.png'') = Some \<lparr>obj_body = [0], obj_content_type = Some ''image/png'', obj_metadata = [], obj_generation_time = None\<rparr> \<and>
   transform \<lparr>decode = (\<lambda>_. Inr \<lparr>im_mode = ''RGB'', im_size = (400, 300), im_pixels = [], im_palette = (\<lambda>_. []), im_format = Some ''PNG''\<rparr>), resample = (\<lambda>_ _. []), encode = (\<lambda>_ _ _. [1, 2, 3])\<rparr> (obj_body \<lparr>obj_body = [0], obj_content_type = Some ''image/png'', obj_metadata = [], obj_generation_time = None\<rparr>) = Inr (\<lparr>im_mode = ''RGB'', im_size = (200, 150), im_pixels = [], im_palette = (\<lambda>_. []), im_format = Some ''PNG''\<rparr>, [1, 2, 3]) \<and>
   THUMBNAIL_BUCKET \<lparr>THUMBNAIL_BUCKET = Some ''thumbs'', SNS_TOPIC_ARN = Some ''topic''\<rparr> = Some ''thumbs'' \<and>
   ''thumbs'' \<noteq> [] \<and>
   ''thumbs'' \<notin> set (w_denied \<lparr>w_objects = [(''in'', ''a.png'') \<mapsto> \<lparr>obj_body = [0], obj_content_type = Some ''image/png'', obj_metadata = [], obj_generation_time = None\<rparr>], w_denied = [], w_sns_reject = (\<lambda>_ s. case s of Subj_success _ \<Rightarrow> Some ''Throttling'' | _ \<Rightarrow> None), w_published = [], w_clock = 5\<rparr>) \<and>
   SNS_TOPIC_ARN \<lparr>THUMBNAIL_BUCKET = Some ''thumbs'', SNS_TOPIC_ARN = Some ''topic''\<rparr> = Some ''topic'' \<and>
   w_sns_reject \<lparr>w_objects = [(''in'', ''a.png'') \<mapsto> \<lparr>obj_body = [0], obj_content_type = Some ''image/png'', obj_metadata = [], obj_generation_time = None\<rparr>], w_denied = [], w_sns_reject = (\<lambda>_ s. case s of Subj_success _ \<Rightarrow> Some ''Throttling'' | _ \<Rightarrow> None), w_published = [], w_clock = 5\<rparr> ''topic'' (Subj_success (basename ''a.png'')) = Some ''Throttling'' \<and>
   w_sns_reject \<lparr>w_objects = [(''in'', ''a.png'') \<mapsto> \<lparr>obj_body = [0], obj_content_type = Some ''image/png'', obj_metadata = [], obj_generation_time = None\<rparr>], w_denied = [], w_sns_reject = (\<lambda>_ s. case s of Subj_success _ \<Rightarrow> Some ''Throttling'' | _ \<Rightarrow> None), w_published = [], w_clock = 5\<rparr> ''topic'' (Subj_error (JStr ''a.png'')) = None \<and>
   handle_record \<lparr>THUMBNAIL_BUCKET = Some ''thumbs'', SNS_TOPIC_ARN = Some ''topic''\<rparr> \<lparr>decode = (\<lambda>_. Inr \<lparr>im_mode = ''RGB'', im_size = (400, 300), im_pixels = [], im_palette = (\<lambda>_. []), im_format = Some ''PNG''\<rparr>), resample = (\<lambda>_ _. []), encode = (\<lambda>_ _ _. [1, 2, 3])\<rparr> (s3_record ''in'' ''a.png'') \<lparr>w_objects = [(''in'', ''a.png'') \<mapsto> \<lparr>obj_body = [0], obj_content_type = Some ''image/png'', obj_metadata = [], obj_generation_time = None\<rparr>], w_denied = [], w_sns_reject = (\<lambda>_ s. case s of Subj_success _ \<Rightarrow> Some ''Throttling'' | _ \<Rightarrow> None), w_published = [], w_clock = 5\<rparr> = (Inr (), \<lparr>w_objects = [(''in'', ''a.png'') \<mapsto> \<lparr>obj_body = [0], obj_content_type = Some ''image/png'', obj_metadata = [], obj_generation_time = None\<rparr>], w_denied = [], w_sns_reject = (\<lambda>_ s. case s of Subj_success _ \<Rightarrow> Some ''Throttling'' | _ \<Rightarrow> None), w_published = [], w_clock = 5\<rparr>\<lparr>w_objects := (w_objects \<lparr>w_objects = [(''in'', ''a.png'') \<mapsto> \<lparr>obj_body = [0], obj_content_type = Some ''image/png'', obj_metadata = [], obj_generation_time = None\<rparr>], w_denied = [], w_sns_reject = (\<lambda>_ s. case s of Subj_success _ \<Rightarrow> Some ''Throttling'' | _ \<Rightarrow> None), w_published = [], w_clock = 5\<rparr>)((''thumbs'', thumbnail_key ''a.png'') \<mapsto> \<lparr>obj_body = [1, 2, 3], obj_content_type = Some ''image/jpeg'', obj_metadata = thumbnail_metadata ''a.png'' ''in'', obj_generation_time = Some (w_clock \<lparr>w_objects = [(''in'', ''a.png'') \<mapsto> \<lparr>obj_body = [0], obj_content_type = Some ''image/png'', obj_metadata = [], obj_generation_time = None\<rparr>], w_denied = [], w_sns_reject = (\<lambda>_ s. case s of Subj_success _ \<Rightarrow> Some ''Throttling'' | _ \<Rightarrow> None), w_published = [], w_clock = 5\<rparr>)\<rparr>), w_clock := Suc (Suc (Suc (w_clock \<lparr>w_objects = [(''in'', ''a.png'') \<mapsto> \<lparr>obj_body = [0], obj_content_type = Some ''image/png'', obj_metadata = [], obj_generation_time = None\<rparr>], w_denied = [], w_sns_reject = (\<lambda>_ s. case s of Subj_success _ \<Rightarrow> Some ''Throttling'' | _ \<Rightarrow> None), w_published = [], w_clock = 5\<rparr>))), w_published := w_published \<lparr>w_objects = [(''in'', ''a.png'') \<mapsto> \<lparr>obj_body = [0], obj_content_type = Some ''image/png'', obj_metadata = [], obj_generation_time = None\<rparr>], w_denied = [], w_sns_reject = (\<lambda>_ s. case s of Subj_success _ \<Rightarrow> Some ''Throttling'' | _ \<Rightarrow> None), w_published = [], w_clock = 5\<rparr> @ [(''topic'', Subj_error (JStr ''a.png''), Record_error_note (exc_name (ClientError ''Throttling'' ''Publish'')) (ClientError ''Throttling'' ''Publish'') (Suc (Suc (w_clock \<lparr>w_objects = [(''in'', ''a.png'') \<mapsto> \<lparr>obj_body = [0], obj_content_type = Some ''image/png'', obj_metadata = [], obj_generation_time = None\<rparr>], w_denied = [], w_sns_reject = (\<lambda>_ s. case s of Subj_success _ \<Rightarrow> Some ''Throttling'' | _ \<Rightarrow> None), w_published = [], w_clock = 5\<rparr>))) (JStr ''in'') (JStr ''a.png''))]\<rparr>)"
proof -
  have tr: "transform \<lparr>decode = (\<lambda>_. Inr \<lparr>im_mode = ''RGB'', im_size = (400, 300), im_pixels = [], im_palette = (\<lambda>_. []), im_format = Some ''PNG''\<rparr>), resample = (\<lambda>_ _. []), encode = (\<lambda>_ _ _. [1, 2, 3])\<rparr> [0] = Inr (\<lparr>im_mode = ''RGB'', im_size = (200, 150), im_pixels = [], im_palette = (\<lambda>_. []), im_format = Some ''PNG''\<rparr>, [1, 2, 3])"
    by (simp add: transform_def image_open_def convert_for_jpeg_def thumbnail_def THUMBNAIL_SIZE_def
        preserve_400_300 jpeg_save_def JPEG_RAWMODES_def)
  have a: "ascii_str ''a.png''" "ascii_str ''in''" by (simp_all add: ascii_str_def)
  have l: "length (thumbnail_key ''a.png'') \<le> 1024"
    by (simp add: thumbnail_key_def splitext_def basename_def rfind_def skip_dots.simps)
  show ?thesis
    using success_publish_failure_reports_error [of "s3_record ''in'' ''a.png''" "''in''" "''a.png''" "\<lparr>w_objects = [(''in'', ''a.png'') \<mapsto> \<lparr>obj_body = [0], obj_content_type = Some ''image/png'', obj_metadata = [], obj_generation_time = None\<rparr>], w_denied = [], w_sns_reject = (\<lambda>_ s. case s of Subj_success _ \<Rightarrow> Some ''Throttling'' | _ \<Rightarrow> None), w_published = [], w_clock = 5\<rparr>" "\<lparr>obj_body = [0], obj_content_type = Some ''image/png'', obj_metadata = [], obj_generation_time = None\<rparr>" "\<lparr>decode = (\<lambda>_. Inr \<lparr>im_mode = ''RGB'', im_size = (400, 300), im_pixels = [], im_palette = (\<lambda>_. []), im_format = Some ''PNG''\<rparr>), resample = (\<lambda>_ _. []), encode = (\<lambda>_ _ _. [1, 2, 3])\<rparr>" "\<lparr>im_mode = ''RGB'', im_size = (200, 150), im_pixels = [], im_palette = (\<lambda>_. []), im_format = Some ''PNG''\<rparr>" "[1, 2, 3]" "\<lparr>THUMBNAIL_BUCKET = Some ''thumbs'', SNS_TOPIC_ARN = Some ''topic''\<rparr>" "''thumbs''" "''topic''" "''Throttling''"] tr
    by (simp add: a l)
qed

end
