(* ===== verification/HandlerSafety.thy ===== *)
theory HandlerSafety
  imports Handler
begin

text \<open>
  What invocations of \<open>lambda_handler\<close> can change in S3. One invocation writes only
  objects of the thumbnail bucket under a derived key, each a JPEG whose metadata names
  its original: the frame predicate \<open>stores_only\<close> (Services) is established for every
  step and composed through \<open>bindE\<close>, \<open>catchE\<close> and the record loop. Over any
  sequence of invocations interleaved with users uploading and deleting objects
  (\<open>reach\<close>), the thumbnail area keeps that shape (\<open>thumbs_valid\<close>).
\<close>

text \<open>The writes \<open>store_thumbnail\<close> makes (lines 93-104).\<close>

definition thumbnail_write :: "config \<Rightarrow> string \<times> string \<Rightarrow> s3_object option \<Rightarrow> bool" where
  "thumbnail_write cfg x v \<longleftrightarrow>
     (\<exists>tb k0 b0 buf gt. THUMBNAIL_BUCKET cfg = Some tb \<and> x = (tb, thumbnail_key k0) \<and>
        v = Some \<lparr>obj_body = buf, obj_content_type = Some ''image/jpeg'',
                  obj_metadata = thumbnail_metadata k0 b0, obj_generation_time = Some gt\<rparr>)"

text \<open>
  Every object of the thumbnail bucket under \<open>thumbnails/\<close> is a JPEG stored under
  the key derived from the original its metadata names.
\<close>

definition thumbs_valid :: "config \<Rightarrow> world \<Rightarrow> bool" where
  "thumbs_valid cfg w \<longleftrightarrow>
     (\<forall>tb k v. THUMBNAIL_BUCKET cfg = Some tb \<longrightarrow> take 11 k = ''thumbnails/'' \<longrightarrow> w_objects w (tb, k) = Some v \<longrightarrow>
        (\<exists>k0 b0. k = thumbnail_key k0 \<and> obj_content_type v = Some ''image/jpeg'' \<and>
                 obj_metadata v = thumbnail_metadata k0 b0))"

text \<open>
  The worlds reachable from \<open>w0\<close> by invocations of the handler on any events, users
  uploading objects anywhere except the thumbnail area, and deletions.
\<close>

inductive reach :: "config \<Rightarrow> codec \<Rightarrow> world \<Rightarrow> world \<Rightarrow> bool" for cfg c w0 where
  start: "reach cfg c w0 w0"
| invoke: "reach cfg c w0 w \<Longrightarrow> lambda_handler cfg c event w = (res, w') \<Longrightarrow> reach cfg c w0 w'"
| upload: "reach cfg c w0 w \<Longrightarrow> \<not> (THUMBNAIL_BUCKET cfg = Some b \<and> take 11 k = ''thumbnails/'') \<Longrightarrow>
           reach cfg c w0 (w\<lparr>w_objects := (w_objects w)((b, k) \<mapsto> v)\<rparr>)"
| delete: "reach cfg c w0 w \<Longrightarrow> reach cfg c w0 (w\<lparr>w_objects := (w_objects w)(x := None)\<rparr>)"

lemma stores_only_handle_record:
  "stores_only (thumbnail_write cfg) (handle_record cfg c r)"
  unfolding handle_record_def process_record_def store_thumbnail_def record_error_def Let_def
  by (intro stores_only_catchE stores_only_bindE stores_only_case_prod stores_only_Let stores_only_put_object
      stores_only_liftE stores_only_get_object stores_only_now stores_only_ret stores_only_publish)
     (auto simp: thumbnail_write_def)

lemma stores_only_process_records:
  "stores_only (thumbnail_write cfg) (process_records cfg c rs)"
proof (induction rs)
  case Nil
  show ?case by (simp only: process_records.simps) (rule stores_only_ret)
next
  case (Cons r rs)
  show ?case by (simp only: process_records.simps) (intro stores_only_bindE stores_only_handle_record Cons.IH)
qed

lemma stores_only_lambda_handler:
  "stores_only (thumbnail_write cfg) (lambda_handler cfg c event)"
  unfolding lambda_handler_def handler_main_def critical_error_def
  by (intro stores_only_catchE stores_only_bindE stores_only_process_records stores_only_liftE stores_only_now
      stores_only_ret stores_only_publish)

lemma thumbnail_key_prefix: "take 11 (thumbnail_key k) = ''thumbnails/''"
  by (simp add: thumbnail_key_def)

lemma handler_changes:
  assumes "lambda_handler cfg c event w = (res, w')" and "w_objects w' x \<noteq> w_objects w x"
  shows "\<exists>tb k0 b0 buf gt. THUMBNAIL_BUCKET cfg = Some tb \<and> x = (tb, thumbnail_key k0) \<and>
           w_objects w' x = Some \<lparr>obj_body = buf, obj_content_type = Some ''image/jpeg'',
                  obj_metadata = thumbnail_metadata k0 b0, obj_generation_time = Some gt\<rparr>"
  using stores_onlyD [OF stores_only_lambda_handler assms] by (simp add: thumbnail_write_def)

text \<open>
  C8: Uploaded originals are never modified: an invocation leaves unchanged every object
  outside the thumbnail bucket and every object whose key does not start with
  \<open>thumbnails/\<close>, whatever the event and whatever fails.
\<close>

theorem handler_preserves_originals:
  assumes "lambda_handler cfg c event w = (res, w')"
    and "THUMBNAIL_BUCKET cfg \<noteq> Some b \<or> take 11 k \<noteq> ''thumbnails/''"
  shows "w_objects w' (b, k) = w_objects w (b, k)"
  using handler_changes [OF assms(1), of "(b, k)"] assms(2) thumbnail_key_prefix by auto

theorem handler_preserves_originals_witness:
  "\<exists>res w'. lambda_handler \<lparr>THUMBNAIL_BUCKET = Some ''in'', SNS_TOPIC_ARN = Some ''topic''\<rparr> \<lparr>decode = (\<lambda>_. Inr \<lparr>im_mode = ''RGB'', im_size = (400, 300), im_pixels = [], im_palette = (\<lambda>_. []), im_format = Some ''PNG''\<rparr>), resample = (\<lambda>_ _. []), encode = (\<lambda>_ _ _. [1, 2, 3])\<rparr> (JObj [(''Records'', JList [s3_record ''in'' ''a.png''])]) \<lparr>w_objects = [(''in'', ''a.png'') \<mapsto> \<lparr>obj_body = [0], obj_content_type = Some ''image/png'', obj_metadata = [], obj_generation_time = None\<rparr>], w_denied = [], w_sns_reject = (\<lambda>_ _. None), w_published = [], w_clock = 0\<rparr> = (res, w') \<and>
     (THUMBNAIL_BUCKET \<lparr>THUMBNAIL_BUCKET = Some ''in'', SNS_TOPIC_ARN = Some ''topic''\<rparr> \<noteq> Some ''in'' \<or> take 11 ''a.png'' \<noteq> ''thumbnails/'') \<and>
     w_objects w' (''in'', ''a.png'') = w_objects \<lparr>w_objects = [(''in'', ''a.png'') \<mapsto> \<lparr>obj_body = [0], obj_content_type = Some ''image/png'', obj_metadata = [], obj_generation_time = None\<rparr>], w_denied = [], w_sns_reject = (\<lambda>_ _. None), w_published = [], w_clock = 0\<rparr> (''in'', ''a.png'')"
proof -
  obtain res w' where run: "lambda_handler \<lparr>THUMBNAIL_BUCKET = Some ''in'', SNS_TOPIC_ARN = Some ''topic''\<rparr> \<lparr>decode = (\<lambda>_. Inr \<lparr>im_mode = ''RGB'', im_size = (400, 300), im_pixels = [], im_palette = (\<lambda>_. []), im_format = Some ''PNG''\<rparr>), resample = (\<lambda>_ _. []), encode = (\<lambda>_ _ _. [1, 2, 3])\<rparr> (JObj [(''Records'', JList [s3_record ''in'' ''a.png''])]) \<lparr>w_objects = [(''in'', ''a.png'') \<mapsto> \<lparr>obj_body = [0], obj_content_type = Some ''image/png'', obj_metadata = [], obj_generation_time = None\<rparr>], w_denied = [], w_sns_reject = (\<lambda>_ _. None), w_published = [], w_clock = 0\<rparr> = (res, w')" by fastforce
  have "take 11 ''a.png'' \<noteq> ''thumbnails/''" by simp
  then show ?thesis using handler_preserves_originals [OF run] run by blast
qed

lemma thumbs_valid_invoke:
  assumes "thumbs_valid cfg w" and "lambda_handler cfg c event w = (res, w')"
  shows "thumbs_valid cfg w'"
  unfolding thumbs_valid_def
proof (intro allI impI)
  fix tb k v
  assume tb: "THUMBNAIL_BUCKET cfg = Some tb" and pre: "take 11 k = ''thumbnails/''"
    and v: "w_objects w' (tb, k) = Some v"
  show "\<exists>k0 b0. k = thumbnail_key k0 \<and> obj_content_type v = Some ''image/jpeg'' \<and>
                 obj_metadata v = thumbnail_metadata k0 b0"
  proof (cases "w_objects w' (tb, k) = w_objects w (tb, k)")
    case True
    then show ?thesis using assms(1) tb pre v unfolding thumbs_valid_def by auto
  next
    case False
    then obtain tb' k0 b0 buf gt where "THUMBNAIL_BUCKET cfg = Some tb'" "(tb, k) = (tb', thumbnail_key k0)"
      "w_objects w' (tb, k) = Some \<lparr>obj_body = buf, obj_content_type = Some ''image/jpeg'',
                  obj_metadata = thumbnail_metadata k0 b0, obj_generation_time = Some gt\<rparr>"
      using handler_changes [OF assms(2) False] by blast
    then show ?thesis using v by (intro exI [of _ k0] exI [of _ b0]) auto
  qed
qed

lemma thumbs_valid_upload:
  assumes "thumbs_valid cfg w" and "\<not> (THUMBNAIL_BUCKET cfg = Some b \<and> take 11 k = ''thumbnails/'')"
  shows "thumbs_valid cfg (w\<lparr>w_objects := (w_objects w)((b, k) \<mapsto> v)\<rparr>)"
  using assms unfolding thumbs_valid_def by auto

lemma thumbs_valid_delete:
  "thumbs_valid cfg w \<Longrightarrow> thumbs_valid cfg (w\<lparr>w_objects := (w_objects w)(x := None)\<rparr>)"
  unfolding thumbs_valid_def by auto

text \<open>
  C9: The thumbnail area stays well formed across invocations: in every world reachable
  by any sequence of invocations (on any events, with any failures), user uploads outside
  the thumbnail area and deletions, every object of the thumbnail bucket under
  \<open>thumbnails/\<close> is a JPEG stored under the key derived from the original its metadata
  names, provided this held at the start.
\<close>

theorem reach_thumbs_valid:
  assumes "reach cfg c w0 w" and "thumbs_valid cfg w0"
  shows "thumbs_valid cfg w"
  using assms
proof (induction rule: reach.induct)
  case start
  then show ?case .
next
  case (invoke w event res w')
  then show ?case by (blast intro: thumbs_valid_invoke)
next
  case (upload w b k v)
  then show ?case by (blast intro: thumbs_valid_upload)
next
  case (delete w x)
  then show ?case by (blast intro: thumbs_valid_delete)
qed

theorem reach_thumbs_valid_witness:
  "\<exists>res w'. lambda_handler \<lparr>THUMBNAIL_BUCKET = Some ''thumbs'', SNS_TOPIC_ARN = Some ''topic''\<rparr> \<lparr>decode = (\<lambda>_. Inr \<lparr>im_mode = ''RGB'', im_size = (400, 300), im_pixels = [], im_palette = (\<lambda>_. []), im_format = Some ''PNG''\<rparr>), resample = (\<lambda>_ _. []), encode = (\<lambda>_ _ _. [1, 2, 3])\<rparr> (JObj [(''Records'', JList [s3_record ''in'' ''a.png''])]) \<lparr>w_objects = [(''in'', ''a.png'') \<mapsto> \<lparr>obj_body = [0], obj_content_type = Some ''image/png'', obj_metadata = [], obj_generation_time = None\<rparr>], w_denied = [], w_sns_reject = (\<lambda>_ _. None), w_published = [], w_clock = 0\<rparr> = (res, w') \<and>
     reach \<lparr>THUMBNAIL_BUCKET = Some ''thumbs'', SNS_TOPIC_ARN = Some ''topic''\<rparr> \<lparr>decode = (\<lambda>_. Inr \<lparr>im_mode = ''RGB'', im_size = (400, 300), im_pixels = [], im_palette = (\<lambda>_. []), im_format = Some ''PNG''\<rparr>), resample = (\<lambda>_ _. []), encode = (\<lambda>_ _ _. [1, 2, 3])\<rparr> \<lparr>w_objects = [(''in'', ''a.png'') \<mapsto> \<lparr>obj_body = [0], obj_content_type = Some ''image/png'', obj_metadata = [], obj_generation_time = None\<rparr>], w_denied = [], w_sns_reject = (\<lambda>_ _. None), w_published = [], w_clock = 0\<rparr> w' \<and>
     thumbs_valid \<lparr>THUMBNAIL_BUCKET = Some ''thumbs'', SNS_TOPIC_ARN = Some ''topic''\<rparr> \<lparr>w_objects = [(''in'', ''a.png'') \<mapsto> \<lparr>obj_body = [0], obj_content_type = Some ''image/png'', obj_metadata = [], obj_generation_time = None\<rparr>], w_denied = [], w_sns_reject = (\<lambda>_ _. None), w_published = [], w_clock = 0\<rparr> \<and>
     thumbs_valid \<lparr>THUMBNAIL_BUCKET = Some ''thumbs'', SNS_TOPIC_ARN = Some ''topic''\<rparr> w'"
proof -
  obtain res w' where run: "lambda_handler \<lparr>THUMBNAIL_BUCKET = Some ''thumbs'', SNS_TOPIC_ARN = Some ''topic''\<rparr> \<lparr>decode = (\<lambda>_. Inr \<lparr>im_mode = ''RGB'', im_size = (400, 300), im_pixels = [], im_palette = (\<lambda>_. []), im_format = Some ''PNG''\<rparr>), resample = (\<lambda>_ _. []), encode = (\<lambda>_ _ _. [1, 2, 3])\<rparr> (JObj [(''Records'', JList [s3_record ''in'' ''a.png''])]) \<lparr>w_objects = [(''in'', ''a.png'') \<mapsto> \<lparr>obj_body = [0], obj_content_type = Some ''image/png'', obj_metadata = [], obj_generation_time = None\<rparr>], w_denied = [], w_sns_reject = (\<lambda>_ _. None), w_published = [], w_clock = 0\<rparr> = (res, w')"
    by fastforce
  have r: "reach \<lparr>THUMBNAIL_BUCKET = Some ''thumbs'', SNS_TOPIC_ARN = Some ''topic''\<rparr> \<lparr>decode = (\<lambda>_. Inr \<lparr>im_mode = ''RGB'', im_size = (400, 300), im_pixels = [], im_palette = (\<lambda>_. []), im_format = Some ''PNG''\<rparr>), resample = (\<lambda>_ _. []), encode = (\<lambda>_ _ _. [1, 2, 3])\<rparr> \<lparr>w_objects = [(''in'', ''a.png'') \<mapsto> \<lparr>obj_body = [0], obj_content_type = Some ''image/png'', obj_metadata = [], obj_generation_time = None\<rparr>], w_denied = [], w_sns_reject = (\<lambda>_ _. None), w_published = [], w_clock = 0\<rparr> w'"
    by (rule reach.invoke [OF reach.start run])
  have v: "thumbs_valid \<lparr>THUMBNAIL_BUCKET = Some ''thumbs'', SNS_TOPIC_ARN = Some ''topic''\<rparr> \<lparr>w_objects = [(''in'', ''a.png'') \<mapsto> \<lparr>obj_body = [0], obj_content_type = Some ''image/png'', obj_metadata = [], obj_generation_time = None\<rparr>], w_denied = [], w_sns_reject = (\<lambda>_ _. None), w_published = [], w_clock = 0\<rparr>"
    by (simp add: thumbs_valid_def)
  show ?thesis using reach_thumbs_valid [OF r v] run r v by blast
qed

end
