(* ===== verification/LegacyHandler.thy ===== *)
theory LegacyHandler
  imports Handler
begin

text \<open>
  \<open>lambda_handler\<close> of src/lamcode.py (lines 17-61), the deployed predecessor of the
  documented handler: one \<open>try\<close> around the whole loop over \<open>event['Records']\<close>, no
  colour conversion, no metadata, the key keeps the source directory, and the
  \<open>except\<close> publishes the error notification without a guard of its own.
\<close>

text \<open>Lines 20-41: read the record, download, transform, derive the key, upload.\<close>

definition legacy_store :: "config \<Rightarrow> codec \<Rightarrow> json \<Rightarrow> (world, string \<times> string \<times> string) pyst" where
  "legacy_store cfg c record =
     bindE (liftE (s3_field record ''bucket'' ''name'')) (\<lambda>bucket.
     bindE (liftE (s3_field record ''object'' ''key'')) (\<lambda>key.
     bindE (get_object bucket key) (\<lambda>(b, k, image_data).
     bindE (liftE (legacy_transform c image_data)) (\<lambda>(img, thumbnail_buffer).
     let thumb_key = legacy_thumbnail_key k in
     bindE (put_object (THUMBNAIL_BUCKET cfg) thumb_key thumbnail_buffer ''image/jpeg'' [] None) (\<lambda>_.
     ret (b, k, thumb_key))))))"

text \<open>Lines 20-49: the body of the loop for one record; lines 43-49 notify.\<close>

definition legacy_process_record :: "config \<Rightarrow> codec \<Rightarrow> json \<Rightarrow> (world, unit) pyst" where
  "legacy_process_record cfg c record =
     bindE (legacy_store cfg c record) (\<lambda>(b, k, thumb_key).
     publish (SNS_TOPIC_ARN cfg) Subj_legacy_success
       (Legacy_success_note k b thumb_key (THUMBNAIL_BUCKET cfg)))"

text \<open>Line 19: the loop; the first exception leaves it.\<close>

fun legacy_records :: "config \<Rightarrow> codec \<Rightarrow> json list \<Rightarrow> (world, unit) pyst" where
  "legacy_records cfg c [] = ret ()"
| "legacy_records cfg c (r # rs) = bindE (legacy_process_record cfg c r) (\<lambda>_. legacy_records cfg c rs)"

text \<open>Lines 18-53: the \<open>try\<close> body.\<close>

definition legacy_main :: "config \<Rightarrow> codec \<Rightarrow> json \<Rightarrow> (world, response) pyst" where
  "legacy_main cfg c event =
     bindE (liftE (bindS (py_getitem event ''Records'') py_iter)) (\<lambda>records.
     bindE (legacy_records cfg c records) (\<lambda>_.
     ret \<lparr>statusCode = 200, body = Body_text ''Thumbnails generated successfully!''\<rparr>))"

text \<open>Lines 54-61: the \<open>except\<close>; its \<open>publish\<close> is not guarded.\<close>

definition legacy_error :: "config \<Rightarrow> exc \<Rightarrow> (world, response) pyst" where
  "legacy_error cfg e =
     bindE (publish (SNS_TOPIC_ARN cfg) Subj_legacy_error (Legacy_error_note e)) (\<lambda>_.
     ret \<lparr>statusCode = 500, body = Body_error_text e\<rparr>)"

definition legacy_handler :: "config \<Rightarrow> codec \<Rightarrow> json \<Rightarrow> (world, response) pyst" where
  "legacy_handler cfg c event = catchE (legacy_main cfg c event) (legacy_error cfg)"

lemma quiet_legacy_store: "quiet (legacy_store cfg c r)"
  unfolding legacy_store_def by blast

lemma legacy_process_record_Inl:
  assumes "legacy_process_record cfg c r w = (Inl e, w')"
  shows "w_published w' = w_published w \<and> w_sns_reject w' = w_sns_reject w"
  using assms quietD [OF quiet_legacy_store]
  by (auto simp: legacy_process_record_def bindE_def dest!: publish_Inl split: prod.splits sum.splits)

lemma legacy_error_result:
  "legacy_error cfg e w =
     (case publish (SNS_TOPIC_ARN cfg) Subj_legacy_error (Legacy_error_note e) w of
        (Inl e', w') \<Rightarrow> (Inl e', w')
      | (Inr _, w') \<Rightarrow> (Inr \<lparr>statusCode = 500, body = Body_error_text e\<rparr>, w'))"
  by (auto simp: legacy_error_def bindE_def split: prod.splits sum.splits)

subsection \<open>Properties of the legacy handler\<close>

text \<open>
  C31: The legacy handler does not isolate records: the first record that fails ends the
  invocation with status 500 and the error notification, and the records after it are
  never processed.
\<close>

theorem legacy_first_failure_aborts:
  assumes "py_getitem event ''Records'' = Inr (JList (r # rs))"
    and "legacy_process_record cfg c r w = (Inl e, w_err)"
    and "SNS_TOPIC_ARN cfg = Some t" and "w_sns_reject w t Subj_legacy_error = None"
  shows "legacy_handler cfg c event w =
           (Inr \<lparr>statusCode = 500, body = Body_error_text e\<rparr>,
            w_err\<lparr>w_published := w_published w @ [(t, Subj_legacy_error, Legacy_error_note e)]\<rparr>)"
proof -
  have "w_published w_err = w_published w \<and> w_sns_reject w_err = w_sns_reject w"
    using legacy_process_record_Inl [OF assms(2)] .
  then show ?thesis
    using assms by (simp add: legacy_handler_def legacy_main_def legacy_error_result publish_ok)
qed

theorem legacy_first_failure_aborts_witness:
  "py_getitem (JObj [(''Records'', JList [s3_record ''in'' ''a.png'', s3_record ''in'' ''b.png''])]) ''Records'' = Inr (JList [s3_record ''in'' ''a.png'', s3_record ''in'' ''b.png'']) \<and>
   legacy_process_record \<lparr>THUMBNAIL_BUCKET = Some ''thumbs'', SNS_TOPIC_ARN = Some ''topic''\<rparr> (\<lparr>decode = (\<lambda>_. Inl UnidentifiedImageError), resample = (\<lambda>_ _. []), encode = (\<lambda>_ _ _. [])\<rparr>) (s3_record ''in'' ''a.png'') \<lparr>w_objects = Map.empty, w_denied = [], w_sns_reject = (\<lambda>_ _. None), w_published = [], w_clock = 0\<rparr> = (Inl (ClientError ''NoSuchKey'' ''GetObject''), \<lparr>w_objects = Map.empty, w_denied = [], w_sns_reject = (\<lambda>_ _. None), w_published = [], w_clock = 0\<rparr>) \<and>
   SNS_TOPIC_ARN \<lparr>THUMBNAIL_BUCKET = Some ''thumbs'', SNS_TOPIC_ARN = Some ''topic''\<rparr> = Some ''topic'' \<and> w_sns_reject \<lparr>w_objects = Map.empty, w_denied = [], w_sns_reject = (\<lambda>_ _. None), w_published = [], w_clock = 0\<rparr> ''topic'' Subj_legacy_error = None \<and>
   legacy_handler \<lparr>THUMBNAIL_BUCKET = Some ''thumbs'', SNS_TOPIC_ARN = Some ''topic''\<rparr> (\<lparr>decode = (\<lambda>_. Inl UnidentifiedImageError), resample = (\<lambda>_ _. []), encode = (\<lambda>_ _ _. [])\<rparr>) (JObj [(''Records'', JList [s3_record ''in'' ''a.png'', s3_record ''in'' ''b.png''])]) \<lparr>w_objects = Map.empty, w_denied = [], w_sns_reject = (\<lambda>_ _. None), w_published = [], w_clock = 0\<rparr> =
     (Inr \<lparr>statusCode = 500, body = Body_error_text (ClientError ''NoSuchKey'' ''GetObject'')\<rparr>,
      \<lparr>w_objects = Map.empty, w_denied = [], w_sns_reject = (\<lambda>_ _. None), w_published = [], w_clock = 0\<rparr>\<lparr>w_published := w_published \<lparr>w_objects = Map.empty, w_denied = [], w_sns_reject = (\<lambda>_ _. None), w_published = [], w_clock = 0\<rparr> @
        [(''topic'', Subj_legacy_error, Legacy_error_note (ClientError ''NoSuchKey'' ''GetObject''))]\<rparr>)"
proof -
  have pr: "legacy_process_record \<lparr>THUMBNAIL_BUCKET = Some ''thumbs'', SNS_TOPIC_ARN = Some ''topic''\<rparr> (\<lparr>decode = (\<lambda>_. Inl UnidentifiedImageError), resample = (\<lambda>_ _. []), encode = (\<lambda>_ _ _. [])\<rparr>) (s3_record ''in'' ''a.png'') \<lparr>w_objects = Map.empty, w_denied = [], w_sns_reject = (\<lambda>_ _. None), w_published = [], w_clock = 0\<rparr> = (Inl (ClientError ''NoSuchKey'' ''GetObject''), \<lparr>w_objects = Map.empty, w_denied = [], w_sns_reject = (\<lambda>_ _. None), w_published = [], w_clock = 0\<rparr>)"
    by (simp add: legacy_process_record_def legacy_store_def get_object_def boto_str_def)
  show ?thesis
    using legacy_first_failure_aborts [OF _ pr, of "JObj [(''Records'', JList [s3_record ''in'' ''a.png'', s3_record ''in'' ''b.png''])]" "[s3_record ''in'' ''b.png'']" "''topic''"] pr
    by simp
qed

text \<open>
  C32: The legacy error path can itself fail: when the error notification cannot be
  published (here \<open>SNS_TOPIC_ARN\<close> unset), the invocation raises instead of answering.
\<close>

theorem legacy_error_publish_raises:
  assumes "legacy_main cfg c event w = (Inl e, w_err)" and "SNS_TOPIC_ARN cfg = None"
  shows "legacy_handler cfg c event w = (Inl (ParamValidationError ''TopicArn''), w_err)"
  using assms by (simp add: legacy_handler_def legacy_error_result publish_def)

theorem legacy_error_publish_raises_witness:
  "legacy_main \<lparr>THUMBNAIL_BUCKET = Some ''thumbs'', SNS_TOPIC_ARN = None\<rparr> (\<lparr>decode = (\<lambda>_. Inl UnidentifiedImageError), resample = (\<lambda>_ _. []), encode = (\<lambda>_ _ _. [])\<rparr>) (JObj []) \<lparr>w_objects = Map.empty, w_denied = [], w_sns_reject = (\<lambda>_ _. None), w_published = [], w_clock = 0\<rparr> = (Inl (KeyError ''Records''), \<lparr>w_objects = Map.empty, w_denied = [], w_sns_reject = (\<lambda>_ _. None), w_published = [], w_clock = 0\<rparr>) \<and> SNS_TOPIC_ARN \<lparr>THUMBNAIL_BUCKET = Some ''thumbs'', SNS_TOPIC_ARN = None\<rparr> = None \<and>
   legacy_handler \<lparr>THUMBNAIL_BUCKET = Some ''thumbs'', SNS_TOPIC_ARN = None\<rparr> (\<lparr>decode = (\<lambda>_. Inl UnidentifiedImageError), resample = (\<lambda>_ _. []), encode = (\<lambda>_ _ _. [])\<rparr>) (JObj []) \<lparr>w_objects = Map.empty, w_denied = [], w_sns_reject = (\<lambda>_ _. None), w_published = [], w_clock = 0\<rparr> = (Inl (ParamValidationError ''TopicArn''), \<lparr>w_objects = Map.empty, w_denied = [], w_sns_reject = (\<lambda>_ _. None), w_published = [], w_clock = 0\<rparr>)"
proof -
  have m: "legacy_main \<lparr>THUMBNAIL_BUCKET = Some ''thumbs'', SNS_TOPIC_ARN = None\<rparr> (\<lparr>decode = (\<lambda>_. Inl UnidentifiedImageError), resample = (\<lambda>_ _. []), encode = (\<lambda>_ _ _. [])\<rparr>) (JObj []) \<lparr>w_objects = Map.empty, w_denied = [], w_sns_reject = (\<lambda>_ _. None), w_published = [], w_clock = 0\<rparr> = (Inl (KeyError ''Records''), \<lparr>w_objects = Map.empty, w_denied = [], w_sns_reject = (\<lambda>_ _. None), w_published = [], w_clock = 0\<rparr>)"
    by (simp add: legacy_main_def dict_lookup_def)
  show ?thesis using legacy_error_publish_raises [OF m] m by simp
qed

text \<open>
  C33: The legacy handler reads \<open>event['Records']\<close>: an event without that field is an
  error (status 500 with \<open>KeyError\<close>), where the documented handler answers 200.
\<close>

theorem legacy_missing_records:
  assumes "dict_lookup kvs ''Records'' = None" and "SNS_TOPIC_ARN cfg = Some t"
    and "w_sns_reject w t Subj_legacy_error = None"
  shows "legacy_handler cfg c (JObj kvs) w =
           (Inr \<lparr>statusCode = 500, body = Body_error_text (KeyError ''Records'')\<rparr>,
            w\<lparr>w_published := w_published w @ [(t, Subj_legacy_error, Legacy_error_note (KeyError ''Records''))]\<rparr>)"
  using assms by (simp add: legacy_handler_def legacy_main_def legacy_error_result publish_ok)

theorem legacy_missing_records_witness:
  "dict_lookup [(''detail'', JStr ''x'')] ''Records'' = None \<and> SNS_TOPIC_ARN \<lparr>THUMBNAIL_BUCKET = Some ''thumbs'', SNS_TOPIC_ARN = Some ''topic''\<rparr> = Some ''topic'' \<and>
   w_sns_reject \<lparr>w_objects = Map.empty, w_denied = [], w_sns_reject = (\<lambda>_ _. None), w_published = [], w_clock = 0\<rparr> ''topic'' Subj_legacy_error = None \<and>
   legacy_handler \<lparr>THUMBNAIL_BUCKET = Some ''thumbs'', SNS_TOPIC_ARN = Some ''topic''\<rparr> (\<lparr>decode = (\<lambda>_. Inl UnidentifiedImageError), resample = (\<lambda>_ _. []), encode = (\<lambda>_ _ _. [])\<rparr>) (JObj [(''detail'', JStr ''x'')]) \<lparr>w_objects = Map.empty, w_denied = [], w_sns_reject = (\<lambda>_ _. None), w_published = [], w_clock = 0\<rparr> =
     (Inr \<lparr>statusCode = 500, body = Body_error_text (KeyError ''Records'')\<rparr>,
      \<lparr>w_objects = Map.empty, w_denied = [], w_sns_reject = (\<lambda>_ _. None), w_published = [], w_clock = 0\<rparr>\<lparr>w_published := w_published \<lparr>w_objects = Map.empty, w_denied = [], w_sns_reject = (\<lambda>_ _. None), w_published = [], w_clock = 0\<rparr> @
        [(''topic'', Subj_legacy_error, Legacy_error_note (KeyError ''Records''))]\<rparr>)"
  using legacy_missing_records [of "[(''detail'', JStr ''x'')]" "\<lparr>THUMBNAIL_BUCKET = Some ''thumbs'', SNS_TOPIC_ARN = Some ''topic''\<rparr>" "''topic''" "\<lparr>w_objects = Map.empty, w_denied = [], w_sns_reject = (\<lambda>_ _. None), w_published = [], w_clock = 0\<rparr>" "(\<lparr>decode = (\<lambda>_. Inl UnidentifiedImageError), resample = (\<lambda>_ _. []), encode = (\<lambda>_ _ _. [])\<rparr>)"] by simp

text \<open>
  C34: A record of the legacy handler whose object exists and transforms is stored under
  \<open>thumbnails/<directory>/<stem>_thumb.jpg\<close> in the thumbnail bucket without metadata,
  and one success notification is published.
\<close>

theorem legacy_record_success:
  assumes "s3_field r ''bucket'' ''name'' = Inr (JStr b)" and "s3_field r ''object'' ''key'' = Inr (JStr k)"
    and "b \<noteq> []" and "k \<noteq> []" and "b \<notin> set (w_denied w)" and "w_objects w (b, k) = Some obj"
    and "legacy_transform c (obj_body obj) = Inr (img, buf)"
    and "THUMBNAIL_BUCKET cfg = Some tb" and "tb \<noteq> []" and "tb \<notin> set (w_denied w)"
    and "SNS_TOPIC_ARN cfg = Some t" and "w_sns_reject w t Subj_legacy_success = None"
    and "length (legacy_thumbnail_key k) \<le> 1024"
  shows "legacy_process_record cfg c r w =
           (Inr (), w\<lparr>w_objects := (w_objects w)((tb, legacy_thumbnail_key k) \<mapsto>
                 \<lparr>obj_body = buf, obj_content_type = Some ''image/jpeg'', obj_metadata = [],
                  obj_generation_time = None\<rparr>),
              w_published := w_published w @
                [(t, Subj_legacy_success, Legacy_success_note k b (legacy_thumbnail_key k) (Some tb))]\<rparr>)"
proof -
  have "legacy_thumbnail_key k \<noteq> []" by (simp add: legacy_thumbnail_key_def)
  then show ?thesis
    using assms
    by (simp add: legacy_process_record_def legacy_store_def get_object_found put_object_ok publish_ok Let_def)
qed

theorem legacy_record_success_witness:
  "length (legacy_thumbnail_key ''up/a.png'') \<le> 1024 \<and>
   s3_field (s3_record ''in'' ''up/a.png'') ''bucket'' ''name'' = Inr (JStr ''in'') \<and>
   s3_field (s3_record ''in'' ''up/a.png'') ''object'' ''key'' = Inr (JStr ''up/a.png'') \<and>
   ''in'' \<noteq> [] \<and> ''up/a.png'' \<noteq> [] \<and> ''in'' \<notin> set (w_denied \<lparr>w_objects = [(''in'', ''up/a.png'') \<mapsto> \<lparr>obj_body = [0], obj_content_type = Some ''image/png'', obj_metadata = [], obj_generation_time = None\<rparr>], w_denied = [], w_sns_reject = (\<lambda>_ _. None), w_published = [], w_clock = 0\<rparr>) \<and>
   w_objects \<lparr>w_objects = [(''in'', ''up/a.png'') \<mapsto> \<lparr>obj_body = [0], obj_content_type = Some ''image/png'', obj_metadata = [], obj_generation_time = None\<rparr>], w_denied = [], w_sns_reject = (\<lambda>_ _. None), w_published = [], w_clock = 0\<rparr> (''in'', ''up/a.png'') = Some \<lparr>obj_body = [0], obj_content_type = Some ''image/png'', obj_metadata = [], obj_generation_time = None\<rparr> \<and>
   legacy_transform \<lparr>decode = (\<lambda>_. Inr \<lparr>im_mode = ''RGB'', im_size = (400, 300), im_pixels = [], im_palette = (\<lambda>_. []), im_format = Some ''PNG''\<rparr>), resample = (\<lambda>_ _. []), encode = (\<lambda>_ _ _. [1, 2, 3])\<rparr> (obj_body \<lparr>obj_body = [0], obj_content_type = Some ''image/png'', obj_metadata = [], obj_generation_time = None\<rparr>) = Inr (\<lparr>im_mode = ''RGB'', im_size = (200, 150), im_pixels = [], im_palette = (\<lambda>_. []), im_format = Some ''PNG''\<rparr>, [1, 2, 3]) \<and>
   THUMBNAIL_BUCKET \<lparr>THUMBNAIL_BUCKET = Some ''thumbs'', SNS_TOPIC_ARN = Some ''topic''\<rparr> = Some ''thumbs'' \<and> ''thumbs'' \<noteq> [] \<and>
   ''thumbs'' \<notin> set (w_denied \<lparr>w_objects = [(''in'', ''up/a.png'') \<mapsto> \<lparr>obj_body = [0], obj_content_type = Some ''image/png'', obj_metadata = [], obj_generation_time = None\<rparr>], w_denied = [], w_sns_reject = (\<lambda>_ _. None), w_published = [], w_clock = 0\<rparr>) \<and> SNS_TOPIC_ARN \<lparr>THUMBNAIL_BUCKET = Some ''thumbs'', SNS_TOPIC_ARN = Some ''topic''\<rparr> = Some ''topic'' \<and>
   w_sns_reject \<lparr>w_objects = [(''in'', ''up/a.png'') \<mapsto> \<lparr>obj_body = [0], obj_content_type = Some ''image/png'', obj_metadata = [], obj_generation_time = None\<rparr>], w_denied = [], w_sns_reject = (\<lambda>_ _. None), w_published = [], w_clock = 0\<rparr> ''topic'' Subj_legacy_success = None \<and>
   legacy_process_record \<lparr>THUMBNAIL_BUCKET = Some ''thumbs'', SNS_TOPIC_ARN = Some ''topic''\<rparr> \<lparr>decode = (\<lambda>_. Inr \<lparr>im_mode = ''RGB'', im_size = (400, 300), im_pixels = [], im_palette = (\<lambda>_. []), im_format = Some ''PNG''\<rparr>), resample = (\<lambda>_ _. []), encode = (\<lambda>_ _ _. [1, 2, 3])\<rparr> (s3_record ''in'' ''up/a.png'') \<lparr>w_objects = [(''in'', ''up/a.png'') \<mapsto> \<lparr>obj_body = [0], obj_content_type = Some ''image/png'', obj_metadata = [], obj_generation_time = None\<rparr>], w_denied = [], w_sns_reject = (\<lambda>_ _. None), w_published = [], w_clock = 0\<rparr> =
     (Inr (), \<lparr>w_objects = [(''in'', ''up/a.png'') \<mapsto> \<lparr>obj_body = [0], obj_content_type = Some ''image/png'', obj_metadata = [], obj_generation_time = None\<rparr>], w_denied = [], w_sns_reject = (\<lambda>_ _. None), w_published = [], w_clock = 0\<rparr>\<lparr>w_objects := (w_objects \<lparr>w_objects = [(''in'', ''up/a.png'') \<mapsto> \<lparr>obj_body = [0], obj_content_type = Some ''image/png'', obj_metadata = [], obj_generation_time = None\<rparr>], w_denied = [], w_sns_reject = (\<lambda>_ _. None), w_published = [], w_clock = 0\<rparr>)((''thumbs'', legacy_thumbnail_key ''up/a.png'') \<mapsto>
                 \<lparr>obj_body = [1, 2, 3], obj_content_type = Some ''image/jpeg'', obj_metadata = [],
                  obj_generation_time = None\<rparr>),
              w_published := w_published \<lparr>w_objects = [(''in'', ''up/a.png'') \<mapsto> \<lparr>obj_body = [0], obj_content_type = Some ''image/png'', obj_metadata = [], obj_generation_time = None\<rparr>], w_denied = [], w_sns_reject = (\<lambda>_ _. None), w_published = [], w_clock = 0\<rparr> @
                [(''topic'', Subj_legacy_success, Legacy_success_note ''up/a.png'' ''in'' (legacy_thumbnail_key ''up/a.png'') (Some ''thumbs''))]\<rparr>)"
proof -
  have tr: "legacy_transform \<lparr>decode = (\<lambda>_. Inr \<lparr>im_mode = ''RGB'', im_size = (400, 300), im_pixels = [], im_palette = (\<lambda>_. []), im_format = Some ''PNG''\<rparr>), resample = (\<lambda>_ _. []), encode = (\<lambda>_ _ _. [1, 2, 3])\<rparr> [0] = Inr (\<lparr>im_mode = ''RGB'', im_size = (200, 150), im_pixels = [], im_palette = (\<lambda>_. []), im_format = Some ''PNG''\<rparr>, [1, 2, 3])"
    by (simp add: legacy_transform_def image_open_def thumbnail_def THUMBNAIL_SIZE_def preserve_400_300 jpeg_save_def JPEG_RAWMODES_def)
  have l: "length (legacy_thumbnail_key ''up/a.png'') \<le> 1024"
    by (simp add: legacy_thumbnail_key_def splitext_def rfind_def skip_dots.simps)
  show ?thesis
    using legacy_record_success [of "s3_record ''in'' ''up/a.png''" "''in''" "''up/a.png''" "\<lparr>w_objects = [(''in'', ''up/a.png'') \<mapsto> \<lparr>obj_body = [0], obj_content_type = Some ''image/png'', obj_metadata = [], obj_generation_time = None\<rparr>], w_denied = [], w_sns_reject = (\<lambda>_ _. None), w_published = [], w_clock = 0\<rparr>" "\<lparr>obj_body = [0], obj_content_type = Some ''image/png'', obj_metadata = [], obj_generation_time = None\<rparr>" "\<lparr>decode = (\<lambda>_. Inr \<lparr>im_mode = ''RGB'', im_size = (400, 300), im_pixels = [], im_palette = (\<lambda>_. []), im_format = Some ''PNG''\<rparr>), resample = (\<lambda>_ _. []), encode = (\<lambda>_ _ _. [1, 2, 3])\<rparr>" "\<lparr>im_mode = ''RGB'', im_size = (200, 150), im_pixels = [], im_palette = (\<lambda>_. []), im_format = Some ''PNG''\<rparr>" "[1, 2, 3]" "\<lparr>THUMBNAIL_BUCKET = Some ''thumbs'', SNS_TOPIC_ARN = Some ''topic''\<rparr>" "''thumbs''" "''topic''"] tr
    by (simp add: l)
qed

end
