(* ===== verification/Refinement.thy ===== *)
theory Refinement
  imports Handler
begin

text \<open>
  The spec's Batch Orchestrator (sections 4.5 and 5) as an abstract machine, and the
  handler's record loop as a refinement of it. The abstract state keeps what the spec
  talks about: the stored objects, the denied buckets and the notifications, without
  timestamps. One abstract step takes a record through the pipeline
  (\<open>spec_pipeline\<close>: read, fetch, transform, upload) and either stores the thumbnail
  and adds a success notification, or adds a failure notification and stores nothing;
  the batch is the fold of that step over the records. \<open>abs_world\<close> maps a world to
  the abstract state by forgetting the clock, the timestamps and the generation times.
\<close>

record astate =
  a_objects :: "string \<times> string \<Rightarrow> s3_object option"
  a_denied :: "string list"
  a_notes :: "(string \<times> subject \<times> notification) list"

fun erase_note :: "notification \<Rightarrow> notification" where
  "erase_note (Success_note a b sz f tk d ts dims q _) = Success_note a b sz f tk d ts dims q 0"
| "erase_note (Record_error_note ty e _ b k) = Record_error_note ty e 0 b k"
| "erase_note (Critical_note e ty _ tb tp sz) = Critical_note e ty 0 tb tp sz"
| "erase_note n = n"

definition erase_obj :: "s3_object \<Rightarrow> s3_object" where
  "erase_obj v = v\<lparr>obj_generation_time := None\<rparr>"

definition abs_world :: "world \<Rightarrow> astate" where
  "abs_world w = \<lparr>a_objects = map_option erase_obj \<circ> w_objects w, a_denied = w_denied w,
                  a_notes = map (\<lambda>(t, s, n). (t, s, erase_note n)) (w_published w)\<rparr>"

definition world_of :: "astate \<Rightarrow> world" where
  "world_of s = \<lparr>w_objects = a_objects s, w_denied = a_denied s, w_sns_reject = (\<lambda>_ _. None),
                 w_published = [], w_clock = 0\<rparr>"

text \<open>The pipeline of one record (Received, Fetched, Transformed, Stored), as a value.\<close>

definition spec_pipeline ::
  "config \<Rightarrow> codec \<Rightarrow> json \<Rightarrow> astate \<Rightarrow> exc + string \<times> string \<times> byte list \<times> image \<times> byte list" where
  "spec_pipeline cfg c r s =
     bindS (s3_field r ''bucket'' ''name'') (\<lambda>bv.
     bindS (s3_field r ''object'' ''key'') (\<lambda>kv.
     bindS (fst (get_object bv kv (world_of s))) (\<lambda>(b, k, d).
     bindS (transform c d) (\<lambda>(img, buf).
     bindS (fst (put_object (THUMBNAIL_BUCKET cfg) (thumbnail_key k) buf ''image/jpeg''
                  (thumbnail_metadata k b) None (world_of s))) (\<lambda>_.
     Inr (b, k, d, img, buf))))))"

text \<open>One abstract step: Stored and Notified, or Failed and Notified(failure).\<close>

definition spec_record :: "config \<Rightarrow> string \<Rightarrow> codec \<Rightarrow> json \<Rightarrow> astate \<Rightarrow> astate" where
  "spec_record cfg t c r s =
     (case spec_pipeline cfg c r s of
        Inr (b, k, d, img, buf) \<Rightarrow>
          s\<lparr>a_objects := (a_objects s)((the (THUMBNAIL_BUCKET cfg), thumbnail_key k) \<mapsto>
               \<lparr>obj_body = buf, obj_content_type = Some ''image/jpeg'', obj_metadata = thumbnail_metadata k b,
                obj_generation_time = None\<rparr>),
            a_notes := a_notes s @
              [(t, Subj_success (basename k), erase_note (success_note cfg k b d img (thumbnail_key k) buf 0))]\<rparr>
      | Inl e \<Rightarrow>
          s\<lparr>a_notes := a_notes s @
              [(t, Subj_error (record_key r), Record_error_note (exc_name e) e 0 (record_bucket r) (record_key r))]\<rparr>)"

definition spec_batch :: "config \<Rightarrow> string \<Rightarrow> codec \<Rightarrow> json list \<Rightarrow> astate \<Rightarrow> astate" where
  "spec_batch cfg t c rs s = fold (spec_record cfg t c) rs s"

subsection \<open>The collaborators seen through the abstraction\<close>

lemma get_object_abs: "fst (get_object b k (world_of (abs_world w))) = fst (get_object b k w)"
  by (auto simp: get_object_def world_of_def abs_world_def erase_obj_def
      split: sum.splits prod.splits option.splits)

lemma put_object_abs:
  "fst (put_object bk key bd ct md gt (world_of (abs_world w))) = fst (put_object bk key bd ct md gt' w)"
  by (simp add: put_object_def world_of_def abs_world_def split: option.splits)

lemma comp_fun_upd_Some: "map_option f \<circ> m(x \<mapsto> v) = (map_option f \<circ> m)(x \<mapsto> f v)"
  by (rule ext) simp

lemma abs_world_simps [simp]:
  "a_objects (abs_world w) = map_option erase_obj \<circ> w_objects w"
  "a_denied (abs_world w) = w_denied w"
  "a_notes (abs_world w) = map (\<lambda>(t, s, n). (t, s, erase_note n)) (w_published w)"
  by (simp_all add: abs_world_def)

lemma abs_world_clock [simp]: "abs_world (w\<lparr>w_clock := n\<rparr>) = abs_world w"
  by (simp add: abs_world_def)

lemma get_object_result:
  "get_object b k w = (fst (get_object b k (world_of (abs_world w))), w)"
  using get_object_world [of b k w] get_object_abs [of b k w] by (metis prod.collapse)

subsection \<open>One record\<close>

lemma store_thumbnail_abs_Inl:
  assumes "spec_pipeline cfg c r (abs_world w) = Inl e"
  shows "\<exists>w1. store_thumbnail cfg c r w = (Inl e, w1) \<and> w_objects w1 = w_objects w \<and>
              w_published w1 = w_published w \<and> w_sns_reject w1 = w_sns_reject w \<and> w_denied w1 = w_denied w"
proof (cases "s3_field r ''bucket'' ''name''")
  case (Inl e1)
  then show ?thesis using assms by (simp add: spec_pipeline_def store_thumbnail_def)
next
  case (Inr bv)
  note bv = this
  show ?thesis
  proof (cases "s3_field r ''object'' ''key''")
    case (Inl e2)
    then show ?thesis using assms bv by (simp add: spec_pipeline_def store_thumbnail_def)
  next
    case (Inr kv)
    note kv = this
    show ?thesis
    proof (cases "fst (get_object bv kv (world_of (abs_world w)))")
      case (Inl e3)
      then show ?thesis using assms bv kv
        by (simp add: spec_pipeline_def store_thumbnail_def get_object_result [of bv kv w])
    next
      case (Inr g)
      then obtain b k d where g: "fst (get_object bv kv (world_of (abs_world w))) = Inr (b, k, d)"
        by (cases g) auto
      show ?thesis
      proof (cases "transform c d")
        case (Inl e4)
        then show ?thesis using assms bv kv g
          by (simp add: spec_pipeline_def store_thumbnail_def get_object_result [of bv kv w])
      next
        case (Inr t)
        then obtain img buf where t: "transform c d = Inr (img, buf)" by (cases t) auto
        let ?w1 = "w\<lparr>w_clock := Suc (w_clock w)\<rparr>"
        obtain p w2 where put: "put_object (THUMBNAIL_BUCKET cfg) (thumbnail_key k) buf ''image/jpeg''
                                  (thumbnail_metadata k b) (Some (w_clock w)) ?w1 = (p, w2)"
          by fastforce
        have same: "fst (put_object (THUMBNAIL_BUCKET cfg) (thumbnail_key k) buf ''image/jpeg''
                       (thumbnail_metadata k b) None (world_of (abs_world w))) = p"
          using put_object_abs [of "THUMBNAIL_BUCKET cfg" "thumbnail_key k" buf "''image/jpeg''"
              "thumbnail_metadata k b" None ?w1 "Some (w_clock w)"] put by simp
        show ?thesis
        proof (cases p)
          case (Inl e5)
          then have "w2 = ?w1" using put put_object_Inl by blast
          then show ?thesis using assms bv kv g t put same Inl
            by (simp add: spec_pipeline_def store_thumbnail_def get_object_result [of bv kv w] now_def Let_def)
        next
          case (Inr u)
          then show ?thesis using assms bv kv g t same by (simp add: spec_pipeline_def)
        qed
      qed
    qed
  qed
qed

lemma store_thumbnail_abs_Inr:
  assumes "spec_pipeline cfg c r (abs_world w) = Inr (b, k, d, img, buf)"
  shows "\<exists>tb. THUMBNAIL_BUCKET cfg = Some tb \<and>
           store_thumbnail cfg c r w =
             (Inr (b, k, d, img, thumbnail_key k, buf),
              w\<lparr>w_objects := (w_objects w)((tb, thumbnail_key k) \<mapsto>
                   \<lparr>obj_body = buf, obj_content_type = Some ''image/jpeg'', obj_metadata = thumbnail_metadata k b,
                    obj_generation_time = Some (w_clock w)\<rparr>), w_clock := Suc (w_clock w)\<rparr>)"
proof -
  obtain bv kv where bv: "s3_field r ''bucket'' ''name'' = Inr bv" and kv: "s3_field r ''object'' ''key'' = Inr kv"
    and g: "fst (get_object bv kv (world_of (abs_world w))) = Inr (b, k, d)"
    and t: "transform c d = Inr (img, buf)"
    and p: "fst (put_object (THUMBNAIL_BUCKET cfg) (thumbnail_key k) buf ''image/jpeg''
               (thumbnail_metadata k b) None (world_of (abs_world w))) = Inr ()"
    using assms by (auto simp: spec_pipeline_def bindS_Inr_iff)
  obtain tb where tb: "THUMBNAIL_BUCKET cfg = Some tb" and ok: "tb \<noteq> []" "tb \<notin> set (w_denied w)"
    and md: "list_all (\<lambda>(k, v). ascii_str k \<and> ascii_str v) (thumbnail_metadata k b)"
    and len: "length (thumbnail_key k) \<le> 1024"
    using p by (auto simp: put_object_def world_of_def split: option.splits if_splits)
  have "thumbnail_key k \<noteq> []" by (simp add: thumbnail_key_def)
  then show ?thesis
    using bv kv g t tb ok md len
    by (simp add: store_thumbnail_def get_object_result [of bv kv w] now_def Let_def put_object_ok)
qed

lemma handle_record_refines:
  assumes t: "SNS_TOPIC_ARN cfg = Some t" and rj: "\<forall>s. w_sns_reject w t s = None" and g: "gettable r"
  shows "\<exists>w'. handle_record cfg c r w = (Inr (), w') \<and>
           abs_world w' = spec_record cfg t c r (abs_world w) \<and> w_sns_reject w' = w_sns_reject w"
proof (cases "spec_pipeline cfg c r (abs_world w)")
  case (Inl e)
  then obtain w1 where st: "store_thumbnail cfg c r w = (Inl e, w1)" and o: "w_objects w1 = w_objects w"
    and p: "w_published w1 = w_published w" and j: "w_sns_reject w1 = w_sns_reject w"
    and d: "w_denied w1 = w_denied w"
    using store_thumbnail_abs_Inl by blast
  have pr: "process_record cfg c r w = (Inl e, w1)" using st by (simp add: process_record_def)
  have "record_error cfg r e w1 =
           (Inr (), w1\<lparr>w_clock := Suc (w_clock w1), w_published := w_published w1 @
              [(t, Subj_error (record_key r),
                Record_error_note (exc_name e) e (w_clock w1) (record_bucket r) (record_key r))]\<rparr>)"
    using t rj j g by (intro record_error_ok) simp_all
  then show ?thesis
    using pr Inl o p j d by (simp add: handle_record_def spec_record_def abs_world_def)
next
  case (Inr v)
  then obtain b k d img buf where v: "spec_pipeline cfg c r (abs_world w) = Inr (b, k, d, img, buf)"
    by (cases v) auto
  then obtain tb where tb: "THUMBNAIL_BUCKET cfg = Some tb" and st: "store_thumbnail cfg c r w =
             (Inr (b, k, d, img, thumbnail_key k, buf),
              w\<lparr>w_objects := (w_objects w)((tb, thumbnail_key k) \<mapsto>
                   \<lparr>obj_body = buf, obj_content_type = Some ''image/jpeg'', obj_metadata = thumbnail_metadata k b,
                    obj_generation_time = Some (w_clock w)\<rparr>), w_clock := Suc (w_clock w)\<rparr>)"
    using store_thumbnail_abs_Inr by blast
  have "handle_record cfg c r w =
          (Inr (), w\<lparr>w_objects := (w_objects w)((tb, thumbnail_key k) \<mapsto>
                   \<lparr>obj_body = buf, obj_content_type = Some ''image/jpeg'', obj_metadata = thumbnail_metadata k b,
                    obj_generation_time = Some (w_clock w)\<rparr>), w_clock := Suc (Suc (w_clock w)),
                w_published := w_published w @
                  [(t, Subj_success (basename k), success_note cfg k b d img (thumbnail_key k) buf (Suc (w_clock w)))]\<rparr>)"
    using st t rj by (simp add: handle_record_def process_record_def now_def publish_ok)
  then show ?thesis
    using v tb by (simp add: spec_record_def abs_world_def comp_fun_upd_Some erase_obj_def success_note_def)
qed

lemma process_records_refines:
  assumes "SNS_TOPIC_ARN cfg = Some t" and "\<forall>s. w_sns_reject w t s = None" and "\<forall>r \<in> set rs. gettable r"
  shows "\<exists>w'. process_records cfg c rs w = (Inr (), w') \<and> abs_world w' = spec_batch cfg t c rs (abs_world w)"
  using assms(2,3)
proof (induction rs arbitrary: w)
  case Nil
  then show ?case by (simp add: spec_batch_def)
next
  case (Cons r rs)
  obtain w1 where h: "handle_record cfg c r w = (Inr (), w1)"
    and a: "abs_world w1 = spec_record cfg t c r (abs_world w)" and j: "w_sns_reject w1 = w_sns_reject w"
    using handle_record_refines [OF assms(1)] Cons.prems by fastforce
  obtain w' where "process_records cfg c rs w1 = (Inr (), w')"
    and "abs_world w' = spec_batch cfg t c rs (abs_world w1)"
    using Cons.IH [of w1] Cons.prems j by auto
  then show ?case using h a by (simp add: spec_batch_def)
qed

text \<open>
  C2: The handler refines the spec's orchestrator: when SNS accepts the notifications
  and the event's records are S3 records, \<open>lambda_handler\<close> answers 200 with the
  number of records, and its effect on the stored objects and the notifications, with
  clock, timestamps and generation times forgotten, is the abstract batch: the fold of
  the abstract per-record step over the records in order.
\<close>

theorem lambda_handler_refines:
  assumes "SNS_TOPIC_ARN cfg = Some t" and "\<forall>s. w_sns_reject w t s = None"
    and "py_get event ''Records'' (JList []) = Inr (JList rs)" and "\<forall>r \<in> set rs. gettable r"
  shows "\<exists>w' ts. lambda_handler cfg c event w =
           (Inr \<lparr>statusCode = 200, body = Body_ok ''Thumbnail generation completed successfully'' (length rs) ts\<rparr>, w')
         \<and> abs_world w' = spec_batch cfg t c rs (abs_world w)"
proof -
  let ?w0 = "w\<lparr>w_clock := Suc (w_clock w)\<rparr>"
  obtain w' where pr: "process_records cfg c rs ?w0 = (Inr (), w')"
    and a: "abs_world w' = spec_batch cfg t c rs (abs_world ?w0)"
    using process_records_refines [OF assms(1), of ?w0 rs c] assms(2,4) by auto
  have "lambda_handler cfg c event w =
          (Inr \<lparr>statusCode = 200, body = Body_ok ''Thumbnail generation completed successfully''
                   (length rs) (w_clock w')\<rparr>, w'\<lparr>w_clock := Suc (w_clock w')\<rparr>)"
    using assms(3) pr by (simp add: lambda_handler_def handler_main_def now_def)
  then show ?thesis using a by simp
qed

theorem lambda_handler_refines_witness:
  "SNS_TOPIC_ARN \<lparr>THUMBNAIL_BUCKET = Some ''thumbs'', SNS_TOPIC_ARN = Some ''topic''\<rparr> = Some ''topic'' \<and> (\<forall>s. w_sns_reject \<lparr>w_objects = Map.empty, w_denied = [], w_sns_reject = (\<lambda>_ _. None), w_published = [], w_clock = 0\<rparr> ''topic'' s = None) \<and>
   py_get (JObj [(''Records'', JList [s3_record ''in'' ''a.png'', s3_record ''in'' ''b.png''])]) ''Records'' (JList []) = Inr (JList [s3_record ''in'' ''a.png'', s3_record ''in'' ''b.png'']) \<and>
   gettable (s3_record ''in'' ''a.png'') \<and> gettable (s3_record ''in'' ''b.png'') \<and>
   (\<exists>w' ts. lambda_handler \<lparr>THUMBNAIL_BUCKET = Some ''thumbs'', SNS_TOPIC_ARN = Some ''topic''\<rparr> \<lparr>decode = (\<lambda>_. Inl UnidentifiedImageError), resample = (\<lambda>_ _. []), encode = (\<lambda>_ _ _. [])\<rparr> (JObj [(''Records'', JList [s3_record ''in'' ''a.png'', s3_record ''in'' ''b.png''])]) \<lparr>w_objects = Map.empty, w_denied = [], w_sns_reject = (\<lambda>_ _. None), w_published = [], w_clock = 0\<rparr> =
      (Inr \<lparr>statusCode = 200, body = Body_ok ''Thumbnail generation completed successfully'' (length [s3_record ''in'' ''a.png'', s3_record ''in'' ''b.png'']) ts\<rparr>, w')
    \<and> abs_world w' = spec_batch \<lparr>THUMBNAIL_BUCKET = Some ''thumbs'', SNS_TOPIC_ARN = Some ''topic''\<rparr> ''topic'' \<lparr>decode = (\<lambda>_. Inl UnidentifiedImageError), resample = (\<lambda>_ _. []), encode = (\<lambda>_ _ _. [])\<rparr> [s3_record ''in'' ''a.png'', s3_record ''in'' ''b.png''] (abs_world \<lparr>w_objects = Map.empty, w_denied = [], w_sns_reject = (\<lambda>_ _. None), w_published = [], w_clock = 0\<rparr>))"
proof -
  have g: "\<forall>r \<in> set [s3_record ''in'' ''a.png'', s3_record ''in'' ''b.png'']. gettable r" by (simp add: gettable_def)
  show ?thesis
    using lambda_handler_refines [of "\<lparr>THUMBNAIL_BUCKET = Some ''thumbs'', SNS_TOPIC_ARN = Some ''topic''\<rparr>" "''topic''" "\<lparr>w_objects = Map.empty, w_denied = [], w_sns_reject = (\<lambda>_ _. None), w_published = [], w_clock = 0\<rparr>" "JObj [(''Records'', JList [s3_record ''in'' ''a.png'', s3_record ''in'' ''b.png''])]" "[s3_record ''in'' ''a.png'', s3_record ''in'' ''b.png'']" "\<lparr>decode = (\<lambda>_. Inl UnidentifiedImageError), resample = (\<lambda>_ _. []), encode = (\<lambda>_ _ _. [])\<rparr>"] g
    by (simp add: gettable_def)
qed

end
