(* ===== verification/Spec2Isabelle.thy ===== *)
theory Spec2Isabelle
  imports HandlerSafety LegacyHandler Refinement
begin

text \<open>
  Verification development of the S3/Lambda/SNS thumbnail generator.

  \<^bold>\<open>The program.\<close> src/docs/lambda-function.py is the handler the spec describes:
  \<open>lambda_handler\<close> iterates the \<open>Records\<close> of an S3 event; for each record it reads
  the bucket and key, fetches the object (\<open>s3_client.get_object\<close>), decodes it with
  Pillow, composites RGBA, LA and P images on a white RGB background, shrinks it with
  \<open>Image.thumbnail((200, 200))\<close>, encodes it as JPEG at quality 80, derives the
  destination key \<open>thumbnails/<base>_thumb.jpg\<close>, stores it in \<open>THUMBNAIL_BUCKET\<close>
  with metadata (\<open>put_object\<close>) and publishes a success notification to SNS. Each
  record runs in its own \<open>try\<close>; an exception there is reported by an error
  notification and the loop continues. An exception that escapes (also from the error
  notification itself) reaches the outer \<open>try\<close>, which publishes a critical
  notification (its own failure swallowed) and returns status 500.
  src/lamcode.py is an older, smaller handler with one \<open>try\<close> around the whole loop,
  no colour-mode conversion, no metadata and a key that keeps the source directory.

  \<^bold>\<open>Theories.\<close>
  \<^item> Prelude: Python exceptions (\<open>exc\<close>, \<open>exc_name\<close> for \<open>type(e).__name__\<close>) and
    the exception-and-state combinators \<open>ret\<close>, \<open>raise\<close>, \<open>liftE\<close>, \<open>bindE\<close>,
    \<open>catchE\<close> (a statement sequence and \<open>try/except\<close>) over \<open>('s, 'a) pyst\<close>.
  \<^item> PyPath: CPython's \<open>str.rfind\<close>, \<open>os.path.splitext\<close> (with its dot-skipping
    loop, \<open>skip_dots\<close>, a \<open>function\<close> with a measure) and \<open>os.path.basename\<close>;
    \<open>thumbnail_key\<close> (lambda-function.py lines 87-88) and \<open>legacy_thumbnail_key\<close>
    (lamcode.py line 34). Lemmas: the loop equals a reference split, root and extension
    concatenate back, the key is flat, independent of the directory, equal to the stem of
    the last component, never its own source; dot-files kept whole, keys that collide
    across directories and extensions, iteration (each round 6 bytes longer).
  \<^item> Geometry: Pillow's \<open>thumbnail\<close> size computation (\<open>preserve_aspect_ratio\<close>,
    \<open>round_aspect\<close> on rationals): fits the box, never enlarges, keeps the aspect ratio
    within a pixel, idempotent, \<open>ZeroDivisionError\<close> for height zero.
  \<^item> Imaging: images and a codec interface (\<open>decode\<close>, \<open>resample\<close>, \<open>encode\<close>: the
    theorems hold for every codec); \<open>convert_for_jpeg\<close> (lines 66-73) with Pillow's
    \<open>paste\<close> and its \<open>DIV255\<close>/\<open>BLEND\<close> arithmetic on bytes; the JPEG writer's
    guards; \<open>image_open\<close> (\<open>Image.open\<close>: the codec's decoder, then Pillow's
    refusal of an image with a zero dimension); \<open>transform\<close> (lines 61-83) and
    \<open>legacy_transform\<close> (lamcode.py 27-32).
  \<^item> SizeText: \<open>thumbnail_size_text\<close> (lines 241-249) with Python's \<open>.2f\<close>
    (round-half-even on the exact quotient) and integer formatting.
  \<^item> Event: the S3 event as JSON and Python's \<open>[]\<close>, \<open>.get\<close>, iteration and
    \<open>len\<close> on it, with their exceptions.
  \<^item> Services: the world (S3 objects, denied buckets, an SNS refusal oracle, the
    published messages, a clock advanced by each \<open>datetime.now()\<close>), \<open>get_object\<close>,
    \<open>put_object\<close> (with botocore's check that metadata is ASCII and S3's 1024-byte
    key limit), \<open>publish\<close>; frame predicates \<open>quiet\<close> (publishes nothing) and
    \<open>stores_only\<close> (what a step may write), each composed through the combinators.
  \<^item> Handler: \<open>store_thumbnail\<close>, \<open>process_record\<close>, \<open>record_error\<close>,
    \<open>handle_record\<close>, \<open>process_records\<close>, \<open>handler_main\<close>, \<open>critical_error\<close>,
    \<open>lambda_handler\<close>, one per block of lines 27-238, every call and clock read in code
    order. Lemmas: isolation and counting, the response always given, the empty, missing
    and malformed \<open>Records\<close>, the missing object, the success path, and the escape of a
    refused error notification.
  \<^item> HandlerSafety: what an invocation may write (only JPEGs under derived keys in the
    thumbnail bucket), originals never modified, and the
    invariant of the thumbnail area over every reachable sequence of invocations, user
    uploads and deletions (\<open>reach\<close>, an inductive predicate, by rule induction).
  \<^item> Refinement: the spec's Batch Orchestrator (sections 4.5, 5) as an abstract
    machine over stored objects and notifications without clock or timestamps
    (\<open>astate\<close>, \<open>spec_pipeline\<close>, \<open>spec_record\<close>, \<open>spec_batch\<close>), and the proof
    that \<open>lambda_handler\<close> refines it through the abstraction \<open>abs_world\<close> when SNS
    accepts the notifications.
  \<^item> LegacyHandler: lamcode.py's handler (\<open>legacy_store\<close>, \<open>legacy_process_record\<close>,
    \<open>legacy_records\<close>, \<open>legacy_main\<close>, \<open>legacy_error\<close>, \<open>legacy_handler\<close>): its
    success path (no metadata, directory kept in the key), abort at the first failure,
    the unguarded error publish, the missing \<open>Records\<close>.
  \<^item> This theory: properties across invocations: re-delivery rewrites the same
    thumbnail, and the trigger cascade when thumbnails land in a watched bucket: it
    stops at S3's key limit after (1024 - length (thumbnail_key k)) div 6 + 2
    invocations, or after one when the trigger excludes the prefix thumbnails/.

  \<^bold>\<open>Bounds and fuel.\<close> \<open>trigger_chain\<close> takes a number of rounds as fuel; its theorem
  gives the length for every fuel as the minimum of the fuel and the exact number of
  rounds before \<open>put_object\<close> refuses the key, so any fuel above that number (168 for
  source/photo.png) shows the whole cascade. No other definition needs fuel: every
  loop of the code is over a finite list or string. The success lemmas assume ASCII key
  and bucket names and a derived key within 1024 bytes, the inputs S3 accepts.

  \<^bold>\<open>Not modelled.\<close> Logging (no effect on results or on S3/SNS); the rendered text
  of the notifications (modelled by their fields); pixel resampling and JPEG entropy
  coding (the codec's \<open>resample\<close> and \<open>encode\<close>, left abstract); the timing of the
  clock beyond its order; boto3 client construction and \<open>os.environ\<close> reads (the
  \<open>config\<close> record); retries and concurrent invocations, which the code does not have;
  botocore's other parameter checks and the order among its validation errors (only the
  missing or empty bucket or key and non-ASCII metadata are modelled).
\<close>

subsection \<open>The S3 trigger on the destination bucket\<close>

text \<open>
  The keys of successive invocations when the thumbnails are written to the source bucket
  \<open>tb\<close> and its trigger fires the handler again for each new object that passes the
  filter \<open>flt\<close>. The invocation for key \<open>k\<close> writes its thumbnail as
  \<open>store_thumbnail\<close> does (bucket \<open>tb\<close>, key \<open>thumbnail_key k\<close>, metadata naming
  \<open>k\<close> and \<open>tb\<close>); only a successful \<open>put_object\<close> creates the object that triggers
  the next invocation. Decoding and resizing the previous thumbnail are taken to succeed,
  so the chain is as long as it can be. \<open>n\<close> bounds the number of rounds.
\<close>

fun trigger_chain :: "nat \<Rightarrow> (string \<Rightarrow> bool) \<Rightarrow> string \<Rightarrow> world \<Rightarrow> string \<Rightarrow> string list" where
  "trigger_chain 0 flt tb w k = []"
| "trigger_chain (Suc n) flt tb w k =
     (if flt k then
        k # (case fst (put_object (Some tb) (thumbnail_key k) [] ''image/jpeg'' (thumbnail_metadata k tb) None w) of
               Inr _ \<Rightarrow> trigger_chain n flt tb w (thumbnail_key k)
             | Inl _ \<Rightarrow> [])
      else [])"

subsection \<open>Properties across invocations\<close>

text \<open>
  C6: Re-delivery of a record is safe: processing a successful record a second time (S3
  may deliver an event more than once) succeeds again and rewrites the same thumbnail
  object, with only its generation time changed; the source object is not touched
  because a derived key is never its own source key.
\<close>

theorem redelivery_same_thumbnail:
  assumes "s3_field r ''bucket'' ''name'' = Inr (JStr b)" and "s3_field r ''object'' ''key'' = Inr (JStr k)"
    and "b \<noteq> []" and "k \<noteq> []" and "b \<notin> set (w_denied w)" and "w_objects w (b, k) = Some obj"
    and "transform c (obj_body obj) = Inr (img, buf)"
    and "THUMBNAIL_BUCKET cfg = Some tb" and "tb \<noteq> []" and "tb \<notin> set (w_denied w)"
    and "SNS_TOPIC_ARN cfg = Some t" and "w_sns_reject w t (Subj_success (basename k)) = None"
    and "ascii_str k" and "ascii_str b" and "length (thumbnail_key k) \<le> 1024"
  shows "\<exists>w1 w2 o1. handle_record cfg c r w = (Inr (), w1) \<and> handle_record cfg c r w1 = (Inr (), w2) \<and>
           w_objects w1 (tb, thumbnail_key k) = Some o1 \<and>
           w_objects w2 = (w_objects w1)((tb, thumbnail_key k) \<mapsto> o1\<lparr>obj_generation_time := Some (w_clock w1)\<rparr>)"
proof -
  let ?o = "\<lambda>g. \<lparr>obj_body = buf, obj_content_type = Some ''image/jpeg'', obj_metadata = thumbnail_metadata k b,
                  obj_generation_time = Some g\<rparr>"
  let ?w1 = "w\<lparr>w_objects := (w_objects w)((tb, thumbnail_key k) \<mapsto> ?o (w_clock w)),
               w_clock := Suc (Suc (w_clock w)),
               w_published := w_published w @
                 [(t, Subj_success (basename k), success_note cfg k b (obj_body obj) img (thumbnail_key k) buf
                                                   (Suc (w_clock w)))]\<rparr>"
  have h1: "handle_record cfg c r w = (Inr (), ?w1)"
    using store_thumbnail_ok [OF assms(1-10) assms(13-15)] assms(8,11,12)
    by (simp add: handle_record_def process_record_def now_def publish_ok)
  have src: "(tb, thumbnail_key k) \<noteq> (b, k)" using thumbnail_key_not_fixed [of k] by simp
  have ob: "w_objects ?w1 (b, k) = Some obj" using assms(6) src by (auto simp: fun_upd_apply)
  let ?w2 = "?w1\<lparr>w_objects := (w_objects ?w1)((tb, thumbnail_key k) \<mapsto> ?o (w_clock ?w1)),
                  w_clock := Suc (Suc (w_clock ?w1)),
                  w_published := w_published ?w1 @
                    [(t, Subj_success (basename k), success_note cfg k b (obj_body obj) img (thumbnail_key k) buf
                                                      (Suc (w_clock ?w1)))]\<rparr>"
  have h2: "handle_record cfg c r ?w1 = (Inr (), ?w2)"
    using store_thumbnail_ok [of r b k ?w1 obj c img buf cfg tb] ob assms(1-5,7-15)
    by (simp add: handle_record_def process_record_def now_def publish_ok)
  show ?thesis
  proof (intro exI conjI)
    show "handle_record cfg c r w = (Inr (), ?w1)" by (rule h1)
    show "handle_record cfg c r ?w1 = (Inr (), ?w2)" by (rule h2)
    show "w_objects ?w1 (tb, thumbnail_key k) = Some (?o (w_clock w))" by simp
    show "w_objects ?w2 = (w_objects ?w1)((tb, thumbnail_key k) \<mapsto>
            (?o (w_clock w))\<lparr>obj_generation_time := Some (w_clock ?w1)\<rparr>)" by simp
  qed
qed


theorem redelivery_same_thumbnail_witness:
  "ascii_str ''a.png'' \<and> ascii_str ''in'' \<and> length (thumbnail_key ''a.png'') \<le> 1024 \<and>
   s3_field (s3_record ''in'' ''a.png'') ''bucket'' ''name'' = Inr (JStr ''in'') \<and>
   s3_field (s3_record ''in'' ''a.png'') ''object'' ''key'' = Inr (JStr ''a.png'') \<and>
   ''in'' \<noteq> [] \<and>
   ''a.png'' \<noteq> [] \<and>
   ''in'' \<notin> set (w_denied \<lparr>w_objects = [(''in'', ''a.png'') \<mapsto> \<lparr>obj_body = [0], obj_content_type = Some ''image/png'', obj_metadata = [], obj_generation_time = None\<rparr>], w_denied = [], w_sns_reject = (\<lambda>_ _. None), w_published = [], w_clock = 5\<rparr>) \<and>
   w_objects \<lparr>w_objects = [(''in'', ''a.png'') \<mapsto> \<lparr>obj_body = [0], obj_content_type = Some ''image/png'', obj_metadata = [], obj_generation_time = None\<rparr>], w_denied = [], w_sns_reject = (\<lambda>_ _. None), w_published = [], w_clock = 5\<rparr> (''in'', ''a.png'') = Some \<lparr>obj_body = [0], obj_content_type = Some ''image/png'', obj_metadata = [], obj_generation_time = None\<rparr> \<and>
   transform \<lparr>decode = (\<lambda>_. Inr \<lparr>im_mode = ''RGB'', im_size = (400, 300), im_pixels = [], im_palette = (\<lambda>_. []), im_format = Some ''PNG''\<rparr>), resample = (\<lambda>_ _. []), encode = (\<lambda>_ _ _. [1, 2, 3])\<rparr> (obj_body \<lparr>obj_body = [0], obj_content_type = Some ''image/png'', obj_metadata = [], obj_generation_time = None\<rparr>) = Inr (\<lparr>im_mode = ''RGB'', im_size = (200, 150), im_pixels = [], im_palette = (\<lambda>_. []), im_format = Some ''PNG''\<rparr>, [1, 2, 3]) \<and>
   THUMBNAIL_BUCKET \<lparr>THUMBNAIL_BUCKET = Some ''in'', SNS_TOPIC_ARN = Some ''topic''\<rparr> = Some ''in'' \<and>
   ''in'' \<noteq> [] \<and>
   ''in'' \<notin> set (w_denied \<lparr>w_objects = [(''in'', ''a.png'') \<mapsto> \<lparr>obj_body = [0], obj_content_type = Some ''image/png'', obj_metadata = [], obj_generation_time = None\<rparr>], w_denied = [], w_sns_reject = (\<lambda>_ _. None), w_published = [], w_clock = 5\<rparr>) \<and>
   SNS_TOPIC_ARN \<lparr>THUMBNAIL_BUCKET = Some ''in'', SNS_TOPIC_ARN = Some ''topic''\<rparr> = Some ''topic'' \<and>
   w_sns_reject \<lparr>w_objects = [(''in'', ''a.png'') \<mapsto> \<lparr>obj_body = [0], obj_content_type = Some ''image/png'', obj_metadata = [], obj_generation_time = None\<rparr>], w_denied = [], w_sns_reject = (\<lambda>_ _. None), w_published = [], w_clock = 5\<rparr> ''topic'' (Subj_success (basename ''a.png'')) = None \<and>
   (\<exists>w1 w2 o1. handle_record \<lparr>THUMBNAIL_BUCKET = Some ''in'', SNS_TOPIC_ARN = Some ''topic''\<rparr> \<lparr>decode = (\<lambda>_. Inr \<lparr>im_mode = ''RGB'', im_size = (400, 300), im_pixels = [], im_palette = (\<lambda>_. []), im_format = Some ''PNG''\<rparr>), resample = (\<lambda>_ _. []), encode = (\<lambda>_ _ _. [1, 2, 3])\<rparr> (s3_record ''in'' ''a.png'') \<lparr>w_objects = [(''in'', ''a.png'') \<mapsto> \<lparr>obj_body = [0], obj_content_type = Some ''image/png'', obj_metadata = [], obj_generation_time = None\<rparr>], w_denied = [], w_sns_reject = (\<lambda>_ _. None), w_published = [], w_clock = 5\<rparr> = (Inr (), w1) \<and> handle_record \<lparr>THUMBNAIL_BUCKET = Some ''in'', SNS_TOPIC_ARN = Some ''topic''\<rparr> \<lparr>decode = (\<lambda>_. Inr \<lparr>im_mode = ''RGB'', im_size = (400, 300), im_pixels = [], im_palette = (\<lambda>_. []), im_format = Some ''PNG''\<rparr>), resample = (\<lambda>_ _. []), encode = (\<lambda>_ _ _. [1, 2, 3])\<rparr> (s3_record ''in'' ''a.png'') w1 = (Inr (), w2) \<and> w_objects w1 (''in'', thumbnail_key ''a.png'') = Some o1 \<and> w_objects w2 = (w_objects w1)((''in'', thumbnail_key ''a.png'') \<mapsto> o1\<lparr>obj_generation_time := Some (w_clock w1)\<rparr>))"
proof -
  have tr: "transform \<lparr>decode = (\<lambda>_. Inr \<lparr>im_mode = ''RGB'', im_size = (400, 300), im_pixels = [], im_palette = (\<lambda>_. []), im_format = Some ''PNG''\<rparr>), resample = (\<lambda>_ _. []), encode = (\<lambda>_ _ _. [1, 2, 3])\<rparr> [0] = Inr (\<lparr>im_mode = ''RGB'', im_size = (200, 150), im_pixels = [], im_palette = (\<lambda>_. []), im_format = Some ''PNG''\<rparr>, [1, 2, 3])"
    by (simp add: transform_def image_open_def convert_for_jpeg_def thumbnail_def THUMBNAIL_SIZE_def
        preserve_400_300 jpeg_save_def JPEG_RAWMODES_def)
  have a: "ascii_str ''a.png''" "ascii_str ''in''" by (simp_all add: ascii_str_def)
  have l: "length (thumbnail_key ''a.png'') \<le> 1024"
    by (simp add: thumbnail_key_def splitext_def basename_def rfind_def skip_dots.simps)
  show ?thesis
    using redelivery_same_thumbnail [of "s3_record ''in'' ''a.png''" "''in''" "''a.png''" "\<lparr>w_objects = [(''in'', ''a.png'') \<mapsto> \<lparr>obj_body = [0], obj_content_type = Some ''image/png'', obj_metadata = [], obj_generation_time = None\<rparr>], w_denied = [], w_sns_reject = (\<lambda>_ _. None), w_published = [], w_clock = 5\<rparr>" "\<lparr>obj_body = [0], obj_content_type = Some ''image/png'', obj_metadata = [], obj_generation_time = None\<rparr>" "\<lparr>decode = (\<lambda>_. Inr \<lparr>im_mode = ''RGB'', im_size = (400, 300), im_pixels = [], im_palette = (\<lambda>_. []), im_format = Some ''PNG''\<rparr>), resample = (\<lambda>_ _. []), encode = (\<lambda>_ _ _. [1, 2, 3])\<rparr>" "\<lparr>im_mode = ''RGB'', im_size = (200, 150), im_pixels = [], im_palette = (\<lambda>_. []), im_format = Some ''PNG''\<rparr>" "[1, 2, 3]" "\<lparr>THUMBNAIL_BUCKET = Some ''in'', SNS_TOPIC_ARN = Some ''topic''\<rparr>" "''in''" "''topic''"] tr
    by (simp add: a l)
qed

lemma length_thumbnail_key_iter:
  "length ((thumbnail_key ^^ Suc i) k) = length (thumbnail_key k) + 6 * i"
proof (induction i)
  case 0
  then show ?case by simp
next
  case (Suc i)
  have "(thumbnail_key ^^ Suc (Suc i)) k = thumbnail_key (thumbnail_key ((thumbnail_key ^^ i) k))"
    by (simp add: funpow_swap1)
  moreover have "(thumbnail_key ^^ Suc i) k = thumbnail_key ((thumbnail_key ^^ i) k)"
    by simp
  ultimately show ?case using Suc.IH length_thumbnail_key_twice by simp
qed

lemma thumbnail_key_iter_inj:
  assumes "(thumbnail_key ^^ i) k = (thumbnail_key ^^ j) k"
  shows "i = j"
proof -
  have "(thumbnail_key ^^ Suc i) k = (thumbnail_key ^^ Suc j) k"
    using assms by simp
  then have "length (thumbnail_key k) + 6 * i = length (thumbnail_key k) + 6 * j"
    by (metis length_thumbnail_key_iter)
  then show ?thesis by simp
qed

lemma set_basename: "set (basename p) \<subseteq> set p"
  by (simp add: basename_def set_drop_subset)

lemma ascii_thumbnail_key: "ascii_str k \<Longrightarrow> ascii_str (thumbnail_key k)"
  using set_basename [of "fst (splitext k)"] set_splitext_root [of k]
  by (auto simp: ascii_str_def list_all_iff thumbnail_key_def)

lemma ascii_thumbnail_key_iter: "ascii_str k \<Longrightarrow> ascii_str ((thumbnail_key ^^ i) k)"
  by (induction i) (simp_all add: ascii_thumbnail_key)

lemma put_thumbnail_chain:
  assumes "tb \<noteq> []" and "tb \<notin> set (w_denied w)" and "ascii_str tb" and "ascii_str k"
  shows "fst (put_object (Some tb) (thumbnail_key k) [] ''image/jpeg'' (thumbnail_metadata k tb) None w) =
           (if length (thumbnail_key k) \<le> 1024 then Inr () else Inl (ClientError ''KeyTooLongError'' ''PutObject''))"
proof -
  have "thumbnail_key k \<noteq> []" by (simp add: thumbnail_key_def)
  then show ?thesis
    using assms ascii_thumbnail_metadata [of k tb] by (simp add: put_object_def)
qed

lemma chain_rounds:
  "(L + 6 * i \<le> (1024::nat)) = (i < (if L \<le> 1024 then (1024 - L) div 6 + 1 else 0))"
  by auto

lemma trigger_chain_from:
  assumes "tb \<noteq> []" and "tb \<notin> set (w_denied w)" and "ascii_str tb" and "ascii_str k"
    and "i \<le> m" and "m = (if length (thumbnail_key k) \<le> 1024 then (1024 - length (thumbnail_key k)) div 6 + 1 else 0)"
  shows "trigger_chain n (\<lambda>_. True) tb w ((thumbnail_key ^^ i) k) =
           map (\<lambda>j. (thumbnail_key ^^ j) k) [i..<min (i + n) (Suc m)]"
  using assms(5)
proof (induction n arbitrary: i)
  case 0
  then show ?case by simp
next
  case (Suc n)
  have put: "fst (put_object (Some tb) (thumbnail_key ((thumbnail_key ^^ i) k)) [] ''image/jpeg''
                (thumbnail_metadata ((thumbnail_key ^^ i) k) tb) None w) =
             (if i < m then Inr () else Inl (ClientError ''KeyTooLongError'' ''PutObject''))"
    using put_thumbnail_chain [OF assms(1-3) ascii_thumbnail_key_iter [OF assms(4)], of i]
      length_thumbnail_key_iter [of i k] chain_rounds [of "length (thumbnail_key k)" i] assms(6)
    by simp
  have lt: "i < min (i + Suc n) (Suc m)" using Suc.prems by simp
  have up: "[i..<min (i + Suc n) (Suc m)] = i # [Suc i..<min (Suc i + n) (Suc m)]"
    using upt_conv_Cons [OF lt] by (simp only: add_Suc_right add_Suc)
  show ?case
  proof (cases "i < m")
    case True
    have "thumbnail_key ((thumbnail_key ^^ i) k) = (thumbnail_key ^^ Suc i) k" by simp
    then show ?thesis using True put Suc.IH [of "Suc i"] up by simp
  next
    case False
    then have "i = m" using Suc.prems by simp
    then have "[Suc i..<min (Suc i + n) (Suc m)] = []" by simp
    then show ?thesis using put up False by simp
  qed
qed

lemma trigger_chain_filtered_tail:
  "trigger_chain m (\<lambda>k. take 11 k \<noteq> ''thumbnails/'') tb w (thumbnail_key k) = []"
  by (cases m) (simp_all add: thumbnail_key_prefix)

text \<open>
  C7: Storing thumbnails in the source bucket with an unfiltered trigger makes the
  handler trigger itself: each round writes a key 6 bytes longer, all keys differ, and the
  cascade stops only when the derived key passes S3's 1024-byte limit, after
  \<open>(1024 - length (thumbnail_key k)) div 6 + 2\<close> invocations (168 for
  \<open>source/photo.png\<close>), each storing a thumbnail. Excluding the prefix \<open>thumbnails/\<close>
  from the trigger stops it after the first invocation.
\<close>

theorem trigger_chain_termination:
  assumes "tb \<noteq> []" and "tb \<notin> set (w_denied w)" and "ascii_str tb" and "ascii_str k"
  shows "length (trigger_chain n (\<lambda>_. True) tb w k) =
           min n (if length (thumbnail_key k) \<le> 1024 then (1024 - length (thumbnail_key k)) div 6 + 2 else 1) \<and>
         distinct (trigger_chain n (\<lambda>_. True) tb w k) \<and>
         length (trigger_chain n (\<lambda>k. take 11 k \<noteq> ''thumbnails/'') tb w k) \<le> 1"
proof -
  define m where "m = (if length (thumbnail_key k) \<le> 1024 then (1024 - length (thumbnail_key k)) div 6 + 1 else 0)"
  have ch: "trigger_chain n (\<lambda>_. True) tb w k = map (\<lambda>j. (thumbnail_key ^^ j) k) [0..<min n (Suc m)]"
    using trigger_chain_from [OF assms, of 0 m n] m_def by simp
  have "inj_on (\<lambda>j. (thumbnail_key ^^ j) k) {0..<min n (Suc m)}"
    by (rule inj_onI) (rule thumbnail_key_iter_inj)
  then have "distinct (trigger_chain n (\<lambda>_. True) tb w k)"
    by (simp add: ch distinct_map)
  moreover have "length (trigger_chain n (\<lambda>_. True) tb w k) =
           min n (if length (thumbnail_key k) \<le> 1024 then (1024 - length (thumbnail_key k)) div 6 + 2 else 1)"
    by (simp add: ch m_def)
  moreover have "length (trigger_chain n (\<lambda>k. take 11 k \<noteq> ''thumbnails/'') tb w k) \<le> 1"
    by (cases n) (simp_all add: trigger_chain_filtered_tail split: sum.splits)
  ultimately show ?thesis by blast
qed

lemma thumbnail_key_source_photo: "thumbnail_key ''source/photo.png'' = ''thumbnails/photo_thumb.jpg''"
  by (simp add: thumbnail_key_def splitext_def basename_def rfind_def skip_dots.simps)

theorem trigger_chain_termination_witness:
  "''in'' \<noteq> [] \<and> ''in'' \<notin> set (w_denied \<lparr>w_objects = Map.empty, w_denied = [], w_sns_reject = (\<lambda>_ _. None), w_published = [], w_clock = 0\<rparr>) \<and>
   ascii_str ''in'' \<and> ascii_str ''source/photo.png'' \<and>
   length (trigger_chain 1000 (\<lambda>_. True) ''in'' \<lparr>w_objects = Map.empty, w_denied = [], w_sns_reject = (\<lambda>_ _. None), w_published = [], w_clock = 0\<rparr> ''source/photo.png'') = 168 \<and>
   distinct (trigger_chain 1000 (\<lambda>_. True) ''in'' \<lparr>w_objects = Map.empty, w_denied = [], w_sns_reject = (\<lambda>_ _. None), w_published = [], w_clock = 0\<rparr> ''source/photo.png'') \<and>
   length (trigger_chain 1000 (\<lambda>k. take 11 k \<noteq> ''thumbnails/'') ''in'' \<lparr>w_objects = Map.empty, w_denied = [], w_sns_reject = (\<lambda>_ _. None), w_published = [], w_clock = 0\<rparr> ''source/photo.png'') \<le> 1"
proof -
  have a: "ascii_str ''in''" "ascii_str ''source/photo.png''" by (simp_all add: ascii_str_def)
  show ?thesis
    using trigger_chain_termination [of "''in''" "\<lparr>w_objects = Map.empty, w_denied = [], w_sns_reject = (\<lambda>_ _. None), w_published = [], w_clock = 0\<rparr>" "''source/photo.png''" 1000] a
    by (simp add: thumbnail_key_source_photo)
qed

end
